theory Spec2Isabelle
  imports Complex_Main "HOL-Library.Word"
begin

section \<open>Conventions\<close>

text \<open>
  The model follows the feature-complete control file (the unnamed source part with
  \<open>SETTINGS_VERSION 5\<close>, tap tempo and makeup gain), the older \<open>flick.cpp\<close> where the two
  differ in a way a property depends on, and both versions of the parameter-capture header.

  \<^item> A C \<open>float\<close> is the \<open>real\<close> number it denotes. Where the code compares a computed
    float with a threshold or stores a computed float that a property below is about
    (the soft takeover objects, the tap tempo conversion and the constants they use),
    every operation rounds its exact result to single precision with \<open>f32\<close>, and a float
    literal is the rounding of its decimal. The remaining arithmetic (parameter scaling,
    the subdivision multiplier, mixing, the effect engines) is read as exact: what is
    proved there is which formula the code applies and which state it leaves untouched.
  \<^item> \<open>uint32_t\<close> millisecond timestamps are \<open>32 word\<close>, so subtraction wraps as in C.
  \<^item> The global variables of the control file are the fields of one record, \<open>pedal\<close>,
    passed through every function and returned updated.
  \<^item> What the hardware layer reports during one call (knob positions, toggle switch
    positions, the millisecond clock, the values the \<open>Parameter\<close> objects compute from
    the knobs) is an explicit input record, \<open>Funbox\<close>.
  \<^item> A trailing underscore of a C++ member name is dropped (\<open>frozen_value_\<close> is
    \<open>frozen_value\<close>); where two records of the source share a field name, the second
    one carries a prefix, named where it is declared.
\<close>

section \<open>Single-precision arithmetic\<close>

text \<open>
  A binary32 number is an integer of at most 24 bits times a power of two \<open>2^e\<close>, the
  quantum, with \<open>-149 \<le> e \<le> 104\<close>. The quantum exponent of a real \<open>x\<close> is the least
  \<open>e \<ge> -149\<close> with \<open>\<bar>x\<bar> < 2^(e + 24)\<close>; it is found by searching upward from \<open>-149\<close>.
  An operation on floats delivers its exact result rounded to the nearest multiple of the
  quantum, a tie going to the even multiple (the default rounding mode of the Cortex-M7
  floating-point unit, where a \<open>float\<close> expression is evaluated in single precision).
  A result of magnitude \<open>2^128\<close> or more, which the hardware turns into an infinity, does
  not arise from knob positions in \<open>[0, 1]\<close> and millisecond intervals; the search stops
  at the largest quantum there.
\<close>

function f32_exponent_from :: "int \<Rightarrow> real \<Rightarrow> int" where
  "f32_exponent_from e x =
     (if 104 \<le> e \<or> \<bar>x\<bar> < 2 powi (e + 24) then e else f32_exponent_from (e + 1) x)"
  by pat_completeness auto
termination by (relation "measure (\<lambda>(e, x). nat (104 - e))") auto

declare f32_exponent_from.simps [simp del]

definition f32_exponent :: "real \<Rightarrow> int" where
  "f32_exponent x = f32_exponent_from (- 149) x"

definition round_half_even :: "real \<Rightarrow> int" where
  "round_half_even y =
     (let f = \<lfloor>y\<rfloor>; d = y - of_int f in
      if d < 1 / 2 then f else if 1 / 2 < d then f + 1 else if even f then f else f + 1)"

definition f32 :: "real \<Rightarrow> real" where
  "f32 x = of_int (round_half_even (x / 2 powi f32_exponent x)) * 2 powi f32_exponent x"

text \<open>The conversion of a \<open>uint32_t\<close> to \<open>float\<close> in a mixed expression.\<close>

definition uint32_to_float :: "32 word \<Rightarrow> real" where
  "uint32_to_float w = f32 (real (unat w))"

section \<open>Library primitives used by the control code\<close>

text \<open>
  Modelled from the spec: the DaisySP library (\<open>fclamp\<close>, \<open>fonepole\<close>) is not among the
  sources. They are the spec's clamp and its exponential approach toward a target:
  \<open>fclamp(in, min, max)\<close> is \<open>fmin(fmax(in, min), max)\<close> and \<open>fonepole(out, in, coeff)\<close> is
  \<open>out += coeff * (in - out)\<close>. The C cast \<open>(int) x\<close> of a float truncates toward zero.
\<close>

definition fclamp :: "real \<Rightarrow> real \<Rightarrow> real \<Rightarrow> real" where
  "fclamp x lo hi = min (max x lo) hi"

definition fonepole :: "real \<Rightarrow> real \<Rightarrow> real \<Rightarrow> real" where
  "fonepole out inp coeff = out + coeff * (inp - out)"

definition float_to_int :: "real \<Rightarrow> int" where
  "float_to_int x = (if x < 0 then - \<lfloor>- x\<rfloor> else \<lfloor>x\<rfloor>)"

section \<open>Constants and enumerations\<close>

definition SETTINGS_VERSION :: int where "SETTINGS_VERSION = 5"

definition SAMPLE_RATE :: real where "SAMPLE_RATE = 48000"
definition MAX_DELAY :: nat where "MAX_DELAY = 96000"

definition TREMOLO_SPEED_MIN :: real where "TREMOLO_SPEED_MIN = f32 (2 / 10)"
definition TREMOLO_SPEED_MAX :: real where "TREMOLO_SPEED_MAX = 16"

definition DELAY_WET_MIX_ATTENUATION :: real where "DELAY_WET_MIX_ATTENUATION = 333 / 1000"
definition DELAY_DRY_WET_PERCENT_MAX :: real where "DELAY_DRY_WET_PERCENT_MAX = 100"

definition TAP_TEMPO_TIMEOUT_MS :: "32 word" where "TAP_TEMPO_TIMEOUT_MS = 5000"
definition TAP_TEMPO_MIN_INTERVAL_MS :: "32 word" where "TAP_TEMPO_MIN_INTERVAL_MS = 20"
definition TAP_TEMPO_MAX_INTERVAL_MS :: "32 word" where "TAP_TEMPO_MAX_INTERVAL_MS = 4000"
definition MS_PER_SECOND :: real where "MS_PER_SECOND = 1000"
definition TAP_TEMPO_SAMPLES_MIN :: real where
  "TAP_TEMPO_SAMPLES_MIN =
     f32 (f32 (uint32_to_float TAP_TEMPO_MIN_INTERVAL_MS / MS_PER_SECOND) * SAMPLE_RATE)"
definition TAP_TEMPO_SAMPLES_MAX :: real where
  "TAP_TEMPO_SAMPLES_MAX =
     f32 (f32 (uint32_to_float TAP_TEMPO_MAX_INTERVAL_MS / MS_PER_SECOND) * SAMPLE_RATE)"

definition KNOB_TAKEOVER_THRESHOLD :: real where "KNOB_TAKEOVER_THRESHOLD = f32 (5 / 100)"

datatype PedalMode =
  PEDAL_MODE_NORMAL | PEDAL_MODE_EDIT_REVERB | PEDAL_MODE_EDIT_MONO_STEREO | PEDAL_MODE_TAP_TEMPO

datatype DelaySubdivision =
  DELAY_SUBDIV_QUARTER_TRIPLET | DELAY_SUBDIV_NORMAL | DELAY_SUBDIV_DOTTED_EIGHTH

datatype ReverbKnobMode = REVERB_KNOB_ALL_DRY | REVERB_KNOB_DRY_WET_MIX | REVERB_KNOB_ALL_WET

datatype TremoloMode = TREMOLO_SINE | TREMOLO_HARMONIC | TREMOLO_SQUARE

datatype Waveform = WAVE_SIN | WAVE_SQUARE_ROUNDED

text \<open>
  \<open>MonoStereoMode\<close> and \<open>TremDelMakeUpGain\<close> are the two enumerations that are stored in
  the settings record as \<open>int\<close> and cast back without a check in some places, so their
  variables are integers here, with the enumerators as named constants.
\<close>

definition MS_MODE_MIMO :: int where "MS_MODE_MIMO = 0"
definition MS_MODE_MISO :: int where "MS_MODE_MISO = 1"
definition MS_MODE_SISO :: int where "MS_MODE_SISO = 2"

definition MAKEUP_GAIN_NONE :: int where "MAKEUP_GAIN_NONE = 0"
definition MAKEUP_GAIN_NORMAL :: int where "MAKEUP_GAIN_NORMAL = 1"
definition MAKEUP_GAIN_HEAVY :: int where "MAKEUP_GAIN_HEAVY = 2"

section \<open>The hardware layer, as an input\<close>

text \<open>
  Modelled from the spec: \<open>daisy_hardware.h\<close> (class \<open>Funbox\<close>) is not among the sources.
  The spec gives its contract: debounced switch states, normalised knob readings in
  \<open>[0, 1]\<close>, a millisecond monotonic clock. A toggle switch has three positions; the
  comments of the lookup tables give their indices: 0 is UP/RIGHT, 1 is MIDDLE, 2 is
  DOWN/LEFT.
\<close>

datatype Knob = KNOB_1 | KNOB_2 | KNOB_3 | KNOB_4 | KNOB_5 | KNOB_6

datatype Toggleswitch = TOGGLESWITCH_1 | TOGGLESWITCH_2 | TOGGLESWITCH_3

datatype ToggleswitchPosition = TOGGLESWITCH_RIGHT | TOGGLESWITCH_MIDDLE | TOGGLESWITCH_LEFT

datatype Switches = FOOTSWITCH_1 | FOOTSWITCH_2

fun position_index :: "ToggleswitchPosition \<Rightarrow> nat" where
  "position_index TOGGLESWITCH_RIGHT = 0"
| "position_index TOGGLESWITCH_MIDDLE = 1"
| "position_index TOGGLESWITCH_LEFT = 2"

text \<open>
  \<open>knobs hw k\<close> is \<open>hw.knobs[k].Value()\<close>, \<open>toggleswitch hw t\<close> is
  \<open>hw.GetToggleswitchPosition(t)\<close>, \<open>now hw\<close> is \<open>System::GetNow()\<close>. The remaining
  fields are what \<open>Process()\<close> of the \<open>Parameter\<close> object of the same name returns
  (libDaisy maps the knob reading into the parameter's range); \<open>p_knob hw k\<close> stands for
  \<open>p_knob_1\<close> to \<open>p_knob_6\<close>.
\<close>

record Funbox =
  knobs :: "Knob \<Rightarrow> real"
  toggleswitch :: "Toggleswitch \<Rightarrow> ToggleswitchPosition"
  now :: "32 word"
  p_verb_amt :: real
  p_trem_speed :: real
  p_trem_depth :: real
  p_delay_time :: real
  p_delay_feedback :: real
  p_delay_amt :: real
  p_knob :: "Knob \<Rightarrow> real"

definition kReverbKnobMap :: "ReverbKnobMode list" where
  "kReverbKnobMap = [REVERB_KNOB_ALL_WET, REVERB_KNOB_DRY_WET_MIX, REVERB_KNOB_ALL_DRY]"

definition kMakeupGainMap :: "int list" where
  "kMakeupGainMap = [MAKEUP_GAIN_HEAVY, MAKEUP_GAIN_NORMAL, MAKEUP_GAIN_NONE]"

definition kTremoloModeMap :: "TremoloMode list" where
  "kTremoloModeMap = [TREMOLO_SQUARE, TREMOLO_HARMONIC, TREMOLO_SINE]"

definition kDelaySubdivisionMap :: "DelaySubdivision list" where
  "kDelaySubdivisionMap =
     [DELAY_SUBDIV_DOTTED_EIGHTH, DELAY_SUBDIV_NORMAL, DELAY_SUBDIV_QUARTER_TRIPLET]"

definition kMonoStereoModeMap :: "int list" where
  "kMonoStereoModeMap = [MS_MODE_SISO, MS_MODE_MISO, MS_MODE_MIMO]"

section \<open>Soft takeover objects\<close>

text \<open>
  The knob readings, the recorded positions and the thresholds of these objects are
  floats. A real in their place stands for the binary32 number nearest to it (itself, if
  it is one): a comparison rounds its operands, subtracts, and rounds the difference, so
  that a reading given as 0.55 behaves as the float \<open>0.55f\<close>. \<open>movement x b\<close> is the
  expression \<open>fabs(x - b)\<close> of the three \<open>Process\<close> and \<open>checkTakeover\<close> functions.
\<close>

definition movement :: "real \<Rightarrow> real \<Rightarrow> real" where
  "movement x b = \<bar>f32 (f32 x - f32 b)\<bar>"

subsection \<open>KnobCapture, the version with \<open>is_active_\<close>\<close>

text \<open>
  The object holds a reference to a \<open>Parameter\<close>; \<open>knob_.Process()\<close> is the raw knob
  position, passed here as the argument \<open>knob_reading\<close>.
\<close>

record KnobCapture =
  frozen_value :: real
  baseline_control :: real
  is_active :: bool
  threshold :: real

definition KnobCapture_new :: "real \<Rightarrow> KnobCapture" where
  "KnobCapture_new th =
     \<lparr>frozen_value = 0, baseline_control = 0, is_active = True, threshold = th\<rparr>"

definition Capture :: "real \<Rightarrow> real \<Rightarrow> KnobCapture \<Rightarrow> KnobCapture" where
  "Capture knob_reading current_param_value kc =
     kc\<lparr>frozen_value := current_param_value,
        baseline_control := knob_reading,
        is_active := False\<rparr>"

definition Process :: "real \<Rightarrow> real \<Rightarrow> KnobCapture \<Rightarrow> real \<times> KnobCapture" where
  "Process knob_reading current_param_value kc =
     (let current_control = knob_reading in
      if is_active kc then (current_param_value, kc)
      else if movement current_control (baseline_control kc) \<ge> f32 (threshold kc)
        then (current_param_value, kc\<lparr>is_active := True\<rparr>)
      else (frozen_value kc, kc))"

definition Reset :: "KnobCapture \<Rightarrow> KnobCapture" where
  "Reset kc = kc\<lparr>is_active := True\<rparr>"

text \<open>Successive \<open>Process\<close> calls; each input is the knob reading and the live value.\<close>

fun Process_calls :: "KnobCapture \<Rightarrow> (real \<times> real) list \<Rightarrow> real list" where
  "Process_calls kc [] = []"
| "Process_calls kc (x # xs) =
     (case Process (fst x) (snd x) kc of (out, kc') \<Rightarrow> out # Process_calls kc' xs)"

subsection \<open>KnobCapture, the version with \<open>is_frozen_\<close>\<close>

text \<open>
  The second version of the header. Its fields carry the prefix \<open>kc2_\<close>. \<open>Process()\<close>
  takes no argument and returns a raw knob value: the current one, or \<open>frozen_knob_\<close>.
\<close>

record KnobCapture2 =
  kc2_frozen_knob :: real
  kc2_frozen_value :: real
  kc2_is_frozen :: bool
  kc2_threshold :: real

definition KnobCapture2_new :: "real \<Rightarrow> KnobCapture2" where
  "KnobCapture2_new th =
     \<lparr>kc2_frozen_knob = 0, kc2_frozen_value = 0, kc2_is_frozen = False, kc2_threshold = th\<rparr>"

definition Capture2 :: "real \<Rightarrow> real \<Rightarrow> KnobCapture2 \<Rightarrow> KnobCapture2" where
  "Capture2 knob_reading v kc =
     kc\<lparr>kc2_frozen_knob := knob_reading, kc2_frozen_value := v, kc2_is_frozen := True\<rparr>"

definition GetFrozenValue2 :: "KnobCapture2 \<Rightarrow> real" where
  "GetFrozenValue2 kc = kc2_frozen_value kc"

definition Process2 :: "real \<Rightarrow> KnobCapture2 \<Rightarrow> real \<times> KnobCapture2" where
  "Process2 knob_reading kc =
     (let current_value = knob_reading in
      if \<not> kc2_is_frozen kc then (current_value, kc)
      else if movement current_value (kc2_frozen_knob kc) \<ge> f32 (kc2_threshold kc)
        then (current_value, kc\<lparr>kc2_is_frozen := False\<rparr>)
      else (kc2_frozen_knob kc, kc))"

definition Reset2 :: "KnobCapture2 \<Rightarrow> KnobCapture2" where
  "Reset2 kc = kc\<lparr>kc2_is_frozen := False\<rparr>"

fun Process2_calls :: "KnobCapture2 \<Rightarrow> real list \<Rightarrow> real list" where
  "Process2_calls kc [] = []"
| "Process2_calls kc (x # xs) =
     (case Process2 x kc of (out, kc') \<Rightarrow> out # Process2_calls kc' xs)"

subsection \<open>KnobTakeover and SwitchChangeDetector of the control file\<close>

text \<open>
  \<open>knob\<close> is the pointer to the analog control: \<open>None\<close> is \<open>nullptr\<close>, \<open>Some k\<close> points to
  \<open>hw.knobs[k]\<close>. \<open>checkTakeover\<close> returns its result and the updated object.
\<close>

record KnobTakeover =
  knob :: "Knob option"
  entry_value :: real
  taken_over :: bool

definition KnobTakeover_new :: KnobTakeover where
  "KnobTakeover_new = \<lparr>knob = None, entry_value = 0, taken_over = False\<rparr>"

definition KnobTakeover_init :: "Knob \<Rightarrow> KnobTakeover \<Rightarrow> KnobTakeover" where
  "KnobTakeover_init knobRef kt = kt\<lparr>knob := Some knobRef\<rparr>"

definition capture :: "Funbox \<Rightarrow> KnobTakeover \<Rightarrow> KnobTakeover" where
  "capture hw kt =
     (case knob kt of
        None \<Rightarrow> kt
      | Some k \<Rightarrow> kt\<lparr>entry_value := knobs hw k, taken_over := False\<rparr>)"

definition checkTakeover :: "Funbox \<Rightarrow> real \<Rightarrow> KnobTakeover \<Rightarrow> bool \<times> KnobTakeover" where
  "checkTakeover hw th kt =
     (case knob kt of
        None \<Rightarrow> (False, kt)
      | Some k \<Rightarrow>
          (let currentValue = knobs hw k in
           if \<not> taken_over kt then
             (if movement currentValue (entry_value kt) > f32 th
                then (True, kt\<lparr>taken_over := True\<rparr>)
              else (False, kt))
           else (True, kt)))"

text \<open>Successive \<open>checkTakeover\<close> calls, one per hardware snapshot.\<close>

fun checkTakeover_calls :: "real \<Rightarrow> KnobTakeover \<Rightarrow> Funbox list \<Rightarrow> bool list" where
  "checkTakeover_calls th kt [] = []"
| "checkTakeover_calls th kt (hw # hws) =
     (case checkTakeover hw th kt of (r, kt') \<Rightarrow> r # checkTakeover_calls th kt' hws)"

text \<open>\<open>hw_ptr\<close> is \<open>True\<close> when the pointer to the hardware object has been set.\<close>

record SwitchChangeDetector =
  hw_ptr :: bool
  switch_index :: Toggleswitch
  entry_position :: ToggleswitchPosition
  changed :: bool

definition SwitchChangeDetector_new :: SwitchChangeDetector where
  "SwitchChangeDetector_new =
     \<lparr>hw_ptr = False, switch_index = TOGGLESWITCH_1,
      entry_position = TOGGLESWITCH_RIGHT, changed = False\<rparr>"

definition SwitchChangeDetector_init ::
  "Toggleswitch \<Rightarrow> SwitchChangeDetector \<Rightarrow> SwitchChangeDetector" where
  "SwitchChangeDetector_init switchIdx d = d\<lparr>hw_ptr := True, switch_index := switchIdx\<rparr>"

definition capture_switch :: "Funbox \<Rightarrow> SwitchChangeDetector \<Rightarrow> SwitchChangeDetector" where
  "capture_switch hw d =
     (if hw_ptr d
        then d\<lparr>entry_position := toggleswitch hw (switch_index d), changed := False\<rparr>
      else d)"

definition checkChange :: "Funbox \<Rightarrow> SwitchChangeDetector \<Rightarrow> bool \<times> SwitchChangeDetector" where
  "checkChange hw d =
     (if \<not> hw_ptr d then (False, d)
      else
        (let currentPosition = toggleswitch hw (switch_index d) in
         if \<not> changed d \<and> currentPosition \<noteq> entry_position d
           then (True, d\<lparr>changed := True\<rparr>)
         else (changed d, d)))"

section \<open>Persistent settings\<close>

text \<open>
  The \<open>Settings\<close> struct. Its fields \<open>mono_stereo_mode\<close> and \<open>bypass_delay\<close> share their
  names with global variables and carry the prefix \<open>saved_\<close> here.
\<close>

record Settings =
  version :: int
  decay :: real
  diffusion :: real
  input_cutoff_freq :: real
  tank_cutoff_freq :: real
  tank_mod_speed :: real
  tank_mod_depth :: real
  tank_mod_shape :: real
  pre_delay :: real
  saved_mono_stereo_mode :: int
  makeup_gain_mode :: int
  bypass_reverb :: bool
  saved_bypass_delay :: bool
  bypass_tremolo :: bool

text \<open>
  Modelled from the spec: libDaisy's \<open>PersistentStorage\<close> is not among the sources. The
  spec names its primitives (durable-storage read, write and restore-defaults). The
  object keeps the working copy that \<open>GetSettings()\<close> returns by reference and the
  defaults handed to \<open>Init\<close>. \<open>RestoreDefaults()\<close> overwrites the working copy with the
  defaults. \<open>Init\<close> takes the working copy from flash when flash holds a stored record
  (\<open>Some\<close>) and from the defaults otherwise. The flash write itself (\<open>Save()\<close>) belongs to
  the hardware layer.
\<close>

record PersistentStorage =
  settings :: Settings
  default_settings :: Settings

definition GetSettings :: "PersistentStorage \<Rightarrow> Settings" where
  "GetSettings st = settings st"

definition RestoreDefaults :: "PersistentStorage \<Rightarrow> PersistentStorage" where
  "RestoreDefaults st = st\<lparr>settings := default_settings st\<rparr>"

definition PersistentStorage_Init :: "Settings \<Rightarrow> Settings option \<Rightarrow> PersistentStorage" where
  "PersistentStorage_Init defaults flash =
     \<lparr>settings = (case flash of None \<Rightarrow> defaults | Some stored \<Rightarrow> stored),
      default_settings = defaults\<rparr>"

section \<open>Effect engines as far as the control code drives them\<close>

text \<open>
  Modelled from the spec: the plate reverb (third-party \<open>Dattorro\<close>) is not among the
  sources. It is represented by the parameters of the spec's \<open>configure\<close> contract, which
  the control code hands to its setters; its audio state, and the calls \<open>process\<close> and
  \<open>clear\<close> that touch only that, are outside the model.
\<close>

record Dattorro =
  PreDelay :: real
  InputFilterHighCutoffPitch :: real
  Decay :: real
  TankDiffusion :: real
  TankFilterHighCutFrequency :: real
  TankModSpeed :: real
  TankModDepth :: real
  TankModShape :: real

text \<open>
  Modelled from the spec: \<open>flick_oscillator.h\<close> (class \<open>FlickOscillator\<close>) is not among
  the sources. The spec describes a phase-accumulator LFO with waveform synthesis: the
  oscillator keeps a phase in \<open>[0, 1)\<close>, \<open>Process()\<close> returns the amplitude times the
  waveform at the current phase and advances the phase by frequency over sample rate. The
  waveform synthesis itself is the parameter \<open>wave\<close>.
\<close>

record FlickOscillator =
  freq :: real
  amp :: real
  waveform :: Waveform
  phase :: real

definition SetFreq :: "real \<Rightarrow> FlickOscillator \<Rightarrow> FlickOscillator" where
  "SetFreq f osc = osc\<lparr>freq := f\<rparr>"

definition SetAmp :: "real \<Rightarrow> FlickOscillator \<Rightarrow> FlickOscillator" where
  "SetAmp a osc = osc\<lparr>amp := a\<rparr>"

definition SetWaveform :: "Waveform \<Rightarrow> FlickOscillator \<Rightarrow> FlickOscillator" where
  "SetWaveform w osc = osc\<lparr>waveform := w\<rparr>"

definition osc_Process ::
  "(Waveform \<Rightarrow> real \<Rightarrow> real) \<Rightarrow> FlickOscillator \<Rightarrow> real \<times> FlickOscillator" where
  "osc_Process wave osc =
     (amp osc * wave (waveform osc) (phase osc),
      osc\<lparr>phase := frac (phase osc + freq osc / SAMPLE_RATE)\<rparr>)"

text \<open>
  Modelled from the spec: DaisySP's \<open>DelayLine\<close> is not among the sources. The spec has an
  independent delay line per channel; the library's is a circular buffer of \<open>MAX_DELAY\<close>
  floats: \<open>Write\<close> stores at the write pointer and moves the pointer one position back,
  \<open>Read\<close> interpolates between the two samples \<open>delay_\<close> and \<open>delay_ + 1\<close> positions after
  the write pointer, and \<open>SetDelay(float)\<close> splits the delay into its integer part and the
  fraction. Its members carry the prefix \<open>dl_\<close>.
\<close>

record DelayLine =
  dl_line :: "nat \<Rightarrow> real"
  dl_write_ptr :: nat
  dl_delay :: nat
  dl_frac :: real

definition DelayLine_Init :: DelayLine where
  "DelayLine_Init = \<lparr>dl_line = (\<lambda>i. 0), dl_write_ptr = 0, dl_delay = 1, dl_frac = 0\<rparr>"

definition SetDelay :: "real \<Rightarrow> DelayLine \<Rightarrow> DelayLine" where
  "SetDelay d dl =
     (let int_delay = float_to_int d in
      dl\<lparr>dl_frac := d - of_int int_delay,
         dl_delay := (if 0 \<le> int_delay \<and> nat int_delay < MAX_DELAY
                      then nat int_delay else MAX_DELAY - 1)\<rparr>)"

definition Read :: "DelayLine \<Rightarrow> real" where
  "Read dl =
     (let a = dl_line dl ((dl_write_ptr dl + dl_delay dl) mod MAX_DELAY);
          b = dl_line dl ((dl_write_ptr dl + dl_delay dl + 1) mod MAX_DELAY)
      in a + (b - a) * dl_frac dl)"

definition Write :: "real \<Rightarrow> DelayLine \<Rightarrow> DelayLine" where
  "Write sample dl =
     dl\<lparr>dl_line := (dl_line dl)(dl_write_ptr dl := sample),
        dl_write_ptr := (dl_write_ptr dl + MAX_DELAY - 1) mod MAX_DELAY\<rparr>"

text \<open>The struct \<open>Delay\<close>; \<open>del\<close> is the delay line its pointer refers to.\<close>

record Delay =
  del :: DelayLine
  current_delay :: real
  delay_target :: real
  feedback :: real

definition Delay_Process :: "real \<Rightarrow> Delay \<Rightarrow> real \<times> Delay" where
  "Delay_Process inp d =
     (let cd = fonepole (current_delay d) (delay_target d) (2 / 10000);
          dl = SetDelay cd (del d);
          read = Read dl;
          dl = Write ((feedback d * read) + inp) dl
      in (read, d\<lparr>current_delay := cd, del := dl\<rparr>))"

section \<open>The global state\<close>

text \<open>
  The globals of the control file that the modelled functions read or write. The function
  static \<open>depth\<close> of \<open>AudioCallback\<close> is the field \<open>depth\<close>, its static \<open>trem_val\<close> the field
  \<open>trem_val\<close>. LED objects and the filter objects are not part of the record.
\<close>

record pedal =
  SavedSettings :: PersistentStorage
  osc :: FlickOscillator
  dc_offset :: real
  verb :: Dattorro
  pedal_mode :: PedalMode
  mono_stereo_mode :: int
  delayL :: Delay
  delayR :: Delay
  delay_drywet :: int
  bypass_verb :: bool
  bypass_trem :: bool
  bypass_delay :: bool
  tap_tempo_active :: bool
  tap_tempo_last_tap_time :: "32 word"
  tap_tempo_interval_ms :: "32 word"
  tap_tempo_delay_samples :: real
  tap_tempo_controls_delay :: bool
  tap_tempo_tremolo_freq_hz :: real
  tap_tempo_controls_tremolo :: bool
  tap_tempo_delay_knob_takeover :: KnobTakeover
  tap_tempo_tremolo_knob_takeover :: KnobTakeover
  reverb_edit_wet_amount_knob :: KnobTakeover
  reverb_edit_pre_delay_knob :: KnobTakeover
  reverb_edit_decay_knob :: KnobTakeover
  reverb_edit_diffusion_knob :: KnobTakeover
  reverb_edit_input_cut_knob :: KnobTakeover
  reverb_edit_tank_cut_knob :: KnobTakeover
  reverb_edit_mod_speed_switch :: SwitchChangeDetector
  reverb_edit_mod_depth_switch :: SwitchChangeDetector
  reverb_edit_mod_shape_switch :: SwitchChangeDetector
  master_delay_time_samples :: real
  current_makeup_gain :: int
  plate_pre_delay :: real
  plate_dry :: real
  plate_wet :: real
  plate_decay :: real
  plate_tank_diffusion :: real
  plate_input_damp_high :: real
  plate_tank_damp_high :: real
  plate_tank_mod_speed :: real
  plate_tank_mod_depth :: real
  plate_tank_mod_shape :: real
  reverb_dry_scale_factor :: real
  reverb_reverse_scale_factor :: real
  trigger_settings_save :: bool
  depth :: real
  trem_val :: real

section \<open>Loading and saving settings\<close>

definition updateReverbScales :: "int \<Rightarrow> pedal \<Rightarrow> pedal" where
  "updateReverbScales mode s =
     (if mode = MS_MODE_MIMO
        then s\<lparr>reverb_dry_scale_factor := 5, reverb_reverse_scale_factor := 2 / 10\<rparr>
      else if mode = MS_MODE_MISO \<or> mode = MS_MODE_SISO
        then s\<lparr>reverb_dry_scale_factor := 25 / 10, reverb_reverse_scale_factor := 4 / 10\<rparr>
      else s)"

text \<open>
  The body of \<open>loadSettings\<close> after the version check. The cast of \<open>makeup_gain_mode\<close> to
  the enumeration keeps the integer, which the two comparisons then validate: the
  enumeration variable is read as wide enough for the stored value (the width the
  compiler gives it is a matter of build flags, which are not among the sources).
\<close>

definition loadSettings_fields :: "pedal \<Rightarrow> pedal" where
  "loadSettings_fields s0 =
     (let local_settings = GetSettings (SavedSettings s0);
          s = s0\<lparr>plate_decay := decay local_settings,
                plate_tank_diffusion := diffusion local_settings,
                plate_input_damp_high := input_cutoff_freq local_settings,
                plate_tank_damp_high := tank_cutoff_freq local_settings,
                plate_tank_mod_speed := tank_mod_speed local_settings,
                plate_tank_mod_depth := tank_mod_depth local_settings,
                plate_tank_mod_shape := tank_mod_shape local_settings,
                plate_pre_delay := pre_delay local_settings\<rparr>;
          s = (if saved_mono_stereo_mode local_settings < MS_MODE_MIMO \<or>
                  saved_mono_stereo_mode local_settings > MS_MODE_SISO
                 then s\<lparr>mono_stereo_mode := MS_MODE_MIMO\<rparr>
               else s\<lparr>mono_stereo_mode := saved_mono_stereo_mode local_settings\<rparr>);
          s = updateReverbScales (mono_stereo_mode s) s;
          s = s\<lparr>current_makeup_gain := makeup_gain_mode local_settings\<rparr>;
          s = (if current_makeup_gain s < MAKEUP_GAIN_NONE \<or>
                  current_makeup_gain s > MAKEUP_GAIN_HEAVY
                 then s\<lparr>current_makeup_gain := MAKEUP_GAIN_NORMAL\<rparr>
               else s);
          s = s\<lparr>bypass_verb := bypass_reverb local_settings,
                bypass_delay := saved_bypass_delay local_settings,
                bypass_trem := bypass_tremolo local_settings\<rparr>
      in s\<lparr>verb := (verb s)\<lparr>PreDelay := plate_pre_delay s,
                     InputFilterHighCutoffPitch := plate_input_damp_high s,
                     Decay := plate_decay s,
                     TankDiffusion := plate_tank_diffusion s,
                     TankFilterHighCutFrequency := plate_tank_damp_high s,
                     TankModSpeed := plate_tank_mod_speed s * 8,
                     TankModDepth := plate_tank_mod_depth s * 15,
                     TankModShape := plate_tank_mod_shape s\<rparr>\<rparr>)"

text \<open>
  \<open>loadSettings\<close> calls itself after restoring the defaults, so it returns only if the
  defaults carry the current version: a call that never returns is \<open>None\<close>.
\<close>

partial_function (option) loadSettings :: "pedal \<Rightarrow> pedal option" where
  "loadSettings s =
     (if version (GetSettings (SavedSettings s)) \<noteq> SETTINGS_VERSION
        then loadSettings (s\<lparr>SavedSettings := RestoreDefaults (SavedSettings s)\<rparr>)
      else Some (loadSettings_fields s))"

declare loadSettings.simps [code]

definition saveSettings :: "pedal \<Rightarrow> pedal" where
  "saveSettings s =
     s\<lparr>SavedSettings := (SavedSettings s)\<lparr>settings := (settings (SavedSettings s))
          \<lparr>version := SETTINGS_VERSION,
           decay := plate_decay s,
           diffusion := plate_tank_diffusion s,
           input_cutoff_freq := plate_input_damp_high s,
           tank_cutoff_freq := plate_tank_damp_high s,
           tank_mod_speed := plate_tank_mod_speed s,
           tank_mod_depth := plate_tank_mod_depth s,
           tank_mod_shape := plate_tank_mod_shape s,
           pre_delay := plate_pre_delay s\<rparr>\<rparr>,
       trigger_settings_save := True\<rparr>"

definition saveMonoStereoSettings :: "pedal \<Rightarrow> pedal" where
  "saveMonoStereoSettings s =
     s\<lparr>SavedSettings := (SavedSettings s)\<lparr>settings := (settings (SavedSettings s))
          \<lparr>saved_mono_stereo_mode := mono_stereo_mode s,
           makeup_gain_mode := current_makeup_gain s\<rparr>\<rparr>,
       trigger_settings_save := True\<rparr>"

definition saveBypassStates :: "pedal \<Rightarrow> pedal" where
  "saveBypassStates s =
     s\<lparr>SavedSettings := (SavedSettings s)\<lparr>settings := (settings (SavedSettings s))
          \<lparr>bypass_reverb := bypass_verb s,
           bypass_tremolo := bypass_trem s,
           saved_bypass_delay := bypass_delay s\<rparr>\<rparr>,
       trigger_settings_save := True\<rparr>"

definition restoreReverbSettings :: "pedal \<Rightarrow> pedal" where
  "restoreReverbSettings s0 =
     (let local_settings = GetSettings (SavedSettings s0);
          s = s0\<lparr>plate_decay := decay local_settings,
                plate_tank_diffusion := diffusion local_settings,
                plate_input_damp_high := input_cutoff_freq local_settings,
                plate_tank_damp_high := tank_cutoff_freq local_settings,
                plate_tank_mod_speed := tank_mod_speed local_settings,
                plate_tank_mod_depth := tank_mod_depth local_settings,
                plate_tank_mod_shape := tank_mod_shape local_settings,
                plate_pre_delay := pre_delay local_settings\<rparr>
      in s\<lparr>verb := (verb s)\<lparr>Decay := plate_decay s,
                     TankDiffusion := plate_tank_diffusion s,
                     InputFilterHighCutoffPitch := plate_input_damp_high s,
                     TankFilterHighCutFrequency := plate_tank_damp_high s,
                     TankModSpeed := plate_tank_mod_speed s * 8,
                     TankModDepth := plate_tank_mod_depth s * 15,
                     TankModShape := plate_tank_mod_shape s,
                     PreDelay := plate_pre_delay s\<rparr>\<rparr>)"

definition restoreMonoStereoSettings :: "pedal \<Rightarrow> pedal" where
  "restoreMonoStereoSettings s0 =
     (let local_settings = GetSettings (SavedSettings s0);
          s = s0\<lparr>mono_stereo_mode := saved_mono_stereo_mode local_settings,
                current_makeup_gain := makeup_gain_mode local_settings\<rparr>
      in updateReverbScales (mono_stereo_mode s) s)"

text \<open>
  The defaults \<open>main\<close> hands to \<open>SavedSettings.Init\<close>: the record is built from the
  \<open>plate_\<close> globals, which at that point still hold their initialisers.
\<close>

definition defaultSettings :: Settings where
  "defaultSettings =
     \<lparr>version = SETTINGS_VERSION,
      decay = 8 / 10,
      diffusion = 85 / 100,
      input_cutoff_freq = 725 / 100,
      tank_cutoff_freq = 725 / 100,
      tank_mod_speed = 1 / 10,
      tank_mod_depth = 1 / 10,
      tank_mod_shape = 25 / 100,
      pre_delay = 0,
      saved_mono_stereo_mode = MS_MODE_MIMO,
      makeup_gain_mode = MAKEUP_GAIN_NORMAL,
      bypass_reverb = True,
      saved_bypass_delay = True,
      bypass_tremolo = True\<rparr>"

section \<open>Tap tempo\<close>

text \<open>
  The plain functions below follow the source statement by statement. For the two
  functions that enter a mode, the sequence of their writes to globals is given a second
  time as a list, one entry per assignment or call in program order, so that the states
  between two writes can be talked about.
\<close>

definition enterTapTempoMode :: "Funbox \<Rightarrow> pedal \<Rightarrow> pedal" where
  "enterTapTempoMode hw s0 =
     (let s = s0\<lparr>tap_tempo_active := True\<rparr>;
          s = s\<lparr>tap_tempo_last_tap_time := now hw\<rparr>;
          delay_active = \<not> bypass_delay s;
          tremolo_active = \<not> bypass_trem s;
          s = (if \<not> delay_active \<and> \<not> tremolo_active
                 then s\<lparr>tap_tempo_controls_delay := True, tap_tempo_controls_tremolo := True\<rparr>
               else if delay_active \<and> tremolo_active
                 then s\<lparr>tap_tempo_controls_delay := True, tap_tempo_controls_tremolo := True\<rparr>
               else if delay_active \<and> \<not> tremolo_active
                 then s\<lparr>tap_tempo_controls_delay := True, tap_tempo_controls_tremolo := False\<rparr>
               else if \<not> delay_active \<and> tremolo_active
                 then s\<lparr>tap_tempo_controls_delay := False, tap_tempo_controls_tremolo := True\<rparr>
               else s);
          s = s\<lparr>tap_tempo_delay_knob_takeover := capture hw (tap_tempo_delay_knob_takeover s)\<rparr>;
          s = s\<lparr>tap_tempo_tremolo_knob_takeover :=
                  capture hw (tap_tempo_tremolo_knob_takeover s)\<rparr>
      in s\<lparr>pedal_mode := PEDAL_MODE_TAP_TEMPO\<rparr>)"

definition enterTapTempoMode_writes :: "Funbox \<Rightarrow> (pedal \<Rightarrow> pedal) list" where
  "enterTapTempoMode_writes hw =
     [\<lambda>s. s\<lparr>tap_tempo_active := True\<rparr>,
      \<lambda>s. s\<lparr>tap_tempo_last_tap_time := now hw\<rparr>,
      \<lambda>s. s\<lparr>tap_tempo_controls_delay :=
               (if bypass_delay s \<and> bypass_trem s then True
                else if \<not> bypass_delay s \<and> \<not> bypass_trem s then True
                else if \<not> bypass_delay s \<and> bypass_trem s then True
                else False)\<rparr>,
      \<lambda>s. s\<lparr>tap_tempo_controls_tremolo :=
               (if bypass_delay s \<and> bypass_trem s then True
                else if \<not> bypass_delay s \<and> \<not> bypass_trem s then True
                else if \<not> bypass_delay s \<and> bypass_trem s then False
                else True)\<rparr>,
      \<lambda>s. s\<lparr>tap_tempo_delay_knob_takeover := capture hw (tap_tempo_delay_knob_takeover s)\<rparr>,
      \<lambda>s. s\<lparr>tap_tempo_tremolo_knob_takeover := capture hw (tap_tempo_tremolo_knob_takeover s)\<rparr>,
      \<lambda>s. s\<lparr>pedal_mode := PEDAL_MODE_TAP_TEMPO\<rparr>]"

definition exitTapTempoMode :: "pedal \<Rightarrow> pedal" where
  "exitTapTempoMode s = s\<lparr>tap_tempo_active := False, pedal_mode := PEDAL_MODE_NORMAL\<rparr>"

definition handleTapTempoTap :: "Funbox \<Rightarrow> pedal \<Rightarrow> pedal" where
  "handleTapTempoTap hw s0 =
     (let currentTime = now hw;
          s = (if tap_tempo_last_tap_time s0 > 0 then
                 (let interval = currentTime - tap_tempo_last_tap_time s0 in
                  if interval \<ge> TAP_TEMPO_MIN_INTERVAL_MS \<and>
                     interval \<le> TAP_TEMPO_MAX_INTERVAL_MS
                  then
                    (let s = s0\<lparr>tap_tempo_interval_ms := interval\<rparr>;
                         s = s\<lparr>tap_tempo_delay_samples :=
                                 f32 (f32 (uint32_to_float interval / MS_PER_SECOND)
                                      * SAMPLE_RATE)\<rparr>;
                         s = s\<lparr>tap_tempo_delay_samples :=
                                 fclamp (tap_tempo_delay_samples s)
                                   TAP_TEMPO_SAMPLES_MIN TAP_TEMPO_SAMPLES_MAX\<rparr>;
                         s = s\<lparr>tap_tempo_tremolo_freq_hz :=
                                 f32 (MS_PER_SECOND / uint32_to_float interval)\<rparr>;
                         s = s\<lparr>tap_tempo_tremolo_freq_hz :=
                                 fclamp (tap_tempo_tremolo_freq_hz s)
                                   TREMOLO_SPEED_MIN TREMOLO_SPEED_MAX\<rparr>
                     in s\<lparr>master_delay_time_samples := tap_tempo_delay_samples s\<rparr>)
                  else s0)
               else s0)
      in s\<lparr>tap_tempo_last_tap_time := currentTime\<rparr>)"

definition checkTapTempoTimeout :: "Funbox \<Rightarrow> pedal \<Rightarrow> pedal" where
  "checkTapTempoTimeout hw s =
     (if pedal_mode s = PEDAL_MODE_TAP_TEMPO then
        (let currentTime = now hw in
         if (currentTime - tap_tempo_last_tap_time s) \<ge> TAP_TEMPO_TIMEOUT_MS
           then exitTapTempoMode s else s)
      else s)"

definition applyDelaySubdivisionAndSetTargets :: "Funbox \<Rightarrow> real \<Rightarrow> pedal \<Rightarrow> pedal" where
  "applyDelaySubdivisionAndSetTargets hw masterDelaySamples s =
     (let subdivision =
            kDelaySubdivisionMap ! position_index (toggleswitch hw TOGGLESWITCH_3);
          subdivision_multiplier =
            (case subdivision of
               DELAY_SUBDIV_DOTTED_EIGHTH \<Rightarrow> 75 / 100
             | DELAY_SUBDIV_QUARTER_TRIPLET \<Rightarrow> 2 / 3
             | DELAY_SUBDIV_NORMAL \<Rightarrow> 1);
          final_delay_time = masterDelaySamples * subdivision_multiplier;
          final_delay_time = fclamp final_delay_time TAP_TEMPO_SAMPLES_MIN (real MAX_DELAY);
          s = s\<lparr>delayL := (delayL s)\<lparr>delay_target := final_delay_time\<rparr>\<rparr>
      in s\<lparr>delayR := (delayR s)\<lparr>delay_target := final_delay_time\<rparr>\<rparr>)"

section \<open>Footswitch handlers\<close>

definition handleNormalPress :: "Funbox \<Rightarrow> Switches \<Rightarrow> pedal \<Rightarrow> pedal" where
  "handleNormalPress hw footswitch s =
     (if pedal_mode s = PEDAL_MODE_TAP_TEMPO \<and> footswitch = FOOTSWITCH_1
        then exitTapTempoMode s
      else if pedal_mode s = PEDAL_MODE_TAP_TEMPO \<and> footswitch = FOOTSWITCH_2
        then handleTapTempoTap hw s
      else if pedal_mode s = PEDAL_MODE_EDIT_REVERB then
        (let s = (if footswitch = FOOTSWITCH_2 then saveSettings s
                  else restoreReverbSettings s)
         in s\<lparr>pedal_mode := PEDAL_MODE_NORMAL\<rparr>)
      else if pedal_mode s = PEDAL_MODE_EDIT_MONO_STEREO then
        (let s = (if footswitch = FOOTSWITCH_2 then saveMonoStereoSettings s
                  else restoreMonoStereoSettings s)
         in s\<lparr>pedal_mode := PEDAL_MODE_NORMAL\<rparr>)
      else
        (let s = (if footswitch = FOOTSWITCH_1 then s\<lparr>bypass_verb := \<not> bypass_verb s\<rparr>
                  else s\<lparr>bypass_delay := \<not> bypass_delay s\<rparr>)
         in saveBypassStates s))"

definition handleDoublePress :: "Funbox \<Rightarrow> Switches \<Rightarrow> pedal \<Rightarrow> pedal" where
  "handleDoublePress hw footswitch s0 =
     (if pedal_mode s0 \<noteq> PEDAL_MODE_NORMAL then s0
      else
        (let s = handleNormalPress hw footswitch s0 in
         if footswitch = FOOTSWITCH_1 then enterTapTempoMode hw s
         else if footswitch = FOOTSWITCH_2
           then saveBypassStates (s\<lparr>bypass_trem := \<not> bypass_trem s\<rparr>)
         else s))"

text \<open>
  The writes of a double press of footswitch 1: the normal press that undoes the first
  press (one entry), then the writes of \<open>enterTapTempoMode\<close>.
\<close>

definition handleDoublePress_writes ::
  "Funbox \<Rightarrow> Switches \<Rightarrow> pedal \<Rightarrow> (pedal \<Rightarrow> pedal) list" where
  "handleDoublePress_writes hw footswitch s0 =
     (if pedal_mode s0 \<noteq> PEDAL_MODE_NORMAL then []
      else if footswitch = FOOTSWITCH_1
        then handleNormalPress hw footswitch # enterTapTempoMode_writes hw
      else if footswitch = FOOTSWITCH_2
        then [handleNormalPress hw footswitch,
              \<lambda>s. s\<lparr>bypass_trem := \<not> bypass_trem s\<rparr>,
              saveBypassStates]
      else [handleNormalPress hw footswitch])"

definition handleLongPress :: "Funbox \<Rightarrow> Switches \<Rightarrow> pedal \<Rightarrow> pedal" where
  "handleLongPress hw footswitch s0 =
     (if footswitch = FOOTSWITCH_1 then
        (let s = s0\<lparr>bypass_verb := False\<rparr>;
             s = s\<lparr>reverb_edit_wet_amount_knob := capture hw (reverb_edit_wet_amount_knob s)\<rparr>;
             s = s\<lparr>reverb_edit_pre_delay_knob := capture hw (reverb_edit_pre_delay_knob s)\<rparr>;
             s = s\<lparr>reverb_edit_decay_knob := capture hw (reverb_edit_decay_knob s)\<rparr>;
             s = s\<lparr>reverb_edit_diffusion_knob := capture hw (reverb_edit_diffusion_knob s)\<rparr>;
             s = s\<lparr>reverb_edit_input_cut_knob := capture hw (reverb_edit_input_cut_knob s)\<rparr>;
             s = s\<lparr>reverb_edit_tank_cut_knob := capture hw (reverb_edit_tank_cut_knob s)\<rparr>;
             s = s\<lparr>reverb_edit_mod_speed_switch :=
                     capture_switch hw (reverb_edit_mod_speed_switch s)\<rparr>;
             s = s\<lparr>reverb_edit_mod_depth_switch :=
                     capture_switch hw (reverb_edit_mod_depth_switch s)\<rparr>;
             s = s\<lparr>reverb_edit_mod_shape_switch :=
                     capture_switch hw (reverb_edit_mod_shape_switch s)\<rparr>
         in s\<lparr>pedal_mode := PEDAL_MODE_EDIT_REVERB\<rparr>)
      else if footswitch = FOOTSWITCH_2 then
        (let s = s0\<lparr>bypass_verb := False\<rparr>;
             s = s\<lparr>bypass_delay := True\<rparr>;
             s = s\<lparr>bypass_trem := True\<rparr>
         in s\<lparr>pedal_mode := PEDAL_MODE_EDIT_MONO_STEREO\<rparr>)
      else s0)"

definition handleLongPress_writes :: "Funbox \<Rightarrow> Switches \<Rightarrow> (pedal \<Rightarrow> pedal) list" where
  "handleLongPress_writes hw footswitch =
     (if footswitch = FOOTSWITCH_1 then
        [\<lambda>s. s\<lparr>bypass_verb := False\<rparr>,
         \<lambda>s. s\<lparr>reverb_edit_wet_amount_knob := capture hw (reverb_edit_wet_amount_knob s)\<rparr>,
         \<lambda>s. s\<lparr>reverb_edit_pre_delay_knob := capture hw (reverb_edit_pre_delay_knob s)\<rparr>,
         \<lambda>s. s\<lparr>reverb_edit_decay_knob := capture hw (reverb_edit_decay_knob s)\<rparr>,
         \<lambda>s. s\<lparr>reverb_edit_diffusion_knob := capture hw (reverb_edit_diffusion_knob s)\<rparr>,
         \<lambda>s. s\<lparr>reverb_edit_input_cut_knob := capture hw (reverb_edit_input_cut_knob s)\<rparr>,
         \<lambda>s. s\<lparr>reverb_edit_tank_cut_knob := capture hw (reverb_edit_tank_cut_knob s)\<rparr>,
         \<lambda>s. s\<lparr>reverb_edit_mod_speed_switch :=
                  capture_switch hw (reverb_edit_mod_speed_switch s)\<rparr>,
         \<lambda>s. s\<lparr>reverb_edit_mod_depth_switch :=
                  capture_switch hw (reverb_edit_mod_depth_switch s)\<rparr>,
         \<lambda>s. s\<lparr>reverb_edit_mod_shape_switch :=
                  capture_switch hw (reverb_edit_mod_shape_switch s)\<rparr>,
         \<lambda>s. s\<lparr>pedal_mode := PEDAL_MODE_EDIT_REVERB\<rparr>]
      else if footswitch = FOOTSWITCH_2 then
        [\<lambda>s. s\<lparr>bypass_verb := False\<rparr>,
         \<lambda>s. s\<lparr>bypass_delay := True\<rparr>,
         \<lambda>s. s\<lparr>bypass_trem := True\<rparr>,
         \<lambda>s. s\<lparr>pedal_mode := PEDAL_MODE_EDIT_MONO_STEREO\<rparr>]
      else [])"

text \<open>
  Running a list of writes, and the states an observer can see while the first \<open>k\<close> of
  them have taken effect.
\<close>

definition run_writes :: "(pedal \<Rightarrow> pedal) list \<Rightarrow> pedal \<Rightarrow> pedal" where
  "run_writes ws s = fold (\<lambda>w t. w t) ws s"

definition observable_states :: "(pedal \<Rightarrow> pedal) list \<Rightarrow> pedal \<Rightarrow> pedal list" where
  "observable_states ws s = map (\<lambda>k. run_writes (take k ws) s) [0..<Suc (length ws)]"

section \<open>The audio callback: parameters refreshed once per block\<close>

text \<open>
  The part of \<open>AudioCallback\<close> before the sample loop, without the LED output. In tap
  tempo mode the LED branch also applies the tapped tempo (\<open>tap_tempo_refresh\<close>); the
  parameter branches follow, one function per mode, the normal mode split at the comment
  lines of the source.
\<close>

definition tap_tempo_refresh :: "Funbox \<Rightarrow> pedal \<Rightarrow> pedal" where
  "tap_tempo_refresh hw s0 =
     (let s = applyDelaySubdivisionAndSetTargets hw (tap_tempo_delay_samples s0) s0 in
      if tap_tempo_controls_tremolo s
        then s\<lparr>osc := SetFreq (tap_tempo_tremolo_freq_hz s) (osc s)\<rparr>
      else s)"

definition normal_tremolo_speed :: "Funbox \<Rightarrow> pedal \<Rightarrow> pedal" where
  "normal_tremolo_speed hw s0 =
     (if tap_tempo_controls_tremolo s0 then
        (case checkTakeover hw KNOB_TAKEOVER_THRESHOLD (tap_tempo_tremolo_knob_takeover s0) of
           (took, kt) \<Rightarrow>
             (let s = s0\<lparr>tap_tempo_tremolo_knob_takeover := kt\<rparr> in
              if took then
                (let s = s\<lparr>tap_tempo_controls_tremolo := False\<rparr>
                 in s\<lparr>osc := SetFreq (p_trem_speed hw) (osc s)\<rparr>)
              else s\<lparr>osc := SetFreq (tap_tempo_tremolo_freq_hz s) (osc s)\<rparr>))
      else s0\<lparr>osc := SetFreq (p_trem_speed hw) (osc s0)\<rparr>)"

definition normal_tremolo_depth :: "Funbox \<Rightarrow> pedal \<Rightarrow> pedal" where
  "normal_tremolo_depth hw s0 =
     (let tremMode = kTremoloModeMap ! position_index (toggleswitch hw TOGGLESWITCH_2);
          s = s0\<lparr>depth := fclamp (p_trem_depth hw) 0 1\<rparr>;
          s = (if tremMode = TREMOLO_HARMONIC then s\<lparr>depth := depth s * (125 / 100)\<rparr>
               else s\<lparr>depth := depth s * (5 / 10)\<rparr>);
          s = s\<lparr>osc := SetAmp (depth s) (osc s)\<rparr>;
          s = s\<lparr>dc_offset := 1 - depth s\<rparr>
      in if tremMode = TREMOLO_SQUARE
           then s\<lparr>osc := SetWaveform WAVE_SQUARE_ROUNDED (osc s)\<rparr>
         else if tremMode = TREMOLO_SINE \<or> tremMode = TREMOLO_HARMONIC
           then s\<lparr>osc := SetWaveform WAVE_SIN (osc s)\<rparr>
         else s)"

definition normal_delay :: "Funbox \<Rightarrow> pedal \<Rightarrow> pedal" where
  "normal_delay hw s0 =
     (let s = (if tap_tempo_controls_delay s0 then
                 (case checkTakeover hw KNOB_TAKEOVER_THRESHOLD
                         (tap_tempo_delay_knob_takeover s0) of
                    (took, kt) \<Rightarrow>
                      (let s = s0\<lparr>tap_tempo_delay_knob_takeover := kt\<rparr> in
                       if took then
                         (let s = s\<lparr>tap_tempo_controls_delay := False\<rparr>
                          in s\<lparr>master_delay_time_samples := p_delay_time hw\<rparr>)
                       else s\<lparr>master_delay_time_samples := tap_tempo_delay_samples s\<rparr>))
               else s0\<lparr>master_delay_time_samples := p_delay_time hw\<rparr>);
          s = applyDelaySubdivisionAndSetTargets hw (master_delay_time_samples s) s;
          s = s\<lparr>delayR := (delayR s)\<lparr>feedback := p_delay_feedback hw\<rparr>\<rparr>;
          s = s\<lparr>delayL := (delayL s)\<lparr>feedback := feedback (delayR s)\<rparr>\<rparr>
      in s\<lparr>delay_drywet := float_to_int (p_delay_amt hw)\<rparr>)"

definition normal_reverb_mode :: "Funbox \<Rightarrow> pedal \<Rightarrow> pedal" where
  "normal_reverb_mode hw s =
     (case kReverbKnobMap ! position_index (toggleswitch hw TOGGLESWITCH_1) of
        REVERB_KNOB_ALL_DRY \<Rightarrow> s\<lparr>plate_dry := 1\<rparr>
      | REVERB_KNOB_DRY_WET_MIX \<Rightarrow> s\<lparr>plate_dry := 1 - plate_wet s\<rparr>
      | REVERB_KNOB_ALL_WET \<Rightarrow> s\<lparr>plate_dry := 0\<rparr>)"

definition normal_mode_controls :: "Funbox \<Rightarrow> pedal \<Rightarrow> pedal" where
  "normal_mode_controls hw s =
     normal_reverb_mode hw (normal_delay hw (normal_tremolo_depth hw (normal_tremolo_speed hw s)))"

definition tank_mod_speed_values :: "real list" where
  "tank_mod_speed_values = [5 / 10, 25 / 100, 1 / 10]"

definition tank_mod_depth_values :: "real list" where
  "tank_mod_depth_values = [5 / 10, 25 / 100, 1 / 10]"

definition tank_mod_shape_values :: "real list" where
  "tank_mod_shape_values = [5 / 10, 25 / 100, 1 / 10]"

definition edit_reverb_controls :: "Funbox \<Rightarrow> pedal \<Rightarrow> pedal" where
  "edit_reverb_controls hw s0 =
     (let s = s0\<lparr>plate_dry := 1\<rparr>;
          s = (case checkTakeover hw KNOB_TAKEOVER_THRESHOLD (reverb_edit_wet_amount_knob s) of
                 (took, kt) \<Rightarrow>
                   (let s = s\<lparr>reverb_edit_wet_amount_knob := kt\<rparr>
                    in if took then s\<lparr>plate_wet := p_verb_amt hw\<rparr> else s));
          s = (case checkTakeover hw KNOB_TAKEOVER_THRESHOLD (reverb_edit_pre_delay_knob s) of
                 (took, kt) \<Rightarrow>
                   (let s = s\<lparr>reverb_edit_pre_delay_knob := kt\<rparr>
                    in if took then s\<lparr>plate_pre_delay := p_knob hw KNOB_2 * (25 / 100)\<rparr>
                       else s));
          s = (case checkTakeover hw KNOB_TAKEOVER_THRESHOLD (reverb_edit_decay_knob s) of
                 (took, kt) \<Rightarrow>
                   (let s = s\<lparr>reverb_edit_decay_knob := kt\<rparr>
                    in if took then s\<lparr>plate_decay := p_knob hw KNOB_3\<rparr> else s));
          s = (case checkTakeover hw KNOB_TAKEOVER_THRESHOLD (reverb_edit_diffusion_knob s) of
                 (took, kt) \<Rightarrow>
                   (let s = s\<lparr>reverb_edit_diffusion_knob := kt\<rparr>
                    in if took then s\<lparr>plate_tank_diffusion := p_knob hw KNOB_4\<rparr> else s));
          s = (case checkTakeover hw KNOB_TAKEOVER_THRESHOLD (reverb_edit_input_cut_knob s) of
                 (took, kt) \<Rightarrow>
                   (let s = s\<lparr>reverb_edit_input_cut_knob := kt\<rparr>
                    in if took then s\<lparr>plate_input_damp_high := p_knob hw KNOB_5 * 10\<rparr>
                       else s));
          s = (case checkTakeover hw KNOB_TAKEOVER_THRESHOLD (reverb_edit_tank_cut_knob s) of
                 (took, kt) \<Rightarrow>
                   (let s = s\<lparr>reverb_edit_tank_cut_knob := kt\<rparr>
                    in if took then s\<lparr>plate_tank_damp_high := p_knob hw KNOB_6 * 10\<rparr>
                       else s));
          s = (case checkChange hw (reverb_edit_mod_speed_switch s) of
                 (moved, d) \<Rightarrow>
                   (let s = s\<lparr>reverb_edit_mod_speed_switch := d\<rparr>
                    in if moved
                         then s\<lparr>plate_tank_mod_speed :=
                                  tank_mod_speed_values !
                                    position_index (toggleswitch hw TOGGLESWITCH_1)\<rparr>
                       else s));
          s = (case checkChange hw (reverb_edit_mod_depth_switch s) of
                 (moved, d) \<Rightarrow>
                   (let s = s\<lparr>reverb_edit_mod_depth_switch := d\<rparr>
                    in if moved
                         then s\<lparr>plate_tank_mod_depth :=
                                  tank_mod_depth_values !
                                    position_index (toggleswitch hw TOGGLESWITCH_2)\<rparr>
                       else s));
          s = (case checkChange hw (reverb_edit_mod_shape_switch s) of
                 (moved, d) \<Rightarrow>
                   (let s = s\<lparr>reverb_edit_mod_shape_switch := d\<rparr>
                    in if moved
                         then s\<lparr>plate_tank_mod_shape :=
                                  tank_mod_shape_values !
                                    position_index (toggleswitch hw TOGGLESWITCH_3)\<rparr>
                       else s))
      in s\<lparr>verb := (verb s)\<lparr>Decay := plate_decay s,
                     TankDiffusion := plate_tank_diffusion s,
                     InputFilterHighCutoffPitch := plate_input_damp_high s,
                     TankFilterHighCutFrequency := plate_tank_damp_high s,
                     TankModSpeed := plate_tank_mod_speed s * 8,
                     TankModDepth := plate_tank_mod_depth s * 15,
                     TankModShape := plate_tank_mod_shape s,
                     PreDelay := plate_pre_delay s\<rparr>\<rparr>)"

definition edit_mono_stereo_controls :: "Funbox \<Rightarrow> pedal \<Rightarrow> pedal" where
  "edit_mono_stereo_controls hw s0 =
     (let s = s0\<lparr>mono_stereo_mode :=
                   kMonoStereoModeMap ! position_index (toggleswitch hw TOGGLESWITCH_3)\<rparr>;
          s = updateReverbScales (mono_stereo_mode s) s
      in s\<lparr>current_makeup_gain :=
              kMakeupGainMap ! position_index (toggleswitch hw TOGGLESWITCH_2)\<rparr>)"

definition AudioCallback_controls :: "Funbox \<Rightarrow> pedal \<Rightarrow> pedal" where
  "AudioCallback_controls hw s0 =
     (let s = (if pedal_mode s0 = PEDAL_MODE_EDIT_REVERB then s0
               else if pedal_mode s0 = PEDAL_MODE_EDIT_MONO_STEREO then s0
               else if pedal_mode s0 = PEDAL_MODE_TAP_TEMPO then tap_tempo_refresh hw s0
               else s0);
          s = s\<lparr>plate_wet := p_verb_amt hw\<rparr>
      in if pedal_mode s = PEDAL_MODE_NORMAL then normal_mode_controls hw s
         else if pedal_mode s = PEDAL_MODE_EDIT_REVERB then edit_reverb_controls hw s
         else if pedal_mode s = PEDAL_MODE_EDIT_MONO_STEREO then edit_mono_stereo_controls hw s
         else s)"

section \<open>The audio callback: the delay and tremolo stages of one sample\<close>

text \<open>
  The two consecutive \<open>if\<close> blocks of the sample loop that the delay and the tremolo
  occupy. A stage takes the stereo sample \<open>(s_L, s_R)\<close> and returns the processed sample
  and the updated state.
\<close>

definition delay_make_up_gain :: "int \<Rightarrow> real" where
  "delay_make_up_gain g =
     (if g = MAKEUP_GAIN_HEAVY then 2
      else if g = MAKEUP_GAIN_NORMAL then 166 / 100
      else 1)"

definition trem_make_up_gain :: "int \<Rightarrow> real" where
  "trem_make_up_gain g =
     (if g = MAKEUP_GAIN_HEAVY then 16 / 10
      else if g = MAKEUP_GAIN_NORMAL then 12 / 10
      else 1)"

definition delay_stage :: "pedal \<Rightarrow> real \<times> real \<Rightarrow> (real \<times> real) \<times> pedal" where
  "delay_stage s x =
     (let s_L = fst x; s_R = snd x in
      if \<not> bypass_delay s then
        (let mixL = 0; mixR = 0;
             fdrywet = real_of_int (delay_drywet s) / DELAY_DRY_WET_PERCENT_MAX;
             pL = Delay_Process s_L (delayL s);
             pR = Delay_Process s_R (delayR s);
             mixL = mixL + fst pL;
             mixR = mixR + fst pR;
             out_L = fdrywet * mixL * DELAY_WET_MIX_ATTENUATION
                       + (1 - fdrywet) * s_L * delay_make_up_gain (current_makeup_gain s);
             out_R = fdrywet * mixR * DELAY_WET_MIX_ATTENUATION
                       + (1 - fdrywet) * s_R * delay_make_up_gain (current_makeup_gain s)
         in ((out_L, out_R), s\<lparr>delayL := snd pL, delayR := snd pR\<rparr>))
      else ((s_L, s_R), s))"

text \<open>
  Modelled from the spec: \<open>flick_filters.hpp\<close> (the low-pass, high-pass, peaking and shelf
  filter classes) is not among the sources. A filter is a stateful object of type \<open>'f\<close>
  whose \<open>Process\<close> maps one input sample to one output sample; the parameter \<open>fproc\<close> is
  that method. The filters of the harmonic tremolo are the fields of \<open>trem_filters\<close>.
\<close>

record 'f trem_filters =
  harmonic_trem_lpf_L :: 'f
  harmonic_trem_lpf_R :: 'f
  harmonic_trem_hpf_L :: 'f
  harmonic_trem_hpf_R :: 'f
  harmonic_trem_eq_hpf1_L :: 'f
  harmonic_trem_eq_hpf1_R :: 'f
  harmonic_trem_eq_lpf1_L :: 'f
  harmonic_trem_eq_lpf1_R :: 'f
  harmonic_trem_eq_peak1_L :: 'f
  harmonic_trem_eq_peak1_R :: 'f
  harmonic_trem_eq_peak2_L :: 'f
  harmonic_trem_eq_peak2_R :: 'f
  harmonic_trem_eq_low_shelf_L :: 'f
  harmonic_trem_eq_low_shelf_R :: 'f

definition harmonic_tremolo ::
  "('f \<Rightarrow> real \<Rightarrow> real \<times> 'f) \<Rightarrow> real \<Rightarrow> real \<Rightarrow> 'f trem_filters \<Rightarrow> real \<times> real
     \<Rightarrow> (real \<times> real) \<times> 'f trem_filters" where
  "harmonic_tremolo fproc lfoSample gain fl0 x =
     (let s_L = fst x; s_R = snd x;
          lowL = fproc (harmonic_trem_lpf_L fl0) s_L;
          highL = fproc (harmonic_trem_hpf_L fl0) s_L;
          lowModL = fst lowL * (1 + lfoSample);
          highModL = fst highL * (1 - lfoSample);
          s_L = (lowModL + highModL) * gain;
          lowR = fproc (harmonic_trem_lpf_R fl0) s_R;
          highR = fproc (harmonic_trem_hpf_R fl0) s_R;
          lowModR = fst lowR * (1 + lfoSample);
          highModR = fst highR * (1 - lfoSample);
          s_R = (lowModR + highModR) * gain;
          hpL = fproc (harmonic_trem_eq_hpf1_L fl0) s_L;
          hpR = fproc (harmonic_trem_eq_hpf1_R fl0) s_R;
          lpL = fproc (harmonic_trem_eq_lpf1_L fl0) (fst hpL);
          lpR = fproc (harmonic_trem_eq_lpf1_R fl0) (fst hpR);
          shL = fproc (harmonic_trem_eq_low_shelf_L fl0) (fst lpL);
          shR = fproc (harmonic_trem_eq_low_shelf_R fl0) (fst lpR);
          p2L = fproc (harmonic_trem_eq_peak2_L fl0) (fst shL);
          p2R = fproc (harmonic_trem_eq_peak2_R fl0) (fst shR);
          p1L = fproc (harmonic_trem_eq_peak1_L fl0) (fst p2L);
          p1R = fproc (harmonic_trem_eq_peak1_R fl0) (fst p2R)
      in ((fst p1L, fst p1R),
          \<lparr>harmonic_trem_lpf_L = snd lowL, harmonic_trem_lpf_R = snd lowR,
           harmonic_trem_hpf_L = snd highL, harmonic_trem_hpf_R = snd highR,
           harmonic_trem_eq_hpf1_L = snd hpL, harmonic_trem_eq_hpf1_R = snd hpR,
           harmonic_trem_eq_lpf1_L = snd lpL, harmonic_trem_eq_lpf1_R = snd lpR,
           harmonic_trem_eq_peak1_L = snd p1L, harmonic_trem_eq_peak1_R = snd p1R,
           harmonic_trem_eq_peak2_L = snd p2L, harmonic_trem_eq_peak2_R = snd p2R,
           harmonic_trem_eq_low_shelf_L = snd shL, harmonic_trem_eq_low_shelf_R = snd shR\<rparr>))"

definition tremolo_stage ::
  "('f \<Rightarrow> real \<Rightarrow> real \<times> 'f) \<Rightarrow> (Waveform \<Rightarrow> real \<Rightarrow> real) \<Rightarrow> Funbox
     \<Rightarrow> pedal \<times> 'f trem_filters \<Rightarrow> real \<times> real
     \<Rightarrow> (real \<times> real) \<times> pedal \<times> 'f trem_filters" where
  "tremolo_stage fproc wave hw st x =
     (let s = fst st; fl = snd st; s_L = fst x; s_R = snd x in
      if \<not> bypass_trem s then
        (let tremMode =
               (if pedal_mode s = PEDAL_MODE_NORMAL
                  then kTremoloModeMap ! position_index (toggleswitch hw TOGGLESWITCH_2)
                else TREMOLO_SINE);
             lfo = osc_Process wave (osc s);
             lfoSample = fst lfo;
             s = s\<lparr>osc := snd lfo\<rparr>;
             s = s\<lparr>trem_val := dc_offset s + lfoSample\<rparr>
         in if tremMode = TREMOLO_HARMONIC then
              (case harmonic_tremolo fproc lfoSample
                      (trem_make_up_gain (current_makeup_gain s)) fl (s_L, s_R) of
                 (y, fl') \<Rightarrow> (y, s, fl'))
            else
              ((s_L * trem_val s * trem_make_up_gain (current_makeup_gain s),
                s_R * trem_val s * trem_make_up_gain (current_makeup_gain s)), s, fl))
      else ((s_L, s_R), s, fl))"

section \<open>Start-up\<close>

text \<open>
  The globals when \<open>main\<close> reaches \<open>loadSettings()\<close>: the initialisers of the globals,
  the takeover objects bound to their knobs and switches, the delay lines reset, and the
  settings storage initialised from the defaults and what flash holds. The oscillator's
  own start values are not in the sources; zero stands for them.
\<close>

definition main_init :: "Settings option \<Rightarrow> pedal" where
  "main_init flash =
     \<lparr>SavedSettings = PersistentStorage_Init defaultSettings flash,
      osc = \<lparr>freq = 0, amp = 0, waveform = WAVE_SIN, phase = 0\<rparr>,
      dc_offset = 0,
      verb = \<lparr>PreDelay = 0, InputFilterHighCutoffPitch = 0, Decay = 0, TankDiffusion = 0,
              TankFilterHighCutFrequency = 0, TankModSpeed = 0, TankModDepth = 0,
              TankModShape = 0\<rparr>,
      pedal_mode = PEDAL_MODE_NORMAL,
      mono_stereo_mode = MS_MODE_MIMO,
      delayL = \<lparr>del = DelayLine_Init, current_delay = 0, delay_target = 0, feedback = 0\<rparr>,
      delayR = \<lparr>del = DelayLine_Init, current_delay = 0, delay_target = 0, feedback = 0\<rparr>,
      delay_drywet = 0,
      bypass_verb = True,
      bypass_trem = True,
      bypass_delay = True,
      tap_tempo_active = False,
      tap_tempo_last_tap_time = 0,
      tap_tempo_interval_ms = 0,
      tap_tempo_delay_samples = 0,
      tap_tempo_controls_delay = False,
      tap_tempo_tremolo_freq_hz = 0,
      tap_tempo_controls_tremolo = False,
      tap_tempo_delay_knob_takeover = KnobTakeover_init KNOB_4 KnobTakeover_new,
      tap_tempo_tremolo_knob_takeover = KnobTakeover_init KNOB_2 KnobTakeover_new,
      reverb_edit_wet_amount_knob = KnobTakeover_init KNOB_1 KnobTakeover_new,
      reverb_edit_pre_delay_knob = KnobTakeover_init KNOB_2 KnobTakeover_new,
      reverb_edit_decay_knob = KnobTakeover_init KNOB_3 KnobTakeover_new,
      reverb_edit_diffusion_knob = KnobTakeover_init KNOB_4 KnobTakeover_new,
      reverb_edit_input_cut_knob = KnobTakeover_init KNOB_5 KnobTakeover_new,
      reverb_edit_tank_cut_knob = KnobTakeover_init KNOB_6 KnobTakeover_new,
      reverb_edit_mod_speed_switch =
        SwitchChangeDetector_init TOGGLESWITCH_1 SwitchChangeDetector_new,
      reverb_edit_mod_depth_switch =
        SwitchChangeDetector_init TOGGLESWITCH_2 SwitchChangeDetector_new,
      reverb_edit_mod_shape_switch =
        SwitchChangeDetector_init TOGGLESWITCH_3 SwitchChangeDetector_new,
      master_delay_time_samples = 0,
      current_makeup_gain = MAKEUP_GAIN_NORMAL,
      plate_pre_delay = 0,
      plate_dry = 1,
      plate_wet = 5 / 10,
      plate_decay = 8 / 10,
      plate_tank_diffusion = 85 / 100,
      plate_input_damp_high = 725 / 100,
      plate_tank_damp_high = 725 / 100,
      plate_tank_mod_speed = 1 / 10,
      plate_tank_mod_depth = 1 / 10,
      plate_tank_mod_shape = 25 / 100,
      reverb_dry_scale_factor = 1,
      reverb_reverse_scale_factor = 1,
      trigger_settings_save = False,
      depth = 0,
      trem_val = 0\<rparr>"

text \<open>A hardware snapshot with every knob at \<open>x\<close> and every switch in the middle.\<close>

definition hw_at :: "real \<Rightarrow> 32 word \<Rightarrow> Funbox" where
  "hw_at x t =
     \<lparr>knobs = (\<lambda>k. x), toggleswitch = (\<lambda>sw. TOGGLESWITCH_MIDDLE), now = t,
      p_verb_amt = x, p_trem_speed = x, p_trem_depth = x, p_delay_time = x,
      p_delay_feedback = x, p_delay_amt = x, p_knob = (\<lambda>k. x)\<rparr>"

text \<open>
  Filter objects without state and a waveform that is constantly zero, for evaluating the
  tremolo stage on concrete inputs.
\<close>

definition stateless_filter :: "unit \<Rightarrow> real \<Rightarrow> real \<times> unit" where
  "stateless_filter f x = (x, f)"

definition stateless_filters :: "unit trem_filters" where
  "stateless_filters =
     \<lparr>harmonic_trem_lpf_L = (), harmonic_trem_lpf_R = (),
      harmonic_trem_hpf_L = (), harmonic_trem_hpf_R = (),
      harmonic_trem_eq_hpf1_L = (), harmonic_trem_eq_hpf1_R = (),
      harmonic_trem_eq_lpf1_L = (), harmonic_trem_eq_lpf1_R = (),
      harmonic_trem_eq_peak1_L = (), harmonic_trem_eq_peak1_R = (),
      harmonic_trem_eq_peak2_L = (), harmonic_trem_eq_peak2_R = (),
      harmonic_trem_eq_low_shelf_L = (), harmonic_trem_eq_low_shelf_R = ()\<rparr>"

definition zero_wave :: "Waveform \<Rightarrow> real \<Rightarrow> real" where
  "zero_wave w p = 0"

section \<open>Loading settings in the older control file\<close>

text \<open>
  \<open>flick.cpp\<close>, the control file with \<open>SETTINGS_VERSION 4\<close>, has a \<open>Settings\<close> struct
  without \<open>makeup_gain_mode\<close> and a \<open>loadSettings\<close> of its own. What is taken from it
  carries the suffix \<open>_v4\<close>; the fields of its struct carry the prefix \<open>s4_\<close>, and the
  globals that its \<open>loadSettings\<close> reads or writes are the fields, with the prefix
  \<open>g4_\<close>, of one record. The persistent storage object is the one described above, over
  this struct.

  \<open>updateReverbScales\<close> is a \<open>switch\<close> over the three enumerators without a default.
  \<open>loadSettings\<close> hands the stored \<open>int\<close> to \<open>static_cast<MonoStereoMode>\<close> without a
  check; the cast keeps the integer.
\<close>

definition SETTINGS_VERSION_v4 :: int where "SETTINGS_VERSION_v4 = 4"

record Settings_v4 =
  s4_version :: int
  s4_decay :: real
  s4_diffusion :: real
  s4_input_cutoff_freq :: real
  s4_tank_cutoff_freq :: real
  s4_tank_mod_speed :: real
  s4_tank_mod_depth :: real
  s4_tank_mod_shape :: real
  s4_pre_delay :: real
  s4_mono_stereo_mode :: int
  s4_bypass_reverb :: bool
  s4_bypass_tremolo :: bool
  s4_bypass_delay :: bool

record PersistentStorage_v4 =
  s4_settings :: Settings_v4
  s4_default_settings :: Settings_v4

definition GetSettings_v4 :: "PersistentStorage_v4 \<Rightarrow> Settings_v4" where
  "GetSettings_v4 st = s4_settings st"

definition RestoreDefaults_v4 :: "PersistentStorage_v4 \<Rightarrow> PersistentStorage_v4" where
  "RestoreDefaults_v4 st = st\<lparr>s4_settings := s4_default_settings st\<rparr>"

definition PersistentStorage_Init_v4 ::
  "Settings_v4 \<Rightarrow> Settings_v4 option \<Rightarrow> PersistentStorage_v4" where
  "PersistentStorage_Init_v4 defaults flash =
     \<lparr>s4_settings = (case flash of None \<Rightarrow> defaults | Some stored \<Rightarrow> stored),
      s4_default_settings = defaults\<rparr>"

record pedal_v4 =
  g4_SavedSettings :: PersistentStorage_v4
  g4_verb :: Dattorro
  g4_mono_stereo_mode :: int
  g4_bypass_verb :: bool
  g4_bypass_trem :: bool
  g4_bypass_delay :: bool
  g4_plate_pre_delay :: real
  g4_plate_decay :: real
  g4_plate_tank_diffusion :: real
  g4_plate_input_damp_high :: real
  g4_plate_tank_damp_high :: real
  g4_plate_tank_mod_speed :: real
  g4_plate_tank_mod_depth :: real
  g4_plate_tank_mod_shape :: real
  g4_reverb_dry_scale_factor :: real
  g4_reverb_reverse_scale_factor :: real

definition PLATE_TANK_MOD_SPEED_SCALE :: real where "PLATE_TANK_MOD_SPEED_SCALE = 8"
definition PLATE_TANK_MOD_DEPTH_SCALE :: real where "PLATE_TANK_MOD_DEPTH_SCALE = 15"

definition updateReverbScales_v4 :: "int \<Rightarrow> pedal_v4 \<Rightarrow> pedal_v4" where
  "updateReverbScales_v4 mode s =
     (if mode = MS_MODE_MIMO
        then s\<lparr>g4_reverb_dry_scale_factor := 5, g4_reverb_reverse_scale_factor := 2 / 10\<rparr>
      else if mode = MS_MODE_MISO \<or> mode = MS_MODE_SISO
        then s\<lparr>g4_reverb_dry_scale_factor := 25 / 10,
               g4_reverb_reverse_scale_factor := 4 / 10\<rparr>
      else s)"

definition loadSettings_fields_v4 :: "pedal_v4 \<Rightarrow> pedal_v4" where
  "loadSettings_fields_v4 s0 =
     (let local_settings = GetSettings_v4 (g4_SavedSettings s0);
          s = s0\<lparr>g4_plate_decay := s4_decay local_settings,
                g4_plate_tank_diffusion := s4_diffusion local_settings,
                g4_plate_input_damp_high := s4_input_cutoff_freq local_settings,
                g4_plate_tank_damp_high := s4_tank_cutoff_freq local_settings,
                g4_plate_tank_mod_speed := s4_tank_mod_speed local_settings,
                g4_plate_tank_mod_depth := s4_tank_mod_depth local_settings,
                g4_plate_tank_mod_shape := s4_tank_mod_shape local_settings,
                g4_plate_pre_delay := s4_pre_delay local_settings\<rparr>;
          s = s\<lparr>g4_mono_stereo_mode := s4_mono_stereo_mode local_settings\<rparr>;
          s = updateReverbScales_v4 (g4_mono_stereo_mode s) s;
          s = s\<lparr>g4_bypass_verb := s4_bypass_reverb local_settings,
                g4_bypass_trem := s4_bypass_tremolo local_settings,
                g4_bypass_delay := s4_bypass_delay local_settings\<rparr>
      in s\<lparr>g4_verb := (g4_verb s)\<lparr>PreDelay := g4_plate_pre_delay s,
                     InputFilterHighCutoffPitch := g4_plate_input_damp_high s,
                     Decay := g4_plate_decay s,
                     TankDiffusion := g4_plate_tank_diffusion s,
                     TankFilterHighCutFrequency := g4_plate_tank_damp_high s,
                     TankModSpeed := g4_plate_tank_mod_speed s * PLATE_TANK_MOD_SPEED_SCALE,
                     TankModDepth := g4_plate_tank_mod_depth s * PLATE_TANK_MOD_DEPTH_SCALE,
                     TankModShape := g4_plate_tank_mod_shape s\<rparr>\<rparr>)"

partial_function (option) loadSettings_v4 :: "pedal_v4 \<Rightarrow> pedal_v4 option" where
  "loadSettings_v4 s =
     (if s4_version (GetSettings_v4 (g4_SavedSettings s)) \<noteq> SETTINGS_VERSION_v4
        then loadSettings_v4 (s\<lparr>g4_SavedSettings := RestoreDefaults_v4 (g4_SavedSettings s)\<rparr>)
      else Some (loadSettings_fields_v4 s))"

declare loadSettings_v4.simps [code]

text \<open>
  The defaults of \<open>main\<close> and the globals when \<open>main\<close> reaches \<open>loadSettings()\<close>, as for
  the feature-complete file.
\<close>

definition defaultSettings_v4 :: Settings_v4 where
  "defaultSettings_v4 =
     \<lparr>s4_version = SETTINGS_VERSION_v4,
      s4_decay = 8 / 10,
      s4_diffusion = 85 / 100,
      s4_input_cutoff_freq = 725 / 100,
      s4_tank_cutoff_freq = 725 / 100,
      s4_tank_mod_speed = 1 / 10,
      s4_tank_mod_depth = 1 / 10,
      s4_tank_mod_shape = 25 / 100,
      s4_pre_delay = 0,
      s4_mono_stereo_mode = MS_MODE_MIMO,
      s4_bypass_reverb = True,
      s4_bypass_tremolo = True,
      s4_bypass_delay = True\<rparr>"

definition main_init_v4 :: "Settings_v4 option \<Rightarrow> pedal_v4" where
  "main_init_v4 flash =
     \<lparr>g4_SavedSettings = PersistentStorage_Init_v4 defaultSettings_v4 flash,
      g4_verb = \<lparr>PreDelay = 0, InputFilterHighCutoffPitch = 0, Decay = 0, TankDiffusion = 0,
                 TankFilterHighCutFrequency = 0, TankModSpeed = 0, TankModDepth = 0,
                 TankModShape = 0\<rparr>,
      g4_mono_stereo_mode = MS_MODE_MIMO,
      g4_bypass_verb = True,
      g4_bypass_trem = True,
      g4_bypass_delay = True,
      g4_plate_pre_delay = 0,
      g4_plate_decay = 8 / 10,
      g4_plate_tank_diffusion = 85 / 100,
      g4_plate_input_damp_high = 725 / 100,
      g4_plate_tank_damp_high = 725 / 100,
      g4_plate_tank_mod_speed = 1 / 10,
      g4_plate_tank_mod_depth = 1 / 10,
      g4_plate_tank_mod_shape = 25 / 100,
      g4_reverb_dry_scale_factor = 1,
      g4_reverb_reverse_scale_factor = 1\<rparr>"

section \<open>Predicates used in the statements\<close>

text \<open>
  The value of an enumeration variable is one of its enumerators; \<open>loaded_from r s\<close> says
  that every global that \<open>loadSettings\<close> loads holds the value of its field in \<open>r\<close>.
\<close>

definition valid_mono_stereo_mode :: "int \<Rightarrow> bool" where
  "valid_mono_stereo_mode m \<longleftrightarrow> MS_MODE_MIMO \<le> m \<and> m \<le> MS_MODE_SISO"

definition valid_makeup_gain :: "int \<Rightarrow> bool" where
  "valid_makeup_gain g \<longleftrightarrow> MAKEUP_GAIN_NONE \<le> g \<and> g \<le> MAKEUP_GAIN_HEAVY"

definition loaded_from :: "Settings \<Rightarrow> pedal \<Rightarrow> bool" where
  "loaded_from r s \<longleftrightarrow>
     plate_decay s = decay r \<and>
     plate_tank_diffusion s = diffusion r \<and>
     plate_input_damp_high s = input_cutoff_freq r \<and>
     plate_tank_damp_high s = tank_cutoff_freq r \<and>
     plate_tank_mod_speed s = tank_mod_speed r \<and>
     plate_tank_mod_depth s = tank_mod_depth r \<and>
     plate_tank_mod_shape s = tank_mod_shape r \<and>
     plate_pre_delay s = pre_delay r \<and>
     mono_stereo_mode s = saved_mono_stereo_mode r \<and>
     current_makeup_gain s = makeup_gain_mode r \<and>
     bypass_verb s = bypass_reverb r \<and>
     bypass_delay s = saved_bypass_delay r \<and>
     bypass_trem s = bypass_tremolo r"

text \<open>\<open>same_settings_values s t\<close>: the globals that are persisted agree in \<open>s\<close> and \<open>t\<close>.\<close>

definition same_settings_values :: "pedal \<Rightarrow> pedal \<Rightarrow> bool" where
  "same_settings_values s t \<longleftrightarrow>
     plate_decay t = plate_decay s \<and>
     plate_tank_diffusion t = plate_tank_diffusion s \<and>
     plate_input_damp_high t = plate_input_damp_high s \<and>
     plate_tank_damp_high t = plate_tank_damp_high s \<and>
     plate_tank_mod_speed t = plate_tank_mod_speed s \<and>
     plate_tank_mod_depth t = plate_tank_mod_depth s \<and>
     plate_tank_mod_shape t = plate_tank_mod_shape s \<and>
     plate_pre_delay t = plate_pre_delay s \<and>
     mono_stereo_mode t = mono_stereo_mode s \<and>
     current_makeup_gain t = current_makeup_gain s \<and>
     bypass_verb t = bypass_verb s \<and>
     bypass_delay t = bypass_delay s \<and>
     bypass_trem t = bypass_trem s"

text \<open>
  A takeover object is freshly captured at a hardware snapshot when it holds the current
  position of its control and has not yet released it.
\<close>

definition knob_captured :: "Funbox \<Rightarrow> KnobTakeover \<Rightarrow> bool" where
  "knob_captured hw kt \<longleftrightarrow>
     (\<exists>k. knob kt = Some k \<and> entry_value kt = knobs hw k) \<and> \<not> taken_over kt"

definition switch_captured :: "Funbox \<Rightarrow> SwitchChangeDetector \<Rightarrow> bool" where
  "switch_captured hw d \<longleftrightarrow>
     hw_ptr d \<and> entry_position d = toggleswitch hw (switch_index d) \<and> \<not> changed d"

definition takeovers_bound :: "pedal \<Rightarrow> bool" where
  "takeovers_bound s \<longleftrightarrow>
     knob (tap_tempo_delay_knob_takeover s) \<noteq> None \<and>
     knob (tap_tempo_tremolo_knob_takeover s) \<noteq> None \<and>
     knob (reverb_edit_wet_amount_knob s) \<noteq> None \<and>
     knob (reverb_edit_pre_delay_knob s) \<noteq> None \<and>
     knob (reverb_edit_decay_knob s) \<noteq> None \<and>
     knob (reverb_edit_diffusion_knob s) \<noteq> None \<and>
     knob (reverb_edit_input_cut_knob s) \<noteq> None \<and>
     knob (reverb_edit_tank_cut_knob s) \<noteq> None \<and>
     hw_ptr (reverb_edit_mod_speed_switch s) \<and>
     hw_ptr (reverb_edit_mod_depth_switch s) \<and>
     hw_ptr (reverb_edit_mod_shape_switch s)"

definition reverb_edit_initialized :: "Funbox \<Rightarrow> pedal \<Rightarrow> bool" where
  "reverb_edit_initialized hw s \<longleftrightarrow>
     \<not> bypass_verb s \<and>
     knob_captured hw (reverb_edit_wet_amount_knob s) \<and>
     knob_captured hw (reverb_edit_pre_delay_knob s) \<and>
     knob_captured hw (reverb_edit_decay_knob s) \<and>
     knob_captured hw (reverb_edit_diffusion_knob s) \<and>
     knob_captured hw (reverb_edit_input_cut_knob s) \<and>
     knob_captured hw (reverb_edit_tank_cut_knob s) \<and>
     switch_captured hw (reverb_edit_mod_speed_switch s) \<and>
     switch_captured hw (reverb_edit_mod_depth_switch s) \<and>
     switch_captured hw (reverb_edit_mod_shape_switch s)"

definition tap_tempo_initialized :: "Funbox \<Rightarrow> pedal \<Rightarrow> bool" where
  "tap_tempo_initialized hw s \<longleftrightarrow>
     tap_tempo_active s \<and>
     tap_tempo_last_tap_time s = now hw \<and>
     tap_tempo_controls_delay s = (\<not> bypass_delay s \<or> bypass_trem s) \<and>
     tap_tempo_controls_tremolo s = (\<not> bypass_trem s \<or> bypass_delay s) \<and>
     knob_captured hw (tap_tempo_delay_knob_takeover s) \<and>
     knob_captured hw (tap_tempo_tremolo_knob_takeover s)"



text \<open>A stage applied to the samples of a block, one after the other.\<close>

fun delay_stage_samples :: "pedal \<Rightarrow> (real \<times> real) list \<Rightarrow> (real \<times> real) list \<times> pedal" where
  "delay_stage_samples s [] = ([], s)"
| "delay_stage_samples s (x # xs) =
     (case delay_stage s x of
        (y, s') \<Rightarrow> (case delay_stage_samples s' xs of (ys, s'') \<Rightarrow> (y # ys, s'')))"

fun tremolo_stage_samples ::
  "('f \<Rightarrow> real \<Rightarrow> real \<times> 'f) \<Rightarrow> (Waveform \<Rightarrow> real \<Rightarrow> real) \<Rightarrow> Funbox
     \<Rightarrow> pedal \<times> 'f trem_filters \<Rightarrow> (real \<times> real) list
     \<Rightarrow> (real \<times> real) list \<times> pedal \<times> 'f trem_filters" where
  "tremolo_stage_samples fproc wave hw st [] = ([], st)"
| "tremolo_stage_samples fproc wave hw st (x # xs) =
     (case tremolo_stage fproc wave hw st x of
        (y, st') \<Rightarrow>
          (case tremolo_stage_samples fproc wave hw st' xs of (ys, st'') \<Rightarrow> (y # ys, st'')))"

text \<open>
  \<open>validated r\<close> is the record \<open>r\<close> with an out-of-range mono-stereo mode replaced by
  \<open>MS_MODE_MIMO\<close> and an out-of-range makeup gain by \<open>MAKEUP_GAIN_NORMAL\<close>.
\<close>

definition validated :: "Settings \<Rightarrow> Settings" where
  "validated r =
     r\<lparr>saved_mono_stereo_mode :=
          (if valid_mono_stereo_mode (saved_mono_stereo_mode r)
             then saved_mono_stereo_mode r else MS_MODE_MIMO),
       makeup_gain_mode :=
          (if valid_makeup_gain (makeup_gain_mode r)
             then makeup_gain_mode r else MAKEUP_GAIN_NORMAL)\<rparr>"

section \<open>Single-precision values\<close>

text \<open>
  The rounding evaluated: zero stays zero, and the float constants of the control file
  have these values. \<open>0.05f\<close> lies a little above \<open>0.05\<close>, \<open>0.2f\<close> a little above \<open>0.2\<close>;
  the two delay bounds, computed in single precision, are the whole numbers 960 and
  192000.
\<close>

lemmas f32_eval =
  f32_def f32_exponent_def f32_exponent_from.simps round_half_even_def Let_def

lemma f32_zero: "f32 0 = 0"
  by (simp add: f32_def round_half_even_def)

lemma KNOB_TAKEOVER_THRESHOLD_value: "KNOB_TAKEOVER_THRESHOLD = 13421773 / 268435456"
  unfolding KNOB_TAKEOVER_THRESHOLD_def by (simp add: f32_eval)

lemma f32_threshold: "f32 (13421773 / 268435456) = 13421773 / 268435456"
  by (simp add: f32_eval)

lemma f32_five_percent: "f32 (1 / 20) = 13421773 / 268435456"
  by (simp add: f32_eval)

text \<open>
  The knob readings of the examples below are binary32 numbers (rounding leaves them as
  they are), so they are readings the hardware layer can deliver. The decimals 0.55, 0.3
  and 0.35 are not; their roundings are.
\<close>

lemma example_readings_binary32:
  "f32 (1 / 32) = 1 / 32 \<and> f32 (1 / 16) = 1 / 16 \<and> f32 (1 / 2) = 1 / 2
   \<and> f32 (33 / 64) = 33 / 64
   \<and> f32 (55 / 100) = 9227469 / 16777216
   \<and> f32 (9227469 / 16777216) = 9227469 / 16777216
   \<and> f32 (3 / 10) = 5033165 / 16777216
   \<and> f32 (5033165 / 16777216) = 5033165 / 16777216
   \<and> f32 (35 / 100) = 11744051 / 33554432
   \<and> f32 (11744051 / 33554432) = 11744051 / 33554432
   \<and> f32 (8388611 / 1073741824) = 8388611 / 1073741824
   \<and> f32 (7759463 / 134217728) = 7759463 / 134217728"
  by (simp add: f32_eval)

lemma TREMOLO_SPEED_MIN_value: "TREMOLO_SPEED_MIN = 13421773 / 67108864"
  unfolding TREMOLO_SPEED_MIN_def by (simp add: f32_eval)

lemma TAP_TEMPO_SAMPLES_MIN_value: "TAP_TEMPO_SAMPLES_MIN = 960"
  unfolding TAP_TEMPO_SAMPLES_MIN_def uint32_to_float_def TAP_TEMPO_MIN_INTERVAL_MS_def
    MS_PER_SECOND_def SAMPLE_RATE_def
  by (simp add: f32_eval)

lemma TAP_TEMPO_SAMPLES_MAX_value: "TAP_TEMPO_SAMPLES_MAX = 192000"
  unfolding TAP_TEMPO_SAMPLES_MAX_def uint32_to_float_def TAP_TEMPO_MAX_INTERVAL_MS_def
    MS_PER_SECOND_def SAMPLE_RATE_def
  by (simp add: f32_eval)

section \<open>Single-precision accuracy\<close>

text \<open>
  Rounding moves a number by at most half a quantum. From the smallest normal number
  \<open>2^-126\<close> on this is at most the fraction \<open>2^-24\<close> of its magnitude. Whole numbers
  below \<open>2^24\<close> are binary32 numbers, so the conversion of a millisecond interval to
  \<open>float\<close> is exact.
\<close>

lemma round_half_even_error: "\<bar>of_int (round_half_even y) - y\<bar> \<le> 1 / 2"
  unfolding round_half_even_def Let_def by (auto simp: abs_le_iff; linarith)

lemma round_half_even_of_int: "round_half_even (of_int m) = m"
  by (simp add: round_half_even_def)

lemma f32_exponent_from_lower:
  "2 powi (f32_exponent_from e0 x + 23) \<le> \<bar>x\<bar> \<or> f32_exponent_from e0 x = e0"
proof (induction e0 x rule: f32_exponent_from.induct)
  case (1 e x)
  show ?case
  proof (cases "104 \<le> e \<or> \<bar>x\<bar> < 2 powi (e + 24)")
    case True
    then show ?thesis by (subst (2) f32_exponent_from.simps) simp
  next
    case False
    then have r: "f32_exponent_from e x = f32_exponent_from (e + 1) x"
      by (subst f32_exponent_from.simps) simp
    from 1 [OF False] show ?thesis
    proof
      assume "2 powi (f32_exponent_from (e + 1) x + 23) \<le> \<bar>x\<bar>"
      then show ?thesis by (simp add: r)
    next
      assume "f32_exponent_from (e + 1) x = e + 1"
      with False show ?thesis by (simp add: r add.commute)
    qed
  qed
qed

lemma f32_exponent_from_upper:
  "\<bar>x\<bar> < 2 powi (k + 24) \<Longrightarrow> e0 \<le> k \<Longrightarrow> f32_exponent_from e0 x \<le> k"
proof (induction e0 x rule: f32_exponent_from.induct)
  case (1 e x)
  show ?case
  proof (cases "104 \<le> e \<or> \<bar>x\<bar> < 2 powi (e + 24)")
    case True
    then show ?thesis using 1(3) by (subst f32_exponent_from.simps) simp
  next
    case False
    then have r: "f32_exponent_from e x = f32_exponent_from (e + 1) x"
      by (subst f32_exponent_from.simps) simp
    have "e \<noteq> k" using False 1(2) by auto
    with 1(3) have "e + 1 \<le> k" by simp
    from 1(1) [OF False 1(2) this] show ?thesis by (simp add: r)
  qed
qed

lemma f32_error: "\<bar>f32 x - x\<bar> \<le> 2 powi f32_exponent x / 2"
proof -
  let ?q = "(2 :: real) powi f32_exponent x"
  have q: "0 < ?q" by simp
  have "f32 x - x = (of_int (round_half_even (x / ?q)) - x / ?q) * ?q"
    using q by (simp add: f32_def field_simps)
  then have "\<bar>f32 x - x\<bar> = \<bar>of_int (round_half_even (x / ?q)) - x / ?q\<bar> * ?q"
    using q by (simp add: abs_mult)
  also have "\<dots> \<le> (1 / 2) * ?q"
    using round_half_even_error [of "x / ?q"] q by (intro mult_right_mono) simp_all
  finally show ?thesis by simp
qed

lemma f32_relative_error:
  assumes "2 powi (- 126) \<le> \<bar>x\<bar>"
  shows "\<bar>f32 x - x\<bar> \<le> \<bar>x\<bar> / 2 ^ 24"
proof -
  have "2 powi (f32_exponent x + 23) \<le> \<bar>x\<bar>"
    using f32_exponent_from_lower [of "- 149" x] assms
    by (auto simp add: f32_exponent_def)
  then have "2 powi f32_exponent x * 2 ^ 23 \<le> \<bar>x\<bar>"
    by (simp add: power_int_add)
  then have "2 powi f32_exponent x / 2 \<le> \<bar>x\<bar> / 2 ^ 24"
    by simp
  with f32_error [of x] show ?thesis by linarith
qed

lemma f32_of_nat:
  assumes "n < 2 ^ 24"
  shows "f32 (real n) = real n"
proof -
  have "\<bar>real n\<bar> < 2 powi (0 + 24)"
    using assms by (simp add: power_int_def)
  then have "f32_exponent (real n) \<le> 0"
    unfolding f32_exponent_def by (rule f32_exponent_from_upper) simp
  then obtain j where j: "f32_exponent (real n) = - int j"
    by (metis nonpos_int_cases)
  have "real n / 2 powi (- int j) = of_int (int n * 2 ^ j)"
    by (simp add: power_int_minus field_simps)
  then show ?thesis
    by (simp add: f32_def j round_half_even_of_int del: of_int_mult of_int_power)
      (simp add: power_int_minus)
qed

lemma fclamp_lipschitz: "lo \<le> hi \<Longrightarrow> \<bar>fclamp u lo hi - fclamp v lo hi\<bar> \<le> \<bar>u - v\<bar>"
  by (auto simp add: fclamp_def min_def max_def abs_le_iff)

lemma fclamp_above_lower:
  "\<bar>u - a\<bar> \<le> d \<Longrightarrow> lo1 < u \<Longrightarrow> lo2 \<le> a \<Longrightarrow>
   \<bar>fclamp u lo1 hi - fclamp a lo2 hi\<bar> \<le> d"
  by (auto simp add: fclamp_def min_def max_def abs_le_iff)

text \<open>
  The two conversions of a tap interval of \<open>n\<close> milliseconds, \<open>20 \<le> n \<le> 4000\<close>: the
  delay time in samples is within 1/32 of a sample of \<open>(n / 1000) * 48000\<close>, and the
  frequency within \<open>2^-18\<close> Hz of \<open>1000 / n\<close>; the frequency stays above \<open>0.2f\<close>.
\<close>

lemma delay_samples_accuracy:
  assumes "20 \<le> n" and "n \<le> 4000"
  shows "\<bar>f32 (f32 (f32 (real n) / 1000) * 48000) - (real n / 1000) * 48000\<bar> \<le> 1 / 32"
proof -
  have n: "f32 (real n) = real n"
    using assms by (intro f32_of_nat) simp
  let ?a = "real n / 1000"
  have a: "2 / 100 \<le> ?a" "?a \<le> 4" using assms by simp_all
  have "(2 :: real) powi (- 126) \<le> 2 / 100"
    by (simp add: power_int_minus field_simps)
  with a have "2 powi (- 126) \<le> \<bar>?a\<bar>" by linarith
  from f32_relative_error [OF this] a
  have e1: "\<bar>f32 ?a - ?a\<bar> \<le> 1 / 4194304" by simp
  let ?b = "f32 ?a * 48000"
  from e1 a have b: "900 \<le> ?b" "?b \<le> 192001" by linarith+
  have "(2 :: real) powi (- 126) \<le> 900"
    by (simp add: power_int_minus field_simps)
  with b have "2 powi (- 126) \<le> \<bar>?b\<bar>" by linarith
  from f32_relative_error [OF this] b
  have e2: "\<bar>f32 ?b - ?b\<bar> \<le> 192001 / 16777216" by simp
  from e1 have e3: "\<bar>?b - ?a * 48000\<bar> \<le> 48000 / 4194304" by linarith
  from e2 e3 show ?thesis unfolding n by linarith
qed

lemma tremolo_freq_accuracy:
  assumes "20 \<le> n" and "n \<le> 4000"
  shows "\<bar>f32 (1000 / f32 (real n)) - 1000 / real n\<bar> \<le> 1 / 2 ^ 18"
    and "13421773 / 67108864 < f32 (1000 / f32 (real n))"
    and "2 / 10 \<le> 1000 / real n"
proof -
  have n: "f32 (real n) = real n"
    using assms by (intro f32_of_nat) simp
  let ?a = "1000 / real n"
  have a: "1 / 4 \<le> ?a" "?a \<le> 50" using assms by (simp_all add: field_simps)
  have "(2 :: real) powi (- 126) \<le> 1 / 4"
    by (simp add: power_int_minus field_simps)
  with a have "2 powi (- 126) \<le> \<bar>?a\<bar>" by linarith
  from f32_relative_error [OF this] a
  have e1: "\<bar>f32 ?a - ?a\<bar> \<le> 50 / 16777216" by simp
  then show "\<bar>f32 (1000 / f32 (real n)) - 1000 / real n\<bar> \<le> 1 / 2 ^ 18"
    unfolding n by simp
  from e1 a show "13421773 / 67108864 < f32 (1000 / f32 (real n))"
    unfolding n by linarith
  from a show "2 / 10 \<le> 1000 / real n" by simp
qed

section \<open>Soft takeover (C1)\<close>

text \<open>
  Once an object passes its input through it does so on every later call; while it waits,
  its outputs are the frozen ones up to the first input that moves far enough. The
  movement is the difference of the two readings as the code computes it, in single
  precision.
\<close>

lemma Process_calls_active:
  "is_active kc \<Longrightarrow> Process_calls kc xs = map snd xs"
  by (induction xs) (simp_all add: Process_def)

lemma Process_calls_frozen:
  "\<not> is_active kc \<Longrightarrow>
   Process_calls kc xs =
     map (\<lambda>x. frozen_value kc)
       (takeWhile (\<lambda>x. movement (fst x) (baseline_control kc) < f32 (threshold kc)) xs)
     @ map snd
         (dropWhile (\<lambda>x. movement (fst x) (baseline_control kc) < f32 (threshold kc)) xs)"
proof (induction xs)
  case Nil
  show ?case by simp
next
  case (Cons x xs)
  show ?case
  proof (cases "movement (fst x) (baseline_control kc) < f32 (threshold kc)")
    case True
    with Cons show ?thesis by (simp add: Process_def)
  next
    case False
    with Cons.prems show ?thesis
      by (simp add: Process_def Process_calls_active)
  qed
qed

lemma Process2_calls_passthrough:
  "\<not> kc2_is_frozen kc \<Longrightarrow> Process2_calls kc xs = xs"
  by (induction xs) (simp_all add: Process2_def)

lemma Process2_calls_frozen:
  "kc2_is_frozen kc \<Longrightarrow>
   Process2_calls kc xs =
     map (\<lambda>x. kc2_frozen_knob kc)
       (takeWhile (\<lambda>x. movement x (kc2_frozen_knob kc) < f32 (kc2_threshold kc)) xs)
     @ dropWhile (\<lambda>x. movement x (kc2_frozen_knob kc) < f32 (kc2_threshold kc)) xs"
proof (induction xs)
  case Nil
  show ?case by simp
next
  case (Cons x xs)
  show ?case
  proof (cases "movement x (kc2_frozen_knob kc) < f32 (kc2_threshold kc)")
    case True
    with Cons show ?thesis by (simp add: Process2_def)
  next
    case False
    with Cons.prems show ?thesis
      by (simp add: Process2_def Process2_calls_passthrough)
  qed
qed

lemma Process2_keeps_frozen_value:
  "GetFrozenValue2 (snd (Process2 y kc)) = GetFrozenValue2 kc"
  by (simp add: Process2_def GetFrozenValue2_def)

lemma checkTakeover_calls_taken:
  "knob kt = Some k \<Longrightarrow> taken_over kt \<Longrightarrow>
   checkTakeover_calls th kt hws = map (\<lambda>hw. True) hws"
  by (induction hws) (simp_all add: checkTakeover_def)

lemma checkTakeover_calls_waiting:
  "knob kt = Some k \<Longrightarrow> \<not> taken_over kt \<Longrightarrow>
   checkTakeover_calls th kt hws =
     map (\<lambda>hw. False)
       (takeWhile (\<lambda>hw. movement (knobs hw k) (entry_value kt) \<le> f32 th) hws)
     @ map (\<lambda>hw. True)
         (dropWhile (\<lambda>hw. movement (knobs hw k) (entry_value kt) \<le> f32 th) hws)"
proof (induction hws)
  case Nil
  show ?case by simp
next
  case (Cons hw hws)
  show ?case
  proof (cases "movement (knobs hw k) (entry_value kt) \<le> f32 th")
    case True
    with Cons show ?thesis by (simp add: checkTakeover_def)
  next
    case False
    with Cons.prems show ?thesis
      by (simp add: checkTakeover_def checkTakeover_calls_taken)
  qed
qed

lemma checkTakeover_calls_unbound:
  "knob kt = None \<Longrightarrow> checkTakeover_calls th kt hws = map (\<lambda>hw. False) hws"
  by (induction hws) (simp_all add: checkTakeover_def)

text \<open>
  C1, as the code has it. The movement of a reading \<open>x\<close> from the captured raw position
  \<open>b\<close> is \<open>movement x b\<close>, the absolute value of the single-precision difference that
  the code compares with the threshold. After a capture at \<open>b\<close> (for \<open>KnobTakeover\<close>:
  the position \<open>knobs hw0 k\<close> of its knob), the results of any sequence of later calls
  are:
  \<^item> \<open>KnobCapture::Process\<close>, \<open>is_active_\<close> version: the frozen parameter value \<open>v\<close> for
    every call before the first one whose movement is at least the threshold, and the
    live value from that call on;
  \<^item> \<open>KnobCapture::Process\<close>, \<open>is_frozen_\<close> version: the same switch at movement at
    least the threshold, but the value returned while frozen is the recorded raw position
    \<open>b\<close>, not the parameter value handed to \<open>Capture\<close>; that value is what
    \<open>GetFrozenValue\<close> returns, after the capture and after every \<open>Process\<close> call;
  \<^item> \<open>KnobTakeover::checkTakeover\<close>: \<open>false\<close> for every call before the first one whose
    movement is strictly greater than the threshold, and \<open>true\<close> from that call on; a
    movement of exactly the threshold does not take over.
  No object returns to the frozen answer before the next capture.
\<close>

theorem soft_takeover_trace:
  "Process_calls (Capture b v kc) xs =
     map (\<lambda>x. v) (takeWhile (\<lambda>x. movement (fst x) b < f32 (threshold kc)) xs)
     @ map snd (dropWhile (\<lambda>x. movement (fst x) b < f32 (threshold kc)) xs)
   \<and> Process2_calls (Capture2 b v kc2) ys =
       map (\<lambda>y. b) (takeWhile (\<lambda>y. movement y b < f32 (kc2_threshold kc2)) ys)
       @ dropWhile (\<lambda>y. movement y b < f32 (kc2_threshold kc2)) ys
   \<and> GetFrozenValue2 (Capture2 b v kc2) = v
   \<and> GetFrozenValue2 (snd (Process2 y (Capture2 b v kc2))) = v
   \<and> (knob kt = Some k \<longrightarrow>
       checkTakeover_calls th (capture hw0 kt) hws =
         map (\<lambda>hw. False)
           (takeWhile (\<lambda>hw. movement (knobs hw k) (knobs hw0 k) \<le> f32 th) hws)
         @ map (\<lambda>hw. True)
             (dropWhile (\<lambda>hw. movement (knobs hw k) (knobs hw0 k) \<le> f32 th) hws))"
proof (intro conjI impI)
  show "Process_calls (Capture b v kc) xs =
     map (\<lambda>x. v) (takeWhile (\<lambda>x. movement (fst x) b < f32 (threshold kc)) xs)
     @ map snd (dropWhile (\<lambda>x. movement (fst x) b < f32 (threshold kc)) xs)"
    using Process_calls_frozen [of "Capture b v kc" xs] by (simp add: Capture_def)
  show "Process2_calls (Capture2 b v kc2) ys =
       map (\<lambda>y. b) (takeWhile (\<lambda>y. movement y b < f32 (kc2_threshold kc2)) ys)
       @ dropWhile (\<lambda>y. movement y b < f32 (kc2_threshold kc2)) ys"
    using Process2_calls_frozen [of "Capture2 b v kc2" ys] by (simp add: Capture2_def)
  show "GetFrozenValue2 (Capture2 b v kc2) = v"
    by (simp add: GetFrozenValue2_def Capture2_def)
  then show "GetFrozenValue2 (snd (Process2 y (Capture2 b v kc2))) = v"
    by (simp add: Process2_keeps_frozen_value)
  assume "knob kt = Some k"
  then show "checkTakeover_calls th (capture hw0 kt) hws =
         map (\<lambda>hw. False)
           (takeWhile (\<lambda>hw. movement (knobs hw k) (knobs hw0 k) \<le> f32 th) hws)
         @ map (\<lambda>hw. True)
             (dropWhile (\<lambda>hw. movement (knobs hw k) (knobs hw0 k) \<le> f32 th) hws)"
    using checkTakeover_calls_waiting [of "capture hw0 kt" k th hws] by (simp add: capture_def)
qed

text \<open>
  The movements of the examples. \<open>0.05f\<close> is 13421773 / 268435456.
  \<^item> From 0 to 1/32, to \<open>0.05f\<close> and to 1/16 the movement is the reading itself.
  \<^item> From 0.5 to 0.55, that is to \<open>0.55f\<close>, it is 838861 / 16777216, above \<open>0.05f\<close>.
  \<^item> From 0.3 to 0.35, that is from \<open>0.3f\<close> to \<open>0.35f\<close>, it is 1677721 / 33554432,
    below \<open>0.05f\<close>.
  \<^item> From 8388611 / 1073741824 to 7759463 / 134217728, two binary32 numbers, the exact
    difference exceeds \<open>0.05f\<close> by \<open>2^-30\<close>; the movement is \<open>0.05f\<close>.
\<close>

lemma movement_values:
  "movement 0 0 = 0"
  "movement (1 / 32) 0 = 1 / 32"
  "movement (13421773 / 268435456) 0 = 13421773 / 268435456"
  "movement (5 / 100) 0 = 13421773 / 268435456"
  "movement (1 / 16) 0 = 1 / 16"
  "movement (33 / 64) (1 / 2) = 1 / 64"
  "movement (55 / 100) (1 / 2) = 838861 / 16777216"
  "movement (35 / 100) (3 / 10) = 1677721 / 33554432"
  "movement (7759463 / 134217728) (8388611 / 1073741824) = 13421773 / 268435456"
  by (simp_all add: movement_def f32_eval)

text \<open>
  The three traces at threshold \<open>0.05f\<close> and baseline 0: readings 1/32, exactly the
  threshold, 1/16, then back to 0. \<open>checkTakeover\<close> takes over at the third reading,
  \<open>Process\<close> at the second.
\<close>

theorem soft_takeover_trace_witness:
  "knob (KnobTakeover_init KNOB_3 KnobTakeover_new) = Some KNOB_3
   \<and> checkTakeover_calls KNOB_TAKEOVER_THRESHOLD
       (capture (hw_at 0 0) (KnobTakeover_init KNOB_3 KnobTakeover_new))
       [hw_at (1 / 32) 1, hw_at (13421773 / 268435456) 2, hw_at (1 / 16) 3, hw_at 0 4]
     = [False, False, True, True]
   \<and> Process_calls (Capture 0 (3 / 4) (KnobCapture_new (5 / 100)))
       [(1 / 32, 1), (13421773 / 268435456, 2), (0, 3)] = [3 / 4, 2, 3]
   \<and> Process2_calls (Capture2 0 (3 / 4) (KnobCapture2_new (5 / 100)))
       [1 / 32, 13421773 / 268435456, 0] = [0, 13421773 / 268435456, 0]
   \<and> GetFrozenValue2
        (snd (Process2 (1 / 32) (Capture2 0 (3 / 4) (KnobCapture2_new (5 / 100))))) = 3 / 4"
  using soft_takeover_trace [where b = 0 and v = "3 / 4"
      and kc = "KnobCapture_new (5 / 100)"
      and xs = "[(1 / 32, 1), (13421773 / 268435456, 2), (0, 3)]"
      and ?kc2.0 = "KnobCapture2_new (5 / 100)"
      and ys = "[1 / 32, 13421773 / 268435456, 0]" and y = "1 / 32"
      and kt = "KnobTakeover_init KNOB_3 KnobTakeover_new" and k = KNOB_3
      and th = KNOB_TAKEOVER_THRESHOLD and ?hw0.0 = "hw_at 0 0"
      and hws = "[hw_at (1 / 32) 1, hw_at (13421773 / 268435456) 2,
                  hw_at (1 / 16) 3, hw_at 0 4]"]
  by (simp add: KnobTakeover_init_def KnobTakeover_new_def KnobCapture_new_def
      KnobCapture2_new_def hw_at_def KNOB_TAKEOVER_THRESHOLD_value f32_threshold
      f32_five_percent movement_values)

text \<open>
  Where rounding decides. Captured at 0.5 and read at 0.55, the knob takes over.
  Captured at 0.3 and read at 0.35, \<open>Process\<close> stays frozen. Captured at
  8388611 / 1073741824 and read at 7759463 / 134217728, the knob does not take over,
  although the exact difference of the two readings is above the threshold.
\<close>

lemma soft_takeover_rounding:
  "fst (checkTakeover (hw_at (55 / 100) 1) KNOB_TAKEOVER_THRESHOLD
          (capture (hw_at (1 / 2) 0) (KnobTakeover_init KNOB_3 KnobTakeover_new))) = True
   \<and> fst (Process (35 / 100) 1 (Capture (3 / 10) (3 / 4) (KnobCapture_new (5 / 100))))
       = 3 / 4
   \<and> 7759463 / 134217728 - 8388611 / 1073741824 > KNOB_TAKEOVER_THRESHOLD
   \<and> fst (checkTakeover (hw_at (7759463 / 134217728) 1) KNOB_TAKEOVER_THRESHOLD
          (capture (hw_at (8388611 / 1073741824) 0)
             (KnobTakeover_init KNOB_3 KnobTakeover_new))) = False"
proof -
  have m: "movement (11 / 20) (1 / 2) = 838861 / 16777216"
      "movement (7 / 20) (3 / 10) = 1677721 / 33554432"
    using movement_values by simp_all
  show ?thesis
    by (simp add: checkTakeover_def capture_def Process_def Capture_def hw_at_def
        KnobTakeover_init_def KnobTakeover_new_def KnobCapture_new_def
        KNOB_TAKEOVER_THRESHOLD_value f32_threshold f32_five_percent movement_values m)
qed

text \<open>
  The claim as stated fails for \<open>checkTakeover\<close>: with the knob captured at 0 on the long
  press into reverb edit mode and read at \<open>0.05f\<close> in the next block, the movement is
  the threshold \<open>0.05f\<close> itself, yet \<open>checkTakeover\<close> returns \<open>false\<close> and the decay stays
  at its value 0.8. It also fails for the \<open>is_frozen_\<close> version, which returns the
  baseline 1/2 while frozen although the frozen parameter value is 3/4.
\<close>

theorem checkTakeover_boundary_counterexample:
  "movement (knobs (hw_at (13421773 / 268435456) 1) KNOB_3) (knobs (hw_at 0 0) KNOB_3)
     \<ge> KNOB_TAKEOVER_THRESHOLD
   \<and> \<bar>knobs (hw_at (13421773 / 268435456) 1) KNOB_3 - knobs (hw_at 0 0) KNOB_3\<bar>
     \<ge> KNOB_TAKEOVER_THRESHOLD
   \<and> fst (checkTakeover (hw_at (13421773 / 268435456) 1) KNOB_TAKEOVER_THRESHOLD
        (capture (hw_at 0 0) (KnobTakeover_init KNOB_3 KnobTakeover_new))) = False
   \<and> plate_decay (AudioCallback_controls (hw_at (13421773 / 268435456) 1)
        (handleLongPress (hw_at 0 0) FOOTSWITCH_1 (main_init None))) = 8 / 10
   \<and> fst (Process2 (33 / 64) (Capture2 (1 / 2) (3 / 4) (KnobCapture2_new (5 / 100)))) = 1 / 2
   \<and> GetFrozenValue2 (Capture2 (1 / 2) (3 / 4) (KnobCapture2_new (5 / 100))) = 3 / 4"
  by (simp add: hw_at_def KNOB_TAKEOVER_THRESHOLD_value f32_threshold f32_five_percent
      movement_values checkTakeover_def capture_def
      KnobTakeover_init_def KnobTakeover_new_def AudioCallback_controls_def
      handleLongPress_def main_init_def edit_reverb_controls_def Process2_def Capture2_def
      GetFrozenValue2_def
      KnobCapture2_new_def checkChange_def capture_switch_def SwitchChangeDetector_init_def
      SwitchChangeDetector_new_def Let_def cong: let_weak_cong)

section \<open>Tap tempo conversion (C2)\<close>

text \<open>
  What a tap does. When the stored time of the previous tap is not zero and the interval
  \<open>I\<close> between the two taps, in milliseconds and modulo \<open>2^32\<close>, satisfies
  \<open>20 \<le> I \<le> 4000\<close>, the tapped delay time (and the master delay time) becomes
  \<open>(I / 1000) * 48000\<close>, each operation rounded to single precision, clamped to 960 and
  192000 samples, and the tapped tremolo frequency \<open>1000 / I\<close>, rounded and clamped to
  \<open>0.2f\<close> and 16 Hz. When the stored time is zero, or \<open>I < 20\<close>, or \<open>I > 4000\<close>, the
  stored interval, delay time and tremolo frequency are left unchanged. In every case the
  time of this tap is stored.
\<close>

lemma handleTapTempoTap_measured:
  assumes "tap_tempo_last_tap_time s \<noteq> 0"
    and "20 \<le> now hw - tap_tempo_last_tap_time s"
    and "now hw - tap_tempo_last_tap_time s \<le> 4000"
  shows "handleTapTempoTap hw s =
     s\<lparr>tap_tempo_interval_ms := now hw - tap_tempo_last_tap_time s,
       tap_tempo_delay_samples :=
         fclamp (f32 (f32 (uint32_to_float (now hw - tap_tempo_last_tap_time s) / 1000)
                      * 48000)) 960 192000,
       tap_tempo_tremolo_freq_hz :=
         fclamp (f32 (1000 / uint32_to_float (now hw - tap_tempo_last_tap_time s)))
           (13421773 / 67108864) 16,
       master_delay_time_samples :=
         fclamp (f32 (f32 (uint32_to_float (now hw - tap_tempo_last_tap_time s) / 1000)
                      * 48000)) 960 192000,
       tap_tempo_last_tap_time := now hw\<rparr>"
proof -
  from assms(1) have "0 < tap_tempo_last_tap_time s" by (simp add: word_neq_0_conv)
  with assms(2,3) show ?thesis
    by (simp add: handleTapTempoTap_def Let_def TAP_TEMPO_MIN_INTERVAL_MS_def
        TAP_TEMPO_MAX_INTERVAL_MS_def MS_PER_SECOND_def SAMPLE_RATE_def
        TAP_TEMPO_SAMPLES_MIN_value TAP_TEMPO_SAMPLES_MAX_value TREMOLO_SPEED_MIN_value
        TREMOLO_SPEED_MAX_def cong: let_weak_cong)
qed

lemma handleTapTempoTap_ignored:
  assumes "tap_tempo_last_tap_time s = 0 \<or> now hw - tap_tempo_last_tap_time s < 20
           \<or> 4000 < now hw - tap_tempo_last_tap_time s"
  shows "handleTapTempoTap hw s = s\<lparr>tap_tempo_last_tap_time := now hw\<rparr>"
  using assms
  by (auto simp add: handleTapTempoTap_def Let_def TAP_TEMPO_MIN_INTERVAL_MS_def
      TAP_TEMPO_MAX_INTERVAL_MS_def word_neq_0_conv [symmetric] not_le cong: let_weak_cong)

text \<open>
  Measured against exact arithmetic: for a measured interval \<open>I\<close> the stored delay time
  is within 1/32 of a sample of \<open>clamp((I / 1000) * 48000, 960, 192000)\<close> and the stored
  frequency within \<open>2^-18\<close> Hz of \<open>clamp(1000 / I, 0.2, 16)\<close>.
\<close>

lemma handleTapTempoTap_accuracy:
  assumes "tap_tempo_last_tap_time s \<noteq> 0"
    and "20 \<le> now hw - tap_tempo_last_tap_time s"
    and "now hw - tap_tempo_last_tap_time s \<le> 4000"
  shows "\<bar>tap_tempo_delay_samples (handleTapTempoTap hw s)
           - fclamp ((real (unat (now hw - tap_tempo_last_tap_time s)) / 1000) * 48000)
               960 192000\<bar> \<le> 1 / 32"
    and "\<bar>tap_tempo_tremolo_freq_hz (handleTapTempoTap hw s)
           - fclamp (1000 / real (unat (now hw - tap_tempo_last_tap_time s))) (2 / 10) 16\<bar>
         \<le> 1 / 2 ^ 18"
proof -
  let ?n = "unat (now hw - tap_tempo_last_tap_time s)"
  have n: "20 \<le> ?n" "?n \<le> 4000"
    using assms(2,3) by (simp_all add: word_le_nat_alt)
  note e = handleTapTempoTap_measured [OF assms]
  have "\<bar>fclamp (f32 (f32 (f32 (real ?n) / 1000) * 48000)) 960 192000
         - fclamp ((real ?n / 1000) * 48000) 960 192000\<bar>
        \<le> \<bar>f32 (f32 (f32 (real ?n) / 1000) * 48000) - (real ?n / 1000) * 48000\<bar>"
    by (rule fclamp_lipschitz) simp
  with delay_samples_accuracy [OF n]
  show "\<bar>tap_tempo_delay_samples (handleTapTempoTap hw s)
           - fclamp ((real ?n / 1000) * 48000) 960 192000\<bar> \<le> 1 / 32"
    by (simp add: e uint32_to_float_def)
  have "\<bar>fclamp (f32 (1000 / f32 (real ?n))) (13421773 / 67108864) 16
         - fclamp (1000 / real ?n) (2 / 10) 16\<bar> \<le> 1 / 2 ^ 18"
    by (rule fclamp_above_lower [OF tremolo_freq_accuracy [OF n]])
  then show "\<bar>tap_tempo_tremolo_freq_hz (handleTapTempoTap hw s)
           - fclamp (1000 / real ?n) (2 / 10) 16\<bar> \<le> 1 / 2 ^ 18"
    by (simp add: e uint32_to_float_def)
qed

text \<open>
  The conversion evaluated. An interval of 500 ms gives 24000 samples and 2 Hz, with no
  rounding error. An interval of 32 ms gives 1536 + 1/8192 samples and one of 256 ms gives
  12288 + 1/1024 samples, since \<open>0.032f\<close> and \<open>0.256f\<close> lie a little above 0.032 and
  0.256; 3000 ms gives 1/3 Hz rounded, which is 11184811 / 33554432.
\<close>

lemma tap_tempo_conversion_values:
  "f32 (f32 (uint32_to_float 500 / 1000) * 48000) = 24000
   \<and> f32 (1000 / uint32_to_float 500) = 2
   \<and> f32 (f32 (uint32_to_float 250 / 1000) * 48000) = 12000
   \<and> f32 (1000 / uint32_to_float 250) = 4
   \<and> f32 (f32 (uint32_to_float 32 / 1000) * 48000) = 1536 + 1 / 8192
   \<and> f32 (f32 (uint32_to_float 256 / 1000) * 48000) = 12288 + 1 / 1024
   \<and> f32 (1000 / uint32_to_float 3000) = 11184811 / 33554432"
  by (simp add: uint32_to_float_def f32_eval)

text \<open>
  C2 fails on the code when the previous tap fell on a clock value of zero, the value
  that \<open>handleTapTempoTap\<close> reads as "no previous tap". Tap tempo is entered 250 ms
  before the millisecond counter wraps. The first tap comes at clock value 0: the
  interval is 250 ms, across the wrap, and the delay time becomes 12000 samples. The
  second tap comes 500 ms later: the interval is 500 ms, within the range, and C2
  asks for 24000 samples and 2 Hz (in exact and in single-precision arithmetic alike);
  the code leaves the delay time at 12000 samples and the frequency at 4 Hz. The
  timeout check of the same file takes the stored zero as the time of a tap: without a
  further tap it leaves tap tempo mode 5000 ms after it.
\<close>

theorem handleTapTempoTap_zero_timestamp:
  "pedal_mode (enterTapTempoMode (hw_at 0 4294967046) (main_init None)) = PEDAL_MODE_TAP_TEMPO
   \<and> tap_tempo_delay_samples
        (handleTapTempoTap (hw_at 0 0)
           (enterTapTempoMode (hw_at 0 4294967046) (main_init None))) = 12000
   \<and> tap_tempo_last_tap_time
        (handleTapTempoTap (hw_at 0 0)
           (enterTapTempoMode (hw_at 0 4294967046) (main_init None))) = 0
   \<and> now (hw_at 0 500)
       - tap_tempo_last_tap_time
           (handleTapTempoTap (hw_at 0 0)
              (enterTapTempoMode (hw_at 0 4294967046) (main_init None))) = 500
   \<and> fclamp ((500 / 1000) * 48000) 960 192000 = 24000
   \<and> fclamp (f32 (f32 (uint32_to_float 500 / MS_PER_SECOND) * SAMPLE_RATE))
        TAP_TEMPO_SAMPLES_MIN TAP_TEMPO_SAMPLES_MAX = 24000
   \<and> tap_tempo_delay_samples
        (handleTapTempoTap (hw_at 0 500)
           (handleTapTempoTap (hw_at 0 0)
              (enterTapTempoMode (hw_at 0 4294967046) (main_init None)))) = 12000
   \<and> tap_tempo_tremolo_freq_hz
        (handleTapTempoTap (hw_at 0 500)
           (handleTapTempoTap (hw_at 0 0)
              (enterTapTempoMode (hw_at 0 4294967046) (main_init None)))) = 4
   \<and> pedal_mode
        (checkTapTempoTimeout (hw_at 0 4999)
           (handleTapTempoTap (hw_at 0 0)
              (enterTapTempoMode (hw_at 0 4294967046) (main_init None))))
       = PEDAL_MODE_TAP_TEMPO
   \<and> pedal_mode
        (checkTapTempoTimeout (hw_at 0 5000)
           (handleTapTempoTap (hw_at 0 0)
              (enterTapTempoMode (hw_at 0 4294967046) (main_init None))))
       = PEDAL_MODE_NORMAL"
proof -
  let ?e = "enterTapTempoMode (hw_at 0 4294967046) (main_init None)"
  let ?t1 = "handleTapTempoTap (hw_at 0 0) ?e"
  have v: "f32 (f32 (uint32_to_float 500 / 1000) * 48000) = 24000"
      "f32 (f32 (uint32_to_float 250 / 1000) * 48000) = 12000"
      "f32 (1000 / uint32_to_float 250) = 4"
    using tap_tempo_conversion_values by simp_all
  have n: "now (hw_at 0 0) = 0" "now (hw_at 0 500) = 500" "now (hw_at 0 4999) = 4999"
      "now (hw_at 0 5000) = 5000"
    by (simp_all add: hw_at_def)
  have m: "pedal_mode ?e = PEDAL_MODE_TAP_TEMPO"
    by (simp add: enterTapTempoMode_def Let_def cong: let_weak_cong)
  have l: "tap_tempo_last_tap_time ?e = 4294967046"
    by (simp add: enterTapTempoMode_def hw_at_def Let_def cong: let_weak_cong)
  have i: "now (hw_at 0 0) - tap_tempo_last_tap_time ?e = 250"
    by (simp add: l n)
  have t1: "?t1 =
      ?e\<lparr>tap_tempo_interval_ms := 250, tap_tempo_delay_samples := 12000,
         tap_tempo_tremolo_freq_hz := 4, master_delay_time_samples := 12000,
         tap_tempo_last_tap_time := 0\<rparr>"
  proof -
    have p: "tap_tempo_last_tap_time ?e \<noteq> 0"
      by (simp add: l)
    have q: "20 \<le> now (hw_at 0 0) - tap_tempo_last_tap_time ?e"
        "now (hw_at 0 0) - tap_tempo_last_tap_time ?e \<le> 4000"
      by (simp_all only: i) simp_all
    show ?thesis
      by (simp only: handleTapTempoTap_measured [OF p q] i) (simp add: n v fclamp_def)
  qed
  have d1: "tap_tempo_delay_samples ?t1 = 12000"
    by (simp add: t1)
  have f1: "tap_tempo_tremolo_freq_hz ?t1 = 4"
    by (simp add: t1)
  have l1: "tap_tempo_last_tap_time ?t1 = 0"
    by (simp add: t1)
  have m1: "pedal_mode ?t1 = PEDAL_MODE_TAP_TEMPO"
    by (simp add: t1 m)
  have i2: "now (hw_at 0 500) - tap_tempo_last_tap_time ?t1 = 500"
    by (simp add: l1 n)
  have t2: "handleTapTempoTap (hw_at 0 500) ?t1 = ?t1\<lparr>tap_tempo_last_tap_time := now (hw_at 0 500)\<rparr>"
    using handleTapTempoTap_ignored [of ?t1 "hw_at 0 500"] l1 by blast
  have d2: "tap_tempo_delay_samples (handleTapTempoTap (hw_at 0 500) ?t1) = 12000"
    by (simp add: t2 d1)
  have f2: "tap_tempo_tremolo_freq_hz (handleTapTempoTap (hw_at 0 500) ?t1) = 4"
    by (simp add: t2 f1)
  have c1: "fclamp ((500 / 1000) * 48000) 960 192000 = 24000"
    by (simp add: fclamp_def)
  have c2: "fclamp (f32 (f32 (uint32_to_float 500 / MS_PER_SECOND) * SAMPLE_RATE))
         TAP_TEMPO_SAMPLES_MIN TAP_TEMPO_SAMPLES_MAX = 24000"
    by (simp add: fclamp_def v MS_PER_SECOND_def SAMPLE_RATE_def
        TAP_TEMPO_SAMPLES_MIN_value TAP_TEMPO_SAMPLES_MAX_value)
  have o1: "pedal_mode (checkTapTempoTimeout (hw_at 0 4999) ?t1) = PEDAL_MODE_TAP_TEMPO"
    by (simp add: checkTapTempoTimeout_def m1 l1 n TAP_TEMPO_TIMEOUT_MS_def Let_def)
  have o2: "pedal_mode (checkTapTempoTimeout (hw_at 0 5000) ?t1) = PEDAL_MODE_NORMAL"
    by (simp add: checkTapTempoTimeout_def exitTapTempoMode_def m1 l1 n
        TAP_TEMPO_TIMEOUT_MS_def Let_def)
  show ?thesis
    using m d1 l1 i2 c1 c2 d2 f2 o1 o2 by blast
qed

section \<open>Tremolo depth (C3)\<close>

lemma applyDelaySubdivisionAndSetTargets_frame:
  "depth (applyDelaySubdivisionAndSetTargets hw m s) = depth s"
  "osc (applyDelaySubdivisionAndSetTargets hw m s) = osc s"
  "pedal_mode (applyDelaySubdivisionAndSetTargets hw m s) = pedal_mode s"
  "tap_tempo_controls_tremolo (applyDelaySubdivisionAndSetTargets hw m s)
     = tap_tempo_controls_tremolo s"
  "tap_tempo_tremolo_freq_hz (applyDelaySubdivisionAndSetTargets hw m s)
     = tap_tempo_tremolo_freq_hz s"
  by (simp_all add: applyDelaySubdivisionAndSetTargets_def Let_def cong: let_weak_cong)

lemma normal_tremolo_speed_depth:
  "depth (normal_tremolo_speed hw s) = depth s"
  by (simp add: normal_tremolo_speed_def Let_def SetFreq_def split: prod.splits
      cong: let_weak_cong)

lemma normal_tremolo_depth_value:
  "depth (normal_tremolo_depth hw s) =
     (if kTremoloModeMap ! position_index (toggleswitch hw TOGGLESWITCH_2) = TREMOLO_HARMONIC
        then fclamp (p_trem_depth hw) 0 1 * (125 / 100)
      else fclamp (p_trem_depth hw) 0 1 * (5 / 10))"
  "amp (osc (normal_tremolo_depth hw s)) = depth (normal_tremolo_depth hw s)"
  "dc_offset (normal_tremolo_depth hw s) = 1 - depth (normal_tremolo_depth hw s)"
  by (simp_all add: normal_tremolo_depth_def Let_def SetAmp_def SetWaveform_def
      cong: let_weak_cong)

lemma normal_delay_frame:
  "depth (normal_delay hw s) = depth s"
  "osc (normal_delay hw s) = osc s"
  by (simp_all add: normal_delay_def Let_def applyDelaySubdivisionAndSetTargets_frame
      split: prod.splits cong: let_weak_cong)

lemma normal_reverb_mode_frame:
  "depth (normal_reverb_mode hw s) = depth s"
  "osc (normal_reverb_mode hw s) = osc s"
  by (simp_all add: normal_reverb_mode_def split: ReverbKnobMode.splits)

lemma AudioCallback_controls_normal:
  "pedal_mode s = PEDAL_MODE_NORMAL \<Longrightarrow>
   AudioCallback_controls hw s = normal_mode_controls hw (s\<lparr>plate_wet := p_verb_amt hw\<rparr>)"
  by (simp add: AudioCallback_controls_def Let_def cong: let_weak_cong)

lemma fclamp_unit: "0 \<le> fclamp x 0 1 \<and> fclamp x 0 1 \<le> 1"
  by (simp add: fclamp_def)

text \<open>
  C3, as the code has it. In normal mode the block refresh clamps the depth reading to
  \<open>[0, 1]\<close> and scales it by 0.5 in sine and square mode and by 1.25 in harmonic mode;
  the result is the oscillator amplitude. It lies in \<open>[0, 0.5]\<close> for sine and square and in
  \<open>[0, 1.25]\<close> for harmonic.
\<close>

theorem tremolo_depth_range:
  "pedal_mode s = PEDAL_MODE_NORMAL \<longrightarrow>
   amp (osc (AudioCallback_controls hw s)) = depth (AudioCallback_controls hw s)
   \<and> (kTremoloModeMap ! position_index (toggleswitch hw TOGGLESWITCH_2) = TREMOLO_SINE
        \<or> kTremoloModeMap ! position_index (toggleswitch hw TOGGLESWITCH_2) = TREMOLO_SQUARE
      \<longrightarrow> depth (AudioCallback_controls hw s) = fclamp (p_trem_depth hw) 0 1 * (1 / 2)
          \<and> 0 \<le> depth (AudioCallback_controls hw s)
          \<and> depth (AudioCallback_controls hw s) \<le> 1 / 2)
   \<and> (kTremoloModeMap ! position_index (toggleswitch hw TOGGLESWITCH_2) = TREMOLO_HARMONIC
      \<longrightarrow> depth (AudioCallback_controls hw s) = fclamp (p_trem_depth hw) 0 1 * (5 / 4)
          \<and> 0 \<le> depth (AudioCallback_controls hw s)
          \<and> depth (AudioCallback_controls hw s) \<le> 5 / 4)"
proof
  assume n: "pedal_mode s = PEDAL_MODE_NORMAL"
  have d: "depth (AudioCallback_controls hw s) =
     (if kTremoloModeMap ! position_index (toggleswitch hw TOGGLESWITCH_2) = TREMOLO_HARMONIC
        then fclamp (p_trem_depth hw) 0 1 * (125 / 100)
      else fclamp (p_trem_depth hw) 0 1 * (5 / 10))"
    by (simp add: AudioCallback_controls_normal [OF n] normal_mode_controls_def
        normal_reverb_mode_frame normal_delay_frame normal_tremolo_depth_value)
  have a: "amp (osc (AudioCallback_controls hw s)) = depth (AudioCallback_controls hw s)"
    by (simp add: AudioCallback_controls_normal [OF n] normal_mode_controls_def
        normal_reverb_mode_frame normal_delay_frame normal_tremolo_depth_value)
  have u: "0 \<le> fclamp (p_trem_depth hw) 0 1" "fclamp (p_trem_depth hw) 0 1 \<le> 1"
    using fclamp_unit [of "p_trem_depth hw"] by simp_all
  show "amp (osc (AudioCallback_controls hw s)) = depth (AudioCallback_controls hw s)
   \<and> (kTremoloModeMap ! position_index (toggleswitch hw TOGGLESWITCH_2) = TREMOLO_SINE
        \<or> kTremoloModeMap ! position_index (toggleswitch hw TOGGLESWITCH_2) = TREMOLO_SQUARE
      \<longrightarrow> depth (AudioCallback_controls hw s) = fclamp (p_trem_depth hw) 0 1 * (1 / 2)
          \<and> 0 \<le> depth (AudioCallback_controls hw s)
          \<and> depth (AudioCallback_controls hw s) \<le> 1 / 2)
   \<and> (kTremoloModeMap ! position_index (toggleswitch hw TOGGLESWITCH_2) = TREMOLO_HARMONIC
      \<longrightarrow> depth (AudioCallback_controls hw s) = fclamp (p_trem_depth hw) 0 1 * (5 / 4)
          \<and> 0 \<le> depth (AudioCallback_controls hw s)
          \<and> depth (AudioCallback_controls hw s) \<le> 5 / 4)"
    using a u by (auto simp add: d)
qed

text \<open>Depth reading 0.8: harmonic (switch 2 in the middle) gives 1, sine (left) 0.4.\<close>

theorem tremolo_depth_range_witness:
  "pedal_mode (main_init None) = PEDAL_MODE_NORMAL
   \<and> kTremoloModeMap ! position_index (toggleswitch (hw_at (8 / 10) 0) TOGGLESWITCH_2)
       = TREMOLO_HARMONIC
   \<and> depth (AudioCallback_controls (hw_at (8 / 10) 0) (main_init None)) = 1
   \<and> kTremoloModeMap !
       position_index
         (toggleswitch ((hw_at (8 / 10) 0)\<lparr>toggleswitch := (\<lambda>sw. TOGGLESWITCH_LEFT)\<rparr>)
            TOGGLESWITCH_2) = TREMOLO_SINE
   \<and> depth (AudioCallback_controls
        ((hw_at (8 / 10) 0)\<lparr>toggleswitch := (\<lambda>sw. TOGGLESWITCH_LEFT)\<rparr>) (main_init None))
       = 4 / 10"
  using tremolo_depth_range [of "main_init None" "hw_at (8 / 10) 0"]
        tremolo_depth_range [of "main_init None"
          "(hw_at (8 / 10) 0)\<lparr>toggleswitch := (\<lambda>sw. TOGGLESWITCH_LEFT)\<rparr>"]
  by (simp add: main_init_def hw_at_def kTremoloModeMap_def fclamp_def)

text \<open>
  The claim as stated fails in harmonic mode: with the depth knob fully up the scaled
  depth is 1.25, above 0.625.
\<close>

theorem harmonic_depth_counterexample:
  "kTremoloModeMap ! position_index (toggleswitch (hw_at 1 0) TOGGLESWITCH_2)
       = TREMOLO_HARMONIC
   \<and> fclamp (p_trem_depth (hw_at 1 0)) 0 1 = 1
   \<and> depth (AudioCallback_controls (hw_at 1 0) (main_init None)) = 125 / 100
   \<and> amp (osc (AudioCallback_controls (hw_at 1 0) (main_init None))) = 125 / 100
   \<and> \<not> depth (AudioCallback_controls (hw_at 1 0) (main_init None)) \<le> 625 / 1000"
  by (simp add: AudioCallback_controls_def normal_mode_controls_def normal_reverb_mode_def
      normal_delay_def normal_tremolo_depth_def normal_tremolo_speed_def
      applyDelaySubdivisionAndSetTargets_def main_init_def hw_at_def kTremoloModeMap_def
      kReverbKnobMap_def kDelaySubdivisionMap_def fclamp_def SetFreq_def SetAmp_def
      SetWaveform_def Let_def cong: let_weak_cong)

section \<open>Bypassed delay and tremolo (C4, C5)\<close>

lemma delay_stage_bypassed:
  "bypass_delay s \<Longrightarrow> delay_stage s x = (x, s)"
  by (simp add: delay_stage_def Let_def cong: let_weak_cong)

lemma delay_stage_samples_bypassed:
  "bypass_delay s \<Longrightarrow> delay_stage_samples s xs = (xs, s)"
  by (induction xs) (simp_all add: delay_stage_bypassed)

lemma delay_stage_active:
  "\<not> bypass_delay s \<Longrightarrow>
   delayL (snd (delay_stage s x)) = snd (Delay_Process (fst x) (delayL s))
   \<and> delayR (snd (delay_stage s x)) = snd (Delay_Process (snd x) (delayR s))"
  by (simp add: delay_stage_def Let_def cong: let_weak_cong)

text \<open>
  C4, as the code has it. While \<open>bypass_delay\<close> is true the delay stage does nothing: the
  samples pass unchanged and the state, with both delay lines, their write pointers and
  their smoothed delay times, is exactly what it was, for every sample of a block. Only
  while the delay is not bypassed is each delay line read and rewritten, by
  \<open>Delay::Process\<close>, with feedback times the read value plus the input.
\<close>

theorem delay_bypass_freezes_line:
  "(bypass_delay s \<longrightarrow>
      delay_stage s x = (x, s) \<and> delay_stage_samples s xs = (xs, s))
   \<and> (\<not> bypass_delay s \<longrightarrow>
      delayL (snd (delay_stage s x)) = snd (Delay_Process (fst x) (delayL s))
      \<and> delayR (snd (delay_stage s x)) = snd (Delay_Process (snd x) (delayR s)))"
  using delay_stage_bypassed [of s x] delay_stage_samples_bypassed [of s xs]
    delay_stage_active [of s x]
  by blast

text \<open>
  Bypassed after start-up, two samples leave the state untouched; with the delay switched
  on, one sample moves the write pointer of the left line from 0 to 95999.
\<close>

theorem delay_bypass_freezes_line_witness:
  "bypass_delay (main_init None)
   \<and> delay_stage_samples (main_init None) [(1, 1), (2, 0)]
       = ([(1, 1), (2, 0)], main_init None)
   \<and> \<not> bypass_delay ((main_init None)\<lparr>bypass_delay := False\<rparr>)
   \<and> dl_write_ptr (del (delayL (snd (delay_stage
        ((main_init None)\<lparr>bypass_delay := False\<rparr>) (1, 1))))) = 95999"
proof -
  let ?on = "(main_init None)\<lparr>bypass_delay := False\<rparr>"
  have b: "bypass_delay (main_init None)" by (simp add: main_init_def)
  have a: "\<not> bypass_delay ?on" by simp
  have p: "dl_write_ptr (del (snd (Delay_Process 1 (delayL ?on)))) = 95999"
    by (simp add: Delay_Process_def main_init_def DelayLine_Init_def SetDelay_def Read_def
        Write_def fonepole_def float_to_int_def MAX_DELAY_def Let_def cong: let_weak_cong)
  from b delay_bypass_freezes_line [of "main_init None" "(1, 1)" "[(1, 1), (2, 0)]"]
  have f: "delay_stage_samples (main_init None) [(1, 1), (2, 0)]
       = ([(1, 1), (2, 0)], main_init None)"
    by blast
  from a delay_bypass_freezes_line [of ?on "(1, 1)" "[]"]
  have "delayL (snd (delay_stage ?on (1, 1))) = snd (Delay_Process 1 (delayL ?on))"
    by simp
  with p have g: "dl_write_ptr (del (delayL (snd (delay_stage ?on (1, 1))))) = 95999"
    by (simp only:)
  from b f a g show ?thesis by blast
qed

text \<open>
  The claim as stated fails: with the delay bypassed, a sample leaves the left delay line
  as it was (write pointer 0, nothing stored), whereas reading and rewriting it would
  have stored the sample and moved the write pointer to 95999.
\<close>

theorem delay_bypass_counterexample:
  "bypass_delay (main_init None)
   \<and> dl_write_ptr (del (delayL (snd (delay_stage (main_init None) (1, 1))))) = 0
   \<and> dl_line (del (delayL (snd (delay_stage (main_init None) (1, 1))))) 0 = 0
   \<and> dl_write_ptr (del (snd (Delay_Process 1 (delayL (main_init None))))) = 95999
   \<and> dl_line (del (snd (Delay_Process 1 (delayL (main_init None))))) 0 = 1"
  by (simp add: delay_stage_def Delay_Process_def main_init_def DelayLine_Init_def
      SetDelay_def Read_def Write_def fonepole_def float_to_int_def MAX_DELAY_def Let_def
      cong: let_weak_cong)

lemma tremolo_stage_bypassed:
  "bypass_trem s \<Longrightarrow> tremolo_stage fproc wave hw (s, fl) x = (x, s, fl)"
  by (simp add: tremolo_stage_def Let_def cong: let_weak_cong)

lemma tremolo_stage_samples_bypassed:
  "bypass_trem s \<Longrightarrow> tremolo_stage_samples fproc wave hw (s, fl) xs = (xs, s, fl)"
  by (induction xs) (simp_all add: tremolo_stage_bypassed)

lemma tremolo_stage_active:
  "\<not> bypass_trem s \<Longrightarrow>
   osc (fst (snd (tremolo_stage fproc wave hw (s, fl) x))) = snd (osc_Process wave (osc s))"
  by (simp add: tremolo_stage_def Let_def split: prod.splits cong: let_weak_cong)

text \<open>
  C5, as the code has it. While \<open>bypass_trem\<close> is true the tremolo stage does nothing:
  the samples pass unchanged and the oscillator is not processed, so its phase stays where
  it was for every sample of a block. Only while the tremolo is not bypassed does each
  sample advance the phase, by frequency over sample rate.
\<close>

theorem tremolo_bypass_freezes_lfo:
  "(bypass_trem s \<longrightarrow>
      tremolo_stage fproc wave hw (s, fl) x = (x, s, fl)
      \<and> tremolo_stage_samples fproc wave hw (s, fl) xs = (xs, s, fl))
   \<and> (\<not> bypass_trem s \<longrightarrow>
      osc (fst (snd (tremolo_stage fproc wave hw (s, fl) x))) = snd (osc_Process wave (osc s))
      \<and> phase (osc (fst (snd (tremolo_stage fproc wave hw (s, fl) x))))
          = frac (phase (osc s) + freq (osc s) / 48000))"
  using tremolo_stage_bypassed [of s fproc wave hw fl x]
    tremolo_stage_samples_bypassed [of s fproc wave hw fl xs]
    tremolo_stage_active [of s fproc wave hw fl x]
  by (simp add: osc_Process_def SAMPLE_RATE_def)

text \<open>
  Bypassed after start-up, two samples leave oscillator and state untouched; with the
  tremolo switched on at 12 Hz, one sample advances the phase from 0 to 1/4000.
\<close>

theorem tremolo_bypass_freezes_lfo_witness:
  "bypass_trem (main_init None)
   \<and> tremolo_stage_samples stateless_filter zero_wave (hw_at 0 0)
       (main_init None, stateless_filters) [(1, 1), (2, 0)]
     = ([(1, 1), (2, 0)], main_init None, stateless_filters)
   \<and> \<not> bypass_trem ((main_init None)
        \<lparr>osc := SetFreq 12 (osc (main_init None)), bypass_trem := False\<rparr>)
   \<and> phase (osc (fst (snd (tremolo_stage stateless_filter zero_wave (hw_at 0 0)
        ((main_init None)\<lparr>osc := SetFreq 12 (osc (main_init None)), bypass_trem := False\<rparr>,
         stateless_filters) (1, 1))))) = 1 / 4000"
proof -
  let ?on = "(main_init None)
        \<lparr>osc := SetFreq 12 (osc (main_init None)), bypass_trem := False\<rparr>"
  have b: "bypass_trem (main_init None)" by (simp add: main_init_def)
  have a: "\<not> bypass_trem ?on" by simp
  have p: "frac (phase (osc ?on) + freq (osc ?on) / 48000) = 1 / 4000"
    by (simp add: main_init_def SetFreq_def frac_def)
  from b tremolo_bypass_freezes_lfo [of "main_init None" stateless_filter zero_wave
      "hw_at 0 0" stateless_filters "(1, 1)" "[(1, 1), (2, 0)]"]
  have f: "tremolo_stage_samples stateless_filter zero_wave (hw_at 0 0)
       (main_init None, stateless_filters) [(1, 1), (2, 0)]
     = ([(1, 1), (2, 0)], main_init None, stateless_filters)"
    by blast
  from a tremolo_bypass_freezes_lfo [of ?on stateless_filter zero_wave "hw_at 0 0"
      stateless_filters "(1, 1)" "[]"]
  have "phase (osc (fst (snd (tremolo_stage stateless_filter zero_wave (hw_at 0 0)
        (?on, stateless_filters) (1, 1))))) = frac (phase (osc ?on) + freq (osc ?on) / 48000)"
    by (simp add: osc_Process_def SAMPLE_RATE_def)
  with p have g: "phase (osc (fst (snd (tremolo_stage stateless_filter zero_wave (hw_at 0 0)
        (?on, stateless_filters) (1, 1))))) = 1 / 4000"
    by (simp only:)
  from b f a g show ?thesis by blast
qed

text \<open>
  The claim as stated fails: with the tremolo bypassed and the oscillator at 12 Hz, the
  phase after a sample is still 0, whereas one oscillator step would have made it 1/4000.
\<close>

theorem tremolo_bypass_counterexample:
  "bypass_trem ((main_init None)\<lparr>osc := SetFreq 12 (osc (main_init None))\<rparr>)
   \<and> phase (osc (fst (snd (tremolo_stage stateless_filter zero_wave (hw_at 0 0)
        ((main_init None)\<lparr>osc := SetFreq 12 (osc (main_init None))\<rparr>, stateless_filters)
        (1, 1))))) = 0
   \<and> phase (snd (osc_Process zero_wave (SetFreq 12 (osc (main_init None))))) = 1 / 4000"
  by (simp add: tremolo_stage_def osc_Process_def SetFreq_def main_init_def SAMPLE_RATE_def
      frac_def Let_def cong: let_weak_cong)

section \<open>Versioned settings (C6, C8, C10)\<close>

lemma loadSettings_match:
  "version (settings (SavedSettings s)) = SETTINGS_VERSION \<Longrightarrow>
   loadSettings s = Some (loadSettings_fields s)"
  by (subst loadSettings.simps) (simp add: GetSettings_def)

lemma loadSettings_mismatch:
  "version (settings (SavedSettings s)) \<noteq> SETTINGS_VERSION \<Longrightarrow>
   version (default_settings (SavedSettings s)) = SETTINGS_VERSION \<Longrightarrow>
   loadSettings s =
     Some (loadSettings_fields (s\<lparr>SavedSettings := RestoreDefaults (SavedSettings s)\<rparr>))"
  by (subst loadSettings.simps)
     (simp add: GetSettings_def loadSettings_match RestoreDefaults_def)

lemma loadSettings_fields_storage:
  "SavedSettings (loadSettings_fields s) = SavedSettings s"
  by (simp add: loadSettings_fields_def updateReverbScales_def Let_def cong: let_weak_cong)

lemma loadSettings_fields_reverb:
  "plate_decay (loadSettings_fields s) = decay (settings (SavedSettings s))"
  "plate_tank_diffusion (loadSettings_fields s) = diffusion (settings (SavedSettings s))"
  "plate_input_damp_high (loadSettings_fields s) = input_cutoff_freq (settings (SavedSettings s))"
  "plate_tank_damp_high (loadSettings_fields s) = tank_cutoff_freq (settings (SavedSettings s))"
  "plate_tank_mod_speed (loadSettings_fields s) = tank_mod_speed (settings (SavedSettings s))"
  "plate_tank_mod_depth (loadSettings_fields s) = tank_mod_depth (settings (SavedSettings s))"
  "plate_tank_mod_shape (loadSettings_fields s) = tank_mod_shape (settings (SavedSettings s))"
  "plate_pre_delay (loadSettings_fields s) = pre_delay (settings (SavedSettings s))"
  by (simp_all add: loadSettings_fields_def updateReverbScales_def GetSettings_def Let_def
      cong: let_weak_cong)

lemma loadSettings_fields_bypass:
  "bypass_verb (loadSettings_fields s) = bypass_reverb (settings (SavedSettings s))"
  "bypass_delay (loadSettings_fields s) = saved_bypass_delay (settings (SavedSettings s))"
  "bypass_trem (loadSettings_fields s) = bypass_tremolo (settings (SavedSettings s))"
  by (simp_all add: loadSettings_fields_def updateReverbScales_def GetSettings_def Let_def
      cong: let_weak_cong)

lemma loadSettings_fields_mono_stereo:
  "mono_stereo_mode (loadSettings_fields s) =
     (if saved_mono_stereo_mode (settings (SavedSettings s)) < MS_MODE_MIMO
         \<or> saved_mono_stereo_mode (settings (SavedSettings s)) > MS_MODE_SISO
      then MS_MODE_MIMO else saved_mono_stereo_mode (settings (SavedSettings s)))"
  by (simp add: loadSettings_fields_def updateReverbScales_def GetSettings_def Let_def
      cong: let_weak_cong)

lemma loadSettings_fields_makeup_gain:
  "current_makeup_gain (loadSettings_fields s) =
     (if makeup_gain_mode (settings (SavedSettings s)) < MAKEUP_GAIN_NONE
         \<or> makeup_gain_mode (settings (SavedSettings s)) > MAKEUP_GAIN_HEAVY
      then MAKEUP_GAIN_NORMAL else makeup_gain_mode (settings (SavedSettings s)))"
  by (simp add: loadSettings_fields_def updateReverbScales_def GetSettings_def Let_def
      cong: let_weak_cong)

lemma validated_valid:
  "valid_mono_stereo_mode (saved_mono_stereo_mode r) \<Longrightarrow>
   valid_makeup_gain (makeup_gain_mode r) \<Longrightarrow> validated r = r"
  by (simp add: validated_def)

lemma loadSettings_fields_loaded:
  "loaded_from (validated (settings (SavedSettings s))) (loadSettings_fields s)"
  by (simp add: loaded_from_def validated_def loadSettings_fields_reverb
      loadSettings_fields_bypass loadSettings_fields_mono_stereo
      loadSettings_fields_makeup_gain valid_mono_stereo_mode_def valid_makeup_gain_def
      not_less [symmetric])

lemma saved_all_record:
  "settings (SavedSettings (saveBypassStates (saveMonoStereoSettings (saveSettings s)))) =
     (settings (SavedSettings s))
       \<lparr>version := SETTINGS_VERSION,
        decay := plate_decay s,
        diffusion := plate_tank_diffusion s,
        input_cutoff_freq := plate_input_damp_high s,
        tank_cutoff_freq := plate_tank_damp_high s,
        tank_mod_speed := plate_tank_mod_speed s,
        tank_mod_depth := plate_tank_mod_depth s,
        tank_mod_shape := plate_tank_mod_shape s,
        pre_delay := plate_pre_delay s,
        saved_mono_stereo_mode := mono_stereo_mode s,
        makeup_gain_mode := current_makeup_gain s,
        bypass_reverb := bypass_verb s,
        bypass_tremolo := bypass_trem s,
        saved_bypass_delay := bypass_delay s\<rparr>"
  by (simp add: saveBypassStates_def saveMonoStereoSettings_def saveSettings_def)

lemma round_trip:
  assumes "valid_mono_stereo_mode (mono_stereo_mode s)"
    and "valid_makeup_gain (current_makeup_gain s)"
  shows "loadSettings (saveBypassStates (saveMonoStereoSettings (saveSettings s))) =
           Some (loadSettings_fields (saveBypassStates (saveMonoStereoSettings (saveSettings s))))"
    and "same_settings_values s
           (loadSettings_fields (saveBypassStates (saveMonoStereoSettings (saveSettings s))))"
proof -
  let ?t = "saveBypassStates (saveMonoStereoSettings (saveSettings s))"
  have v: "version (settings (SavedSettings ?t)) = SETTINGS_VERSION"
    by (simp add: saved_all_record)
  show "loadSettings ?t = Some (loadSettings_fields ?t)"
    using loadSettings_match [OF v] .
  have m: "valid_mono_stereo_mode (saved_mono_stereo_mode (settings (SavedSettings ?t)))"
    using assms(1) by (simp add: saved_all_record)
  have g: "valid_makeup_gain (makeup_gain_mode (settings (SavedSettings ?t)))"
    using assms(2) by (simp add: saved_all_record)
  have "loaded_from (settings (SavedSettings ?t)) (loadSettings_fields ?t)"
    using loadSettings_fields_loaded [of ?t] validated_valid [OF m g] by simp
  then show "same_settings_values s (loadSettings_fields ?t)"
    by (simp add: loaded_from_def same_settings_values_def saved_all_record)
qed

text \<open>
  C6, as the code has it. With the defaults \<open>main\<close> compiles in: if the version of the
  persisted record differs from \<open>SETTINGS_VERSION\<close>, \<open>loadSettings\<close> returns with the
  record replaced by the defaults and every loaded global holding the default of its
  field, whatever the old record held. If the version matches, \<open>loadSettings\<close> returns
  with the record untouched and every global holding the value of its field, except that
  an out-of-range mono-stereo mode is loaded as \<open>MS_MODE_MIMO\<close> and an out-of-range makeup
  gain as \<open>MAKEUP_GAIN_NORMAL\<close>. Saving globals whose two enumeration variables hold
  enumerators with the three save functions and loading again reproduces every one of
  them.
\<close>

theorem loadSettings_versioned:
  "(version (settings (SavedSettings s)) \<noteq> SETTINGS_VERSION
      \<and> default_settings (SavedSettings s) = defaultSettings \<longrightarrow>
      (\<exists>t. loadSettings s = Some t
         \<and> settings (SavedSettings t) = defaultSettings
         \<and> loaded_from defaultSettings t))
   \<and> (version (settings (SavedSettings s)) = SETTINGS_VERSION \<longrightarrow>
      (\<exists>t. loadSettings s = Some t
         \<and> SavedSettings t = SavedSettings s
         \<and> loaded_from (validated (settings (SavedSettings s))) t))
   \<and> (valid_mono_stereo_mode (mono_stereo_mode s)
      \<and> valid_makeup_gain (current_makeup_gain s) \<longrightarrow>
      (\<exists>t. loadSettings (saveBypassStates (saveMonoStereoSettings (saveSettings s))) = Some t
         \<and> same_settings_values s t))"
proof (intro conjI impI)
  assume a: "version (settings (SavedSettings s)) \<noteq> SETTINGS_VERSION
      \<and> default_settings (SavedSettings s) = defaultSettings"
  let ?r = "s\<lparr>SavedSettings := RestoreDefaults (SavedSettings s)\<rparr>"
  have dv: "version (default_settings (SavedSettings s)) = SETTINGS_VERSION"
    using a by (simp add: defaultSettings_def)
  have l: "loadSettings s = Some (loadSettings_fields ?r)"
    using a dv loadSettings_mismatch [of s] by blast
  have r: "settings (RestoreDefaults (SavedSettings s)) = defaultSettings"
    using a by (simp add: RestoreDefaults_def)
  have st: "settings (SavedSettings (loadSettings_fields ?r)) = defaultSettings"
    by (simp add: loadSettings_fields_storage r)
  have "validated defaultSettings = defaultSettings"
    by (rule validated_valid)
       (simp_all add: defaultSettings_def valid_mono_stereo_mode_def valid_makeup_gain_def
          MS_MODE_MIMO_def MS_MODE_SISO_def MAKEUP_GAIN_NONE_def MAKEUP_GAIN_NORMAL_def
          MAKEUP_GAIN_HEAVY_def)
  then have "loaded_from defaultSettings (loadSettings_fields ?r)"
    using loadSettings_fields_loaded [of ?r] by (simp add: r)
  with l st show "\<exists>t. loadSettings s = Some t
         \<and> settings (SavedSettings t) = defaultSettings
         \<and> loaded_from defaultSettings t" by blast
next
  assume b: "version (settings (SavedSettings s)) = SETTINGS_VERSION"
  then have "loadSettings s = Some (loadSettings_fields s)"
    by (rule loadSettings_match)
  moreover have "SavedSettings (loadSettings_fields s) = SavedSettings s"
    by (rule loadSettings_fields_storage)
  moreover have "loaded_from (validated (settings (SavedSettings s))) (loadSettings_fields s)"
    by (rule loadSettings_fields_loaded)
  ultimately show "\<exists>t. loadSettings s = Some t
         \<and> SavedSettings t = SavedSettings s
         \<and> loaded_from (validated (settings (SavedSettings s))) t" by blast
next
  assume c: "valid_mono_stereo_mode (mono_stereo_mode s)
      \<and> valid_makeup_gain (current_makeup_gain s)"
  then show "\<exists>t. loadSettings (saveBypassStates (saveMonoStereoSettings (saveSettings s)))
                 = Some t \<and> same_settings_values s t"
    using round_trip [of s] by blast
qed

text \<open>
  A stored record of version 4 with decay 0.3 loads the default decay 0.8; the same
  record under version 5 loads 0.3; a state with decay 0.3, stereo routing and the delay
  on is reproduced by save and load.
\<close>

theorem loadSettings_versioned_witness:
  "(version (settings (SavedSettings (main_init (Some (defaultSettings
        \<lparr>version := 4, decay := 3 / 10, saved_mono_stereo_mode := 2,
         bypass_reverb := False\<rparr>))))) \<noteq> SETTINGS_VERSION
    \<and> default_settings (SavedSettings (main_init (Some (defaultSettings
        \<lparr>version := 4, decay := 3 / 10, saved_mono_stereo_mode := 2,
         bypass_reverb := False\<rparr>)))) = defaultSettings
    \<and> (\<exists>t. loadSettings (main_init (Some (defaultSettings
        \<lparr>version := 4, decay := 3 / 10, saved_mono_stereo_mode := 2,
         bypass_reverb := False\<rparr>))) = Some t
          \<and> plate_decay t = 8 / 10 \<and> mono_stereo_mode t = MS_MODE_MIMO \<and> bypass_verb t))
   \<and> (version (settings (SavedSettings (main_init (Some (defaultSettings
        \<lparr>decay := 3 / 10, saved_mono_stereo_mode := 2, bypass_reverb := False\<rparr>)))))
          = SETTINGS_VERSION
    \<and> (\<exists>t. loadSettings (main_init (Some (defaultSettings
        \<lparr>decay := 3 / 10, saved_mono_stereo_mode := 2, bypass_reverb := False\<rparr>))) = Some t
          \<and> plate_decay t = 3 / 10 \<and> mono_stereo_mode t = MS_MODE_SISO \<and> \<not> bypass_verb t))
   \<and> (valid_mono_stereo_mode (mono_stereo_mode ((main_init None)
        \<lparr>mono_stereo_mode := MS_MODE_SISO, bypass_delay := False, plate_decay := 3 / 10\<rparr>))
    \<and> (\<exists>t. loadSettings (saveBypassStates (saveMonoStereoSettings (saveSettings
          ((main_init None)
        \<lparr>mono_stereo_mode := MS_MODE_SISO, bypass_delay := False, plate_decay := 3 / 10\<rparr>))))
          = Some t
          \<and> plate_decay t = 3 / 10 \<and> mono_stereo_mode t = MS_MODE_SISO \<and> \<not> bypass_delay t))"
proof -
  let ?old = "defaultSettings\<lparr>version := 4, decay := 3 / 10, saved_mono_stereo_mode := 2,
         bypass_reverb := False\<rparr>"
  let ?cur = "defaultSettings\<lparr>decay := 3 / 10, saved_mono_stereo_mode := 2,
         bypass_reverb := False\<rparr>"
  let ?live = "(main_init None)
        \<lparr>mono_stereo_mode := MS_MODE_SISO, bypass_delay := False, plate_decay := 3 / 10\<rparr>"
  have a1: "version (settings (SavedSettings (main_init (Some ?old)))) \<noteq> SETTINGS_VERSION"
    by (simp add: main_init_def PersistentStorage_Init_def SETTINGS_VERSION_def)
  have a2: "default_settings (SavedSettings (main_init (Some ?old))) = defaultSettings"
    by (simp add: main_init_def PersistentStorage_Init_def)
  from a1 a2 loadSettings_versioned [of "main_init (Some ?old)"]
  obtain t1 where t1: "loadSettings (main_init (Some ?old)) = Some t1"
      "loaded_from defaultSettings t1"
    by blast
  from t1(2) have p1: "plate_decay t1 = 8 / 10 \<and> mono_stereo_mode t1 = MS_MODE_MIMO
      \<and> bypass_verb t1"
    by (simp add: loaded_from_def defaultSettings_def)
  have b1: "version (settings (SavedSettings (main_init (Some ?cur)))) = SETTINGS_VERSION"
    by (simp add: main_init_def PersistentStorage_Init_def defaultSettings_def)
  have b2: "settings (SavedSettings (main_init (Some ?cur))) = ?cur"
    by (simp add: main_init_def PersistentStorage_Init_def)
  from b1 loadSettings_versioned [of "main_init (Some ?cur)"]
  obtain t2 where t2: "loadSettings (main_init (Some ?cur)) = Some t2"
      "loaded_from (validated (settings (SavedSettings (main_init (Some ?cur))))) t2"
    by blast
  from t2(2) have p2: "plate_decay t2 = 3 / 10 \<and> mono_stereo_mode t2 = MS_MODE_SISO
      \<and> \<not> bypass_verb t2"
    by (simp add: b2 loaded_from_def validated_def valid_mono_stereo_mode_def
        MS_MODE_MIMO_def MS_MODE_SISO_def)
  have c1: "valid_mono_stereo_mode (mono_stereo_mode ?live)"
    by (simp add: valid_mono_stereo_mode_def MS_MODE_MIMO_def MS_MODE_SISO_def)
  have c2: "valid_makeup_gain (current_makeup_gain ?live)"
    by (simp add: main_init_def valid_makeup_gain_def MAKEUP_GAIN_NONE_def
        MAKEUP_GAIN_NORMAL_def MAKEUP_GAIN_HEAVY_def)
  from c1 c2 loadSettings_versioned [of ?live]
  obtain t3 where t3:
      "loadSettings (saveBypassStates (saveMonoStereoSettings (saveSettings ?live))) = Some t3"
      "same_settings_values ?live t3"
    by blast
  from t3(2) have p3: "plate_decay t3 = 3 / 10 \<and> mono_stereo_mode t3 = MS_MODE_SISO
      \<and> \<not> bypass_delay t3"
    by (simp add: same_settings_values_def)
  show ?thesis
    using a1 a2 t1(1) p1 b1 t2(1) p2 c1 t3(1) p3 by blast
qed

text \<open>
  The claim as stated fails for a record of the current version whose mono-stereo mode
  is 7: the field is loaded as 0, not as stored.
\<close>

theorem loadSettings_out_of_range_counterexample:
  "version (settings (SavedSettings (main_init (Some (defaultSettings
        \<lparr>saved_mono_stereo_mode := 7\<rparr>))))) = SETTINGS_VERSION
   \<and> saved_mono_stereo_mode (settings (SavedSettings (main_init (Some (defaultSettings
        \<lparr>saved_mono_stereo_mode := 7\<rparr>))))) = 7
   \<and> map_option mono_stereo_mode (loadSettings (main_init (Some (defaultSettings
        \<lparr>saved_mono_stereo_mode := 7\<rparr>)))) = Some 0"
proof -
  let ?s = "main_init (Some (defaultSettings\<lparr>saved_mono_stereo_mode := 7\<rparr>))"
  have r: "settings (SavedSettings ?s) = defaultSettings\<lparr>saved_mono_stereo_mode := 7\<rparr>"
    by (simp add: main_init_def PersistentStorage_Init_def)
  have v: "version (settings (SavedSettings ?s)) = SETTINGS_VERSION"
    by (simp add: main_init_def PersistentStorage_Init_def defaultSettings_def)
  have m: "saved_mono_stereo_mode (settings (SavedSettings ?s)) = 7"
    by (simp add: r)
  have "mono_stereo_mode (loadSettings_fields ?s) = 0"
    by (simp add: loadSettings_fields_mono_stereo m MS_MODE_MIMO_def MS_MODE_SISO_def)
  then have "map_option mono_stereo_mode (loadSettings ?s) = Some 0"
    by (simp add: loadSettings_match [OF v])
  with v m show ?thesis by blast
qed

text \<open>
  The feature-complete control file validates the two enumeration fields. For a
  persisted record of the current version, \<open>loadSettings\<close> always returns. A
  mono-stereo mode below \<open>MS_MODE_MIMO\<close> or above \<open>MS_MODE_SISO\<close> is replaced by
  \<open>MS_MODE_MIMO\<close>, a makeup gain below \<open>MAKEUP_GAIN_NONE\<close> or above \<open>MAKEUP_GAIN_HEAVY\<close> by
  \<open>MAKEUP_GAIN_NORMAL\<close>; both globals are valid afterwards, every other field is loaded as
  stored, and the record itself is left as it was.
\<close>

lemma loadSettings_out_of_range_fields:
  "version (settings (SavedSettings s)) = SETTINGS_VERSION \<longrightarrow>
   (\<exists>t. loadSettings s = Some t
      \<and> (saved_mono_stereo_mode (settings (SavedSettings s)) < MS_MODE_MIMO
           \<or> saved_mono_stereo_mode (settings (SavedSettings s)) > MS_MODE_SISO
         \<longrightarrow> mono_stereo_mode t = MS_MODE_MIMO)
      \<and> (makeup_gain_mode (settings (SavedSettings s)) < MAKEUP_GAIN_NONE
           \<or> makeup_gain_mode (settings (SavedSettings s)) > MAKEUP_GAIN_HEAVY
         \<longrightarrow> current_makeup_gain t = MAKEUP_GAIN_NORMAL)
      \<and> valid_mono_stereo_mode (mono_stereo_mode t)
      \<and> valid_makeup_gain (current_makeup_gain t)
      \<and> plate_decay t = decay (settings (SavedSettings s))
      \<and> plate_tank_diffusion t = diffusion (settings (SavedSettings s))
      \<and> plate_input_damp_high t = input_cutoff_freq (settings (SavedSettings s))
      \<and> plate_tank_damp_high t = tank_cutoff_freq (settings (SavedSettings s))
      \<and> plate_tank_mod_speed t = tank_mod_speed (settings (SavedSettings s))
      \<and> plate_tank_mod_depth t = tank_mod_depth (settings (SavedSettings s))
      \<and> plate_tank_mod_shape t = tank_mod_shape (settings (SavedSettings s))
      \<and> plate_pre_delay t = pre_delay (settings (SavedSettings s))
      \<and> bypass_verb t = bypass_reverb (settings (SavedSettings s))
      \<and> bypass_delay t = saved_bypass_delay (settings (SavedSettings s))
      \<and> bypass_trem t = bypass_tremolo (settings (SavedSettings s))
      \<and> SavedSettings t = SavedSettings s)"
proof
  assume v: "version (settings (SavedSettings s)) = SETTINGS_VERSION"
  have l: "loadSettings s = Some (loadSettings_fields s)"
    using loadSettings_match [OF v] .
  have m: "valid_mono_stereo_mode (mono_stereo_mode (loadSettings_fields s))"
    by (simp add: loadSettings_fields_mono_stereo valid_mono_stereo_mode_def
        MS_MODE_MIMO_def MS_MODE_SISO_def)
  have g: "valid_makeup_gain (current_makeup_gain (loadSettings_fields s))"
    by (simp add: loadSettings_fields_makeup_gain valid_makeup_gain_def
        MAKEUP_GAIN_NONE_def MAKEUP_GAIN_NORMAL_def MAKEUP_GAIN_HEAVY_def)
  show "\<exists>t. loadSettings s = Some t
      \<and> (saved_mono_stereo_mode (settings (SavedSettings s)) < MS_MODE_MIMO
           \<or> saved_mono_stereo_mode (settings (SavedSettings s)) > MS_MODE_SISO
         \<longrightarrow> mono_stereo_mode t = MS_MODE_MIMO)
      \<and> (makeup_gain_mode (settings (SavedSettings s)) < MAKEUP_GAIN_NONE
           \<or> makeup_gain_mode (settings (SavedSettings s)) > MAKEUP_GAIN_HEAVY
         \<longrightarrow> current_makeup_gain t = MAKEUP_GAIN_NORMAL)
      \<and> valid_mono_stereo_mode (mono_stereo_mode t)
      \<and> valid_makeup_gain (current_makeup_gain t)
      \<and> plate_decay t = decay (settings (SavedSettings s))
      \<and> plate_tank_diffusion t = diffusion (settings (SavedSettings s))
      \<and> plate_input_damp_high t = input_cutoff_freq (settings (SavedSettings s))
      \<and> plate_tank_damp_high t = tank_cutoff_freq (settings (SavedSettings s))
      \<and> plate_tank_mod_speed t = tank_mod_speed (settings (SavedSettings s))
      \<and> plate_tank_mod_depth t = tank_mod_depth (settings (SavedSettings s))
      \<and> plate_tank_mod_shape t = tank_mod_shape (settings (SavedSettings s))
      \<and> plate_pre_delay t = pre_delay (settings (SavedSettings s))
      \<and> bypass_verb t = bypass_reverb (settings (SavedSettings s))
      \<and> bypass_delay t = saved_bypass_delay (settings (SavedSettings s))
      \<and> bypass_trem t = bypass_tremolo (settings (SavedSettings s))
      \<and> SavedSettings t = SavedSettings s"
    apply (rule exI [of _ "loadSettings_fields s"])
    using l m g
    by (simp add: loadSettings_fields_reverb loadSettings_fields_bypass
        loadSettings_fields_storage loadSettings_fields_mono_stereo
        loadSettings_fields_makeup_gain)
qed

text \<open>A record with mode index 7 and makeup gain -1 loads as MIMO and NORMAL.\<close>

lemma loadSettings_out_of_range_fields_example:
  "version (settings (SavedSettings (main_init (Some (defaultSettings
        \<lparr>decay := 3 / 10, saved_mono_stereo_mode := 7, makeup_gain_mode := - 1\<rparr>)))))
     = SETTINGS_VERSION
   \<and> saved_mono_stereo_mode (settings (SavedSettings (main_init (Some (defaultSettings
        \<lparr>decay := 3 / 10, saved_mono_stereo_mode := 7, makeup_gain_mode := - 1\<rparr>)))))
       > MS_MODE_SISO
   \<and> makeup_gain_mode (settings (SavedSettings (main_init (Some (defaultSettings
        \<lparr>decay := 3 / 10, saved_mono_stereo_mode := 7, makeup_gain_mode := - 1\<rparr>)))))
       < MAKEUP_GAIN_NONE
   \<and> (\<exists>t. loadSettings (main_init (Some (defaultSettings
        \<lparr>decay := 3 / 10, saved_mono_stereo_mode := 7, makeup_gain_mode := - 1\<rparr>))) = Some t
        \<and> mono_stereo_mode t = MS_MODE_MIMO
        \<and> current_makeup_gain t = MAKEUP_GAIN_NORMAL
        \<and> plate_decay t = 3 / 10)"
proof -
  let ?bad = "defaultSettings
        \<lparr>decay := 3 / 10, saved_mono_stereo_mode := 7, makeup_gain_mode := - 1\<rparr>"
  have r: "settings (SavedSettings (main_init (Some ?bad))) = ?bad"
    by (simp add: main_init_def PersistentStorage_Init_def)
  have v: "version (settings (SavedSettings (main_init (Some ?bad)))) = SETTINGS_VERSION"
    by (simp add: main_init_def PersistentStorage_Init_def defaultSettings_def)
  have m: "saved_mono_stereo_mode (settings (SavedSettings (main_init (Some ?bad))))
            > MS_MODE_SISO"
    by (simp add: r MS_MODE_SISO_def)
  have g: "makeup_gain_mode (settings (SavedSettings (main_init (Some ?bad))))
            < MAKEUP_GAIN_NONE"
    by (simp add: r MAKEUP_GAIN_NONE_def)
  have d: "decay (settings (SavedSettings (main_init (Some ?bad)))) = 3 / 10"
    by (simp add: r)
  from v m g loadSettings_out_of_range_fields [of "main_init (Some ?bad)"]
  obtain t where "loadSettings (main_init (Some ?bad)) = Some t"
      "mono_stereo_mode t = MS_MODE_MIMO" "current_makeup_gain t = MAKEUP_GAIN_NORMAL"
      "plate_decay t = decay (settings (SavedSettings (main_init (Some ?bad))))"
    by blast
  with v m g d show ?thesis by auto
qed

lemma loadSettings_v4_match:
  "s4_version (s4_settings (g4_SavedSettings s)) = SETTINGS_VERSION_v4 \<Longrightarrow>
   loadSettings_v4 s = Some (loadSettings_fields_v4 s)"
  by (subst loadSettings_v4.simps) (simp add: GetSettings_v4_def)

lemma loadSettings_fields_v4_mono_stereo:
  "g4_mono_stereo_mode (loadSettings_fields_v4 s)
     = s4_mono_stereo_mode (s4_settings (g4_SavedSettings s))"
  by (simp add: loadSettings_fields_v4_def updateReverbScales_v4_def GetSettings_v4_def
      Let_def cong: let_weak_cong)

lemma loadSettings_fields_v4_scales:
  "\<not> valid_mono_stereo_mode (s4_mono_stereo_mode (s4_settings (g4_SavedSettings s))) \<Longrightarrow>
   g4_reverb_dry_scale_factor (loadSettings_fields_v4 s) = g4_reverb_dry_scale_factor s
   \<and> g4_reverb_reverse_scale_factor (loadSettings_fields_v4 s)
       = g4_reverb_reverse_scale_factor s"
  by (auto simp add: loadSettings_fields_v4_def updateReverbScales_v4_def GetSettings_v4_def
      valid_mono_stereo_mode_def MS_MODE_MIMO_def MS_MODE_MISO_def MS_MODE_SISO_def
      Let_def cong: let_weak_cong)

text \<open>
  C8 fails on the older control file. Flash holds a record of its version 4 whose
  mono-stereo mode index is 7, outside \<open>MS_MODE_MIMO\<close> to \<open>MS_MODE_SISO\<close>.
  \<open>loadSettings\<close> of \<open>flick.cpp\<close> returns, so the record is not fatal, but the global
  holds 7 afterwards, not \<open>MS_MODE_MIMO\<close>: no case of \<open>updateReverbScales\<close> applies and
  the reverb scale factors keep their initial value 1. \<open>loadSettings\<close> of the
  feature-complete control file, given the same index in a record of its version, loads
  \<open>MS_MODE_MIMO\<close>.
\<close>

theorem loadSettings_v4_unchecked_cast:
  "s4_version (s4_settings (g4_SavedSettings
       (main_init_v4 (Some (defaultSettings_v4\<lparr>s4_mono_stereo_mode := 7\<rparr>)))))
     = SETTINGS_VERSION_v4
   \<and> \<not> valid_mono_stereo_mode (s4_mono_stereo_mode (s4_settings (g4_SavedSettings
       (main_init_v4 (Some (defaultSettings_v4\<lparr>s4_mono_stereo_mode := 7\<rparr>))))))
   \<and> map_option g4_mono_stereo_mode
        (loadSettings_v4 (main_init_v4 (Some (defaultSettings_v4\<lparr>s4_mono_stereo_mode := 7\<rparr>))))
       = Some 7
   \<and> MS_MODE_MIMO \<noteq> 7
   \<and> map_option g4_reverb_dry_scale_factor
        (loadSettings_v4 (main_init_v4 (Some (defaultSettings_v4\<lparr>s4_mono_stereo_mode := 7\<rparr>))))
       = Some 1
   \<and> map_option mono_stereo_mode
        (loadSettings (main_init (Some (defaultSettings\<lparr>saved_mono_stereo_mode := 7\<rparr>))))
       = Some MS_MODE_MIMO"
proof -
  let ?s = "main_init_v4 (Some (defaultSettings_v4\<lparr>s4_mono_stereo_mode := 7\<rparr>))"
  let ?t = "main_init (Some (defaultSettings\<lparr>saved_mono_stereo_mode := 7\<rparr>))"
  have v: "s4_version (s4_settings (g4_SavedSettings ?s)) = SETTINGS_VERSION_v4"
    by (simp add: main_init_v4_def PersistentStorage_Init_v4_def defaultSettings_v4_def)
  have m: "s4_mono_stereo_mode (s4_settings (g4_SavedSettings ?s)) = 7"
    by (simp add: main_init_v4_def PersistentStorage_Init_v4_def)
  have n: "\<not> valid_mono_stereo_mode (s4_mono_stereo_mode (s4_settings (g4_SavedSettings ?s)))"
    by (simp add: m valid_mono_stereo_mode_def MS_MODE_SISO_def)
  have l: "loadSettings_v4 ?s = Some (loadSettings_fields_v4 ?s)"
    using loadSettings_v4_match [OF v] .
  have g: "g4_mono_stereo_mode (loadSettings_fields_v4 ?s) = 7"
    by (simp add: loadSettings_fields_v4_mono_stereo m)
  have d: "g4_reverb_dry_scale_factor (loadSettings_fields_v4 ?s) = 1"
    using loadSettings_fields_v4_scales [OF n] by (simp add: main_init_v4_def)
  have w: "version (settings (SavedSettings ?t)) = SETTINGS_VERSION"
    by (simp add: main_init_def PersistentStorage_Init_def defaultSettings_def)
  have x: "saved_mono_stereo_mode (settings (SavedSettings ?t)) = 7"
    by (simp add: main_init_def PersistentStorage_Init_def)
  have "mono_stereo_mode (loadSettings_fields ?t) = MS_MODE_MIMO"
    by (simp add: loadSettings_fields_mono_stereo x MS_MODE_MIMO_def MS_MODE_SISO_def)
  then have f: "map_option mono_stereo_mode (loadSettings ?t) = Some MS_MODE_MIMO"
    by (simp add: loadSettings_match [OF w])
  have k: "MS_MODE_MIMO \<noteq> 7"
    by (simp add: MS_MODE_MIMO_def)
  show ?thesis
    using v n f k by (simp add: l g d)
qed

lemma handleNormalPress_commit:
  "pedal_mode s = PEDAL_MODE_EDIT_REVERB \<Longrightarrow>
   handleNormalPress hw FOOTSWITCH_2 s = (saveSettings s)\<lparr>pedal_mode := PEDAL_MODE_NORMAL\<rparr>"
  by (simp add: handleNormalPress_def Let_def cong: let_weak_cong)

text \<open>
  C10. \<open>saveSettings\<close> leaves the fields \<open>mono_stereo_mode\<close>, \<open>makeup_gain_mode\<close>,
  \<open>bypass_reverb\<close>, \<open>bypass_delay\<close> and \<open>bypass_tremolo\<close> of the settings record as they
  were, writes the version and the eight reverb fields from the globals, and does not
  touch the stored defaults. Committing a reverb edit (footswitch 2 in reverb edit mode)
  changes the settings storage exactly as \<open>saveSettings\<close> does.
\<close>

theorem saveSettings_frame:
  "saved_mono_stereo_mode (settings (SavedSettings (saveSettings s)))
     = saved_mono_stereo_mode (settings (SavedSettings s))
   \<and> makeup_gain_mode (settings (SavedSettings (saveSettings s)))
     = makeup_gain_mode (settings (SavedSettings s))
   \<and> bypass_reverb (settings (SavedSettings (saveSettings s)))
     = bypass_reverb (settings (SavedSettings s))
   \<and> saved_bypass_delay (settings (SavedSettings (saveSettings s)))
     = saved_bypass_delay (settings (SavedSettings s))
   \<and> bypass_tremolo (settings (SavedSettings (saveSettings s)))
     = bypass_tremolo (settings (SavedSettings s))
   \<and> version (settings (SavedSettings (saveSettings s))) = SETTINGS_VERSION
   \<and> decay (settings (SavedSettings (saveSettings s))) = plate_decay s
   \<and> diffusion (settings (SavedSettings (saveSettings s))) = plate_tank_diffusion s
   \<and> input_cutoff_freq (settings (SavedSettings (saveSettings s))) = plate_input_damp_high s
   \<and> tank_cutoff_freq (settings (SavedSettings (saveSettings s))) = plate_tank_damp_high s
   \<and> tank_mod_speed (settings (SavedSettings (saveSettings s))) = plate_tank_mod_speed s
   \<and> tank_mod_depth (settings (SavedSettings (saveSettings s))) = plate_tank_mod_depth s
   \<and> tank_mod_shape (settings (SavedSettings (saveSettings s))) = plate_tank_mod_shape s
   \<and> pre_delay (settings (SavedSettings (saveSettings s))) = plate_pre_delay s
   \<and> default_settings (SavedSettings (saveSettings s)) = default_settings (SavedSettings s)
   \<and> (pedal_mode s = PEDAL_MODE_EDIT_REVERB \<longrightarrow>
        SavedSettings (handleNormalPress hw FOOTSWITCH_2 s) = SavedSettings (saveSettings s))"
  by (simp add: handleNormalPress_commit) (simp add: saveSettings_def)

text \<open>
  After a long press into reverb edit mode the reverb is on; committing leaves the
  persisted reverb bypass flag at its old value.
\<close>

theorem saveSettings_frame_witness:
  "pedal_mode (handleLongPress (hw_at 0 0) FOOTSWITCH_1 (main_init None))
     = PEDAL_MODE_EDIT_REVERB
   \<and> SavedSettings (handleNormalPress (hw_at 0 1) FOOTSWITCH_2
        (handleLongPress (hw_at 0 0) FOOTSWITCH_1 (main_init None)))
     = SavedSettings (saveSettings (handleLongPress (hw_at 0 0) FOOTSWITCH_1 (main_init None)))
   \<and> bypass_reverb (settings (SavedSettings (saveSettings
        (handleLongPress (hw_at 0 0) FOOTSWITCH_1 (main_init None))))) = True
   \<and> bypass_verb (handleLongPress (hw_at 0 0) FOOTSWITCH_1 (main_init None)) = False"
proof -
  let ?s = "handleLongPress (hw_at 0 0) FOOTSWITCH_1 (main_init None)"
  have m: "pedal_mode ?s = PEDAL_MODE_EDIT_REVERB"
    by (simp add: handleLongPress_def Let_def cong: let_weak_cong)
  have b: "bypass_verb ?s = False"
    by (simp add: handleLongPress_def Let_def cong: let_weak_cong)
  have r: "bypass_reverb (settings (SavedSettings ?s)) = True"
    by (simp add: handleLongPress_def main_init_def PersistentStorage_Init_def
        defaultSettings_def Let_def cong: let_weak_cong)
  show ?thesis
    using m b r saveSettings_frame [of ?s "hw_at 0 1"] by simp
qed

section \<open>Tap tempo driving the delay only (C7)\<close>











section \<open>Mode assigned last (C9)\<close>

lemma run_writes_append:
  "run_writes (ws @ vs) s = run_writes vs (run_writes ws s)"
  by (simp add: run_writes_def)

lemma run_writes_keeps_other_mode:
  assumes "\<And>w t. w \<in> set ws \<Longrightarrow> pedal_mode t \<noteq> M \<Longrightarrow> pedal_mode (w t) \<noteq> M"
    and "pedal_mode s \<noteq> M"
  shows "pedal_mode (run_writes ws s) \<noteq> M"
  using assms
proof (induction ws arbitrary: s)
  case Nil
  then show ?case by (simp add: run_writes_def)
next
  case (Cons w ws)
  have "pedal_mode (w s) \<noteq> M" using Cons.prems by simp
  moreover have "run_writes (w # ws) s = run_writes ws (w s)" by (simp add: run_writes_def)
  ultimately show ?case using Cons.IH [of "w s"] Cons.prems(1) by simp
qed

lemma observable_states_iff:
  "t \<in> set (observable_states ws s) \<longleftrightarrow> (\<exists>k\<le>length ws. t = run_writes (take k ws) s)"
proof -
  have "set [0..<Suc (length ws)] = {k. k \<le> length ws}"
    by (auto simp del: upt_Suc)
  then show ?thesis
    by (auto simp add: observable_states_def simp del: upt_Suc)
qed

lemma mode_written_last:
  assumes pres: "\<forall>w\<in>set ws. \<forall>t. pedal_mode t \<noteq> M \<longrightarrow> pedal_mode (w t) \<noteq> M"
    and ne: "pedal_mode s \<noteq> M"
    and obs: "t \<in> set (observable_states (ws @ [last_write]) s)"
    and seen: "pedal_mode t = M"
  shows "t = run_writes (ws @ [last_write]) s"
proof -
  from obs obtain k where k: "k \<le> length ws + 1" "t = run_writes (take k (ws @ [last_write])) s"
    by (auto simp add: observable_states_iff)
  show ?thesis
  proof (cases "k \<le> length ws")
    case True
    then have "take k (ws @ [last_write]) = take k ws" by simp
    moreover have "pedal_mode (run_writes (take k ws) s) \<noteq> M"
    proof (rule run_writes_keeps_other_mode)
      fix w and u :: pedal
      assume "w \<in> set (take k ws)" "pedal_mode u \<noteq> M"
      then show "pedal_mode (w u) \<noteq> M" using pres by (auto dest: in_set_takeD)
    qed (rule ne)
    ultimately show ?thesis using k(2) seen by simp
  next
    case False
    with k(1) have "k = length ws + 1" by simp
    then show ?thesis using k(2) by simp
  qed
qed

lemma handleLongPress_writes_run:
  "run_writes (handleLongPress_writes hw footswitch) s = handleLongPress hw footswitch s"
  by (cases footswitch)
     (simp_all add: run_writes_def handleLongPress_writes_def handleLongPress_def Let_def
        cong: let_weak_cong)

lemma enterTapTempoMode_writes_run:
  "run_writes (enterTapTempoMode_writes hw) s = enterTapTempoMode hw s"
  by (cases "bypass_delay s"; cases "bypass_trem s")
     (simp_all add: run_writes_def enterTapTempoMode_writes_def enterTapTempoMode_def Let_def
        cong: let_weak_cong)

lemma handleDoublePress_writes_run:
  "run_writes (handleDoublePress_writes hw footswitch s) s = handleDoublePress hw footswitch s"
proof (cases "pedal_mode s = PEDAL_MODE_NORMAL")
  case False
  then show ?thesis
    by (simp add: handleDoublePress_writes_def handleDoublePress_def run_writes_def)
next
  case True
  show ?thesis
  proof (cases footswitch)
    case FOOTSWITCH_1
    have "run_writes (handleNormalPress hw FOOTSWITCH_1 # enterTapTempoMode_writes hw) s =
          run_writes (enterTapTempoMode_writes hw) (handleNormalPress hw FOOTSWITCH_1 s)"
      by (simp add: run_writes_def)
    with True FOOTSWITCH_1 show ?thesis
      by (simp add: handleDoublePress_writes_def handleDoublePress_def
          enterTapTempoMode_writes_run)
  next
    case FOOTSWITCH_2
    with True show ?thesis
      by (simp add: handleDoublePress_writes_def handleDoublePress_def run_writes_def
          Let_def)
  qed
qed

lemma handleNormalPress_never_enters_tap_tempo:
  "pedal_mode t \<noteq> PEDAL_MODE_TAP_TEMPO \<Longrightarrow>
   pedal_mode (handleNormalPress hw footswitch t) \<noteq> PEDAL_MODE_TAP_TEMPO"
  by (simp add: handleNormalPress_def saveBypassStates_def Let_def cong: let_weak_cong)

lemma final_state_observable:
  "run_writes ws s \<in> set (observable_states ws s)"
  by (auto simp add: observable_states_iff intro: exI [of _ "length ws"])

lemma capture_bound:
  "knob kt \<noteq> None \<Longrightarrow> knob_captured hw (capture hw kt)"
  by (auto simp add: knob_captured_def capture_def split: option.splits)

lemma capture_switch_bound:
  "hw_ptr d \<Longrightarrow> switch_captured hw (capture_switch hw d)"
  by (simp add: switch_captured_def capture_switch_def)

lemma handleLongPress_initialized:
  "takeovers_bound s \<Longrightarrow> reverb_edit_initialized hw (handleLongPress hw FOOTSWITCH_1 s)"
  by (simp add: takeovers_bound_def reverb_edit_initialized_def handleLongPress_def Let_def
      capture_bound capture_switch_bound cong: let_weak_cong)

lemma enterTapTempoMode_initialized:
  "takeovers_bound s \<Longrightarrow> tap_tempo_initialized hw (enterTapTempoMode hw s)"
  by (cases "bypass_delay s"; cases "bypass_trem s")
     (simp_all add: takeovers_bound_def tap_tempo_initialized_def enterTapTempoMode_def
        Let_def capture_bound cong: let_weak_cong)

lemma handleNormalPress_normal_bound:
  "pedal_mode s = PEDAL_MODE_NORMAL \<Longrightarrow> takeovers_bound s \<Longrightarrow>
   takeovers_bound (handleNormalPress hw footswitch s)"
  by (simp add: handleNormalPress_def saveBypassStates_def takeovers_bound_def Let_def
      cong: let_weak_cong)

lemma handleLongPress_1_observed:
  assumes "pedal_mode s \<noteq> PEDAL_MODE_EDIT_REVERB"
    and "t \<in> set (observable_states (handleLongPress_writes hw FOOTSWITCH_1) s)"
    and "pedal_mode t = PEDAL_MODE_EDIT_REVERB"
  shows "t = handleLongPress hw FOOTSWITCH_1 s"
proof -
  define ws where "ws = butlast (handleLongPress_writes hw FOOTSWITCH_1)"
  have split: "handleLongPress_writes hw FOOTSWITCH_1 =
      ws @ [\<lambda>s. s\<lparr>pedal_mode := PEDAL_MODE_EDIT_REVERB\<rparr>]"
    by (simp add: ws_def handleLongPress_writes_def)
  have pres: "\<forall>w\<in>set ws. \<forall>u. pedal_mode u \<noteq> PEDAL_MODE_EDIT_REVERB \<longrightarrow>
      pedal_mode (w u) \<noteq> PEDAL_MODE_EDIT_REVERB"
    by (auto simp add: ws_def handleLongPress_writes_def)
  have "t = run_writes (ws @ [\<lambda>s. s\<lparr>pedal_mode := PEDAL_MODE_EDIT_REVERB\<rparr>]) s"
    using mode_written_last [OF pres assms(1)] assms(2,3)
    by (simp add: split)
  then show ?thesis by (simp add: split [symmetric] handleLongPress_writes_run)
qed

lemma handleLongPress_2_observed:
  assumes "pedal_mode s \<noteq> PEDAL_MODE_EDIT_MONO_STEREO"
    and "t \<in> set (observable_states (handleLongPress_writes hw FOOTSWITCH_2) s)"
    and "pedal_mode t = PEDAL_MODE_EDIT_MONO_STEREO"
  shows "t = handleLongPress hw FOOTSWITCH_2 s"
proof -
  define ws where "ws = butlast (handleLongPress_writes hw FOOTSWITCH_2)"
  have split: "handleLongPress_writes hw FOOTSWITCH_2 =
      ws @ [\<lambda>s. s\<lparr>pedal_mode := PEDAL_MODE_EDIT_MONO_STEREO\<rparr>]"
    by (simp add: ws_def handleLongPress_writes_def)
  have pres: "\<forall>w\<in>set ws. \<forall>u. pedal_mode u \<noteq> PEDAL_MODE_EDIT_MONO_STEREO \<longrightarrow>
      pedal_mode (w u) \<noteq> PEDAL_MODE_EDIT_MONO_STEREO"
    by (auto simp add: ws_def handleLongPress_writes_def)
  have "t = run_writes (ws @ [\<lambda>s. s\<lparr>pedal_mode := PEDAL_MODE_EDIT_MONO_STEREO\<rparr>]) s"
    using mode_written_last [OF pres assms(1)] assms(2,3)
    by (simp add: split)
  then show ?thesis by (simp add: split [symmetric] handleLongPress_writes_run)
qed

lemma handleDoublePress_1_observed:
  assumes "pedal_mode s = PEDAL_MODE_NORMAL"
    and "t \<in> set (observable_states (handleDoublePress_writes hw FOOTSWITCH_1 s) s)"
    and "pedal_mode t = PEDAL_MODE_TAP_TEMPO"
  shows "t = handleDoublePress hw FOOTSWITCH_1 s"
proof -
  define ws where "ws = butlast (handleDoublePress_writes hw FOOTSWITCH_1 s)"
  have split: "handleDoublePress_writes hw FOOTSWITCH_1 s =
      ws @ [\<lambda>s. s\<lparr>pedal_mode := PEDAL_MODE_TAP_TEMPO\<rparr>]"
    using assms(1)
    by (simp add: ws_def handleDoublePress_writes_def enterTapTempoMode_writes_def)
  have pres: "\<forall>w\<in>set ws. \<forall>u. pedal_mode u \<noteq> PEDAL_MODE_TAP_TEMPO \<longrightarrow>
      pedal_mode (w u) \<noteq> PEDAL_MODE_TAP_TEMPO"
    using assms(1)
    by (auto simp add: ws_def handleDoublePress_writes_def enterTapTempoMode_writes_def
        handleNormalPress_never_enters_tap_tempo)
  have ne: "pedal_mode s \<noteq> PEDAL_MODE_TAP_TEMPO" using assms(1) by simp
  have "t = run_writes (ws @ [\<lambda>s. s\<lparr>pedal_mode := PEDAL_MODE_TAP_TEMPO\<rparr>]) s"
    using mode_written_last [OF pres ne] assms(2,3)
    by (simp add: split)
  then show ?thesis by (simp add: split [symmetric] handleDoublePress_writes_run)
qed

text \<open>
  C9. For the long press of footswitch 1 (into reverb edit mode), the double press of
  footswitch 1 from normal mode (into tap tempo mode) and the long press of footswitch 2
  (into mono-stereo edit mode): the list of writes computes what the handler computes, the
  handler ends in the new mode with the takeover objects freshly captured and the flags
  set, and among all states between two writes, any state that already shows the new mode
  is the final state. A reader in program order therefore never sees the new mode
  together with state the handler has yet to write.
\<close>

theorem mode_assigned_last:
  "(pedal_mode s \<noteq> PEDAL_MODE_EDIT_REVERB \<longrightarrow>
      run_writes (handleLongPress_writes hw FOOTSWITCH_1) s = handleLongPress hw FOOTSWITCH_1 s
      \<and> pedal_mode (handleLongPress hw FOOTSWITCH_1 s) = PEDAL_MODE_EDIT_REVERB
      \<and> (takeovers_bound s \<longrightarrow>
           reverb_edit_initialized hw (handleLongPress hw FOOTSWITCH_1 s))
      \<and> (\<forall>t \<in> set (observable_states (handleLongPress_writes hw FOOTSWITCH_1) s).
           pedal_mode t = PEDAL_MODE_EDIT_REVERB \<longrightarrow> t = handleLongPress hw FOOTSWITCH_1 s))
   \<and> (pedal_mode s = PEDAL_MODE_NORMAL \<longrightarrow>
      run_writes (handleDoublePress_writes hw FOOTSWITCH_1 s) s
        = handleDoublePress hw FOOTSWITCH_1 s
      \<and> pedal_mode (handleDoublePress hw FOOTSWITCH_1 s) = PEDAL_MODE_TAP_TEMPO
      \<and> (takeovers_bound s \<longrightarrow>
           tap_tempo_initialized hw (handleDoublePress hw FOOTSWITCH_1 s))
      \<and> (\<forall>t \<in> set (observable_states (handleDoublePress_writes hw FOOTSWITCH_1 s) s).
           pedal_mode t = PEDAL_MODE_TAP_TEMPO \<longrightarrow> t = handleDoublePress hw FOOTSWITCH_1 s))
   \<and> (pedal_mode s \<noteq> PEDAL_MODE_EDIT_MONO_STEREO \<longrightarrow>
      run_writes (handleLongPress_writes hw FOOTSWITCH_2) s = handleLongPress hw FOOTSWITCH_2 s
      \<and> pedal_mode (handleLongPress hw FOOTSWITCH_2 s) = PEDAL_MODE_EDIT_MONO_STEREO
      \<and> (\<forall>t \<in> set (observable_states (handleLongPress_writes hw FOOTSWITCH_2) s).
           pedal_mode t = PEDAL_MODE_EDIT_MONO_STEREO
             \<longrightarrow> t = handleLongPress hw FOOTSWITCH_2 s))"
proof (intro conjI impI ballI)
  show "run_writes (handleLongPress_writes hw FOOTSWITCH_1) s = handleLongPress hw FOOTSWITCH_1 s"
    by (rule handleLongPress_writes_run)
  show "pedal_mode (handleLongPress hw FOOTSWITCH_1 s) = PEDAL_MODE_EDIT_REVERB"
    by (simp add: handleLongPress_def Let_def cong: let_weak_cong)
  show "run_writes (handleLongPress_writes hw FOOTSWITCH_2) s = handleLongPress hw FOOTSWITCH_2 s"
    by (rule handleLongPress_writes_run)
  show "pedal_mode (handleLongPress hw FOOTSWITCH_2 s) = PEDAL_MODE_EDIT_MONO_STEREO"
    by (simp add: handleLongPress_def Let_def cong: let_weak_cong)
  show "run_writes (handleDoublePress_writes hw FOOTSWITCH_1 s) s
        = handleDoublePress hw FOOTSWITCH_1 s"
    by (rule handleDoublePress_writes_run)
next
  assume "takeovers_bound s"
  then show "reverb_edit_initialized hw (handleLongPress hw FOOTSWITCH_1 s)"
    by (rule handleLongPress_initialized)
next
  fix t
  assume "pedal_mode s \<noteq> PEDAL_MODE_EDIT_REVERB"
    "t \<in> set (observable_states (handleLongPress_writes hw FOOTSWITCH_1) s)"
    "pedal_mode t = PEDAL_MODE_EDIT_REVERB"
  then show "t = handleLongPress hw FOOTSWITCH_1 s" by (rule handleLongPress_1_observed)
next
  fix t
  assume "pedal_mode s \<noteq> PEDAL_MODE_EDIT_MONO_STEREO"
    "t \<in> set (observable_states (handleLongPress_writes hw FOOTSWITCH_2) s)"
    "pedal_mode t = PEDAL_MODE_EDIT_MONO_STEREO"
  then show "t = handleLongPress hw FOOTSWITCH_2 s" by (rule handleLongPress_2_observed)
next
  fix t
  assume "pedal_mode s = PEDAL_MODE_NORMAL"
    "t \<in> set (observable_states (handleDoublePress_writes hw FOOTSWITCH_1 s) s)"
    "pedal_mode t = PEDAL_MODE_TAP_TEMPO"
  then show "t = handleDoublePress hw FOOTSWITCH_1 s" by (rule handleDoublePress_1_observed)
next
  assume n: "pedal_mode s = PEDAL_MODE_NORMAL"
  then show "pedal_mode (handleDoublePress hw FOOTSWITCH_1 s) = PEDAL_MODE_TAP_TEMPO"
    by (simp add: handleDoublePress_def enterTapTempoMode_def Let_def cong: let_weak_cong)
  assume "takeovers_bound s"
  with n have "takeovers_bound (handleNormalPress hw FOOTSWITCH_1 s)"
    by (simp add: handleNormalPress_normal_bound)
  then have "tap_tempo_initialized hw (enterTapTempoMode hw (handleNormalPress hw FOOTSWITCH_1 s))"
    by (rule enterTapTempoMode_initialized)
  with n show "tap_tempo_initialized hw (handleDoublePress hw FOOTSWITCH_1 s)"
    by (simp add: handleDoublePress_def)
qed

text \<open>
  From the start-up state: the final state of each handler is observable, shows the new
  mode and is initialised; after five of the eleven writes of the long press the mode is
  still normal.
\<close>

theorem mode_assigned_last_witness:
  "pedal_mode (main_init None) \<noteq> PEDAL_MODE_EDIT_REVERB
   \<and> pedal_mode (main_init None) = PEDAL_MODE_NORMAL
   \<and> pedal_mode (main_init None) \<noteq> PEDAL_MODE_EDIT_MONO_STEREO
   \<and> takeovers_bound (main_init None)
   \<and> run_writes (handleLongPress_writes (hw_at (1 / 2) 7) FOOTSWITCH_1) (main_init None)
       \<in> set (observable_states (handleLongPress_writes (hw_at (1 / 2) 7) FOOTSWITCH_1)
            (main_init None))
   \<and> pedal_mode (run_writes (handleLongPress_writes (hw_at (1 / 2) 7) FOOTSWITCH_1)
        (main_init None)) = PEDAL_MODE_EDIT_REVERB
   \<and> reverb_edit_initialized (hw_at (1 / 2) 7)
        (run_writes (handleLongPress_writes (hw_at (1 / 2) 7) FOOTSWITCH_1) (main_init None))
   \<and> pedal_mode (run_writes (take 5 (handleLongPress_writes (hw_at (1 / 2) 7) FOOTSWITCH_1))
        (main_init None)) = PEDAL_MODE_NORMAL
   \<and> run_writes (handleDoublePress_writes (hw_at (1 / 2) 7) FOOTSWITCH_1 (main_init None))
        (main_init None)
       \<in> set (observable_states
            (handleDoublePress_writes (hw_at (1 / 2) 7) FOOTSWITCH_1 (main_init None))
            (main_init None))
   \<and> pedal_mode (run_writes
        (handleDoublePress_writes (hw_at (1 / 2) 7) FOOTSWITCH_1 (main_init None))
        (main_init None)) = PEDAL_MODE_TAP_TEMPO
   \<and> tap_tempo_initialized (hw_at (1 / 2) 7)
        (run_writes (handleDoublePress_writes (hw_at (1 / 2) 7) FOOTSWITCH_1 (main_init None))
           (main_init None))
   \<and> run_writes (handleLongPress_writes (hw_at (1 / 2) 7) FOOTSWITCH_2) (main_init None)
       \<in> set (observable_states (handleLongPress_writes (hw_at (1 / 2) 7) FOOTSWITCH_2)
            (main_init None))
   \<and> pedal_mode (run_writes (handleLongPress_writes (hw_at (1 / 2) 7) FOOTSWITCH_2)
        (main_init None)) = PEDAL_MODE_EDIT_MONO_STEREO"
proof -
  have m: "pedal_mode (main_init None) = PEDAL_MODE_NORMAL"
    by (simp add: main_init_def)
  have b: "takeovers_bound (main_init None)"
    by (simp add: main_init_def takeovers_bound_def KnobTakeover_init_def
        SwitchChangeDetector_init_def)
  have five: "pedal_mode (run_writes (take 5 (handleLongPress_writes (hw_at (1 / 2) 7)
        FOOTSWITCH_1)) (main_init None)) = PEDAL_MODE_NORMAL"
    by (simp add: handleLongPress_writes_def run_writes_def m)
  have o1: "run_writes (handleLongPress_writes (hw_at (1 / 2) 7) FOOTSWITCH_1) (main_init None)
       \<in> set (observable_states (handleLongPress_writes (hw_at (1 / 2) 7) FOOTSWITCH_1)
            (main_init None))"
    by (rule final_state_observable)
  have o2: "run_writes (handleDoublePress_writes (hw_at (1 / 2) 7) FOOTSWITCH_1 (main_init None))
        (main_init None)
       \<in> set (observable_states
            (handleDoublePress_writes (hw_at (1 / 2) 7) FOOTSWITCH_1 (main_init None))
            (main_init None))"
    by (rule final_state_observable)
  have o3: "run_writes (handleLongPress_writes (hw_at (1 / 2) 7) FOOTSWITCH_2) (main_init None)
       \<in> set (observable_states (handleLongPress_writes (hw_at (1 / 2) 7) FOOTSWITCH_2)
            (main_init None))"
    by (rule final_state_observable)
  have n1: "pedal_mode (main_init None) \<noteq> PEDAL_MODE_EDIT_REVERB"
    and n2: "pedal_mode (main_init None) \<noteq> PEDAL_MODE_EDIT_MONO_STEREO"
    by (simp_all add: m)
  note t = mode_assigned_last [of "main_init None" "hw_at (1 / 2) 7"]
  from t n1 b have r1:
    "run_writes (handleLongPress_writes (hw_at (1 / 2) 7) FOOTSWITCH_1) (main_init None)
       = handleLongPress (hw_at (1 / 2) 7) FOOTSWITCH_1 (main_init None)"
    "pedal_mode (handleLongPress (hw_at (1 / 2) 7) FOOTSWITCH_1 (main_init None))
       = PEDAL_MODE_EDIT_REVERB"
    "reverb_edit_initialized (hw_at (1 / 2) 7)
       (handleLongPress (hw_at (1 / 2) 7) FOOTSWITCH_1 (main_init None))"
    by blast+
  from t m b have r2:
    "run_writes (handleDoublePress_writes (hw_at (1 / 2) 7) FOOTSWITCH_1 (main_init None))
        (main_init None)
       = handleDoublePress (hw_at (1 / 2) 7) FOOTSWITCH_1 (main_init None)"
    "pedal_mode (handleDoublePress (hw_at (1 / 2) 7) FOOTSWITCH_1 (main_init None))
       = PEDAL_MODE_TAP_TEMPO"
    "tap_tempo_initialized (hw_at (1 / 2) 7)
       (handleDoublePress (hw_at (1 / 2) 7) FOOTSWITCH_1 (main_init None))"
    by blast+
  from t n2 have r3:
    "run_writes (handleLongPress_writes (hw_at (1 / 2) 7) FOOTSWITCH_2) (main_init None)
       = handleLongPress (hw_at (1 / 2) 7) FOOTSWITCH_2 (main_init None)"
    "pedal_mode (handleLongPress (hw_at (1 / 2) 7) FOOTSWITCH_2 (main_init None))
       = PEDAL_MODE_EDIT_MONO_STEREO"
    by blast+
  show ?thesis
    using m b five o1 o2 o3 n1 n2 r1(2,3) r2(2,3) r3(2)
    unfolding r1(1) r2(1) r3(1) by blast
qed

end
